theory Spec2Isabelle
  imports Complex_Main "HOL-Library.Sublist"
begin

section \<open>Values, exceptions and strings\<close>

text \<open>
  A Python \<open>float\<close> is an IEEE 754 binary64 number: \<open>Dbl m k\<close> is the finite number
  \<open>m / 2 ^ k\<close> (zero with the positive sign when \<open>m = 0\<close>), and there are the negative
  zero, the two infinities and not-a-number.
\<close>

datatype pyfloat = Dbl int nat | NegZero | PosInf | NegInf | NaN

text \<open>
  Case data is a Python dict from field names to JSON values. The endpoints take
  \<open>Dict[str, Any]\<close> and validate nothing, so a field holds whatever the JSON body had:
  \<open>None\<close>, a bool, an integer of any size, a float, a string, a list or a dict (kept as
  the list of its items, in order). \<open>bool\<close> is a subclass of \<open>int\<close> in Python and counts
  as 0 or 1 in arithmetic. Strings are byte strings in UTF-8: a character beyond ASCII
  is several \<open>char\<close>s.
\<close>

datatype pyval =
    VNone
  | VBool bool
  | VInt int
  | VFloat pyfloat
  | VStr string
  | VList "pyval list"
  | VDict "(string \<times> pyval) list"

type_synonym case_data = "string \<rightharpoonup> pyval"

text \<open>The dicts that the program builds and returns: result payloads and HTTP responses.\<close>

datatype jval =
    JNone
  | JBool bool
  | JInt int
  | JFloat pyfloat
  | JStr string
  | JList "jval list"
  | JDict "(string \<times> jval) list"

primrec jv :: "pyval \<Rightarrow> jval" where
  "jv VNone = JNone"
| "jv (VBool b) = JBool b"
| "jv (VInt n) = JInt n"
| "jv (VFloat x) = JFloat x"
| "jv (VStr s) = JStr s"
| "jv (VList xs) = JList (map jv xs)"
| "jv (VDict kvs) = JDict (map (map_prod id jv) kvs)"

text \<open>\<open>d[k]\<close> read from a returned dict, when \<open>d\<close> is one and has the key.\<close>

definition jget :: "jval \<Rightarrow> string \<Rightarrow> jval option" where
  "jget d k = (case d of JDict kvs \<Rightarrow> map_of kvs k | _ \<Rightarrow> None)"

text \<open>\<open>d.get(k, default)\<close>\<close>

definition dict_get :: "case_data \<Rightarrow> string \<Rightarrow> pyval \<Rightarrow> pyval" where
  "dict_get d k dflt = (case d k of None \<Rightarrow> dflt | Some v \<Rightarrow> v)"

text \<open>\<open>d.get(k)\<close>: the default is \<open>None\<close>.\<close>

definition dict_get_none :: "case_data \<Rightarrow> string \<Rightarrow> pyval" where
  "dict_get_none d k = dict_get d k VNone"

text \<open>
  An exception is kept with the text that \<open>str(e)\<close> gives. \<open>BackendError\<close> is whatever
  the inference backend (the crew's \<open>kickoff\<close>) or the construction of a crew raises.
\<close>

datatype exn =
    BackendError string
  | TypeError string
  | ValueError string
  | OverflowError string
  | KeyError string

fun str_exn :: "exn \<Rightarrow> string" where
  "str_exn (BackendError m) = m"
| "str_exn (TypeError m) = m"
| "str_exn (ValueError m) = m"
| "str_exn (OverflowError m) = m"
| "str_exn (KeyError m) = m"

text \<open>Sequencing: the first exception ends the computation.\<close>

definition and_then :: "exn + 'a \<Rightarrow> ('a \<Rightarrow> exn + 'b) \<Rightarrow> exn + 'b" where
  "and_then r f = (case r of Inl e \<Rightarrow> Inl e | Inr x \<Rightarrow> f x)"

fun collect :: "(exn + 'a) list \<Rightarrow> exn + 'a list" where
  "collect [] = Inr []"
| "collect (r # rs) =
     (case r of
        Inl e \<Rightarrow> Inl e
      | Inr x \<Rightarrow> (case collect rs of Inl e \<Rightarrow> Inl e | Inr xs \<Rightarrow> Inr (x # xs)))"

fun type_name :: "pyval \<Rightarrow> string" where
  "type_name VNone = ''NoneType''"
| "type_name (VBool _) = ''bool''"
| "type_name (VInt _) = ''int''"
| "type_name (VFloat _) = ''float''"
| "type_name (VStr _) = ''str''"
| "type_name (VList _) = ''list''"
| "type_name (VDict _) = ''dict''"

definition quoted :: "string \<Rightarrow> string" where
  "quoted s = [CHR 0x27] @ s @ [CHR 0x27]"

text \<open>The integer that an \<open>int\<close> or a \<open>bool\<close> stands for in arithmetic and comparisons.\<close>

fun num_of :: "pyval \<Rightarrow> int option" where
  "num_of (VInt n) = Some n"
| "num_of (VBool b) = Some (if b then 1 else 0)"
| "num_of _ = None"


subsection \<open>Strings\<close>

definition lower_char :: "char \<Rightarrow> char" where
  "lower_char c =
     (let n = (of_char c :: nat) in if 65 \<le> n \<and> n \<le> 90 then char_of (n + 32) else c)"

definition upper_char :: "char \<Rightarrow> char" where
  "upper_char c =
     (let n = (of_char c :: nat) in if 97 \<le> n \<and> n \<le> 122 then char_of (n - 32) else c)"

definition is_cased :: "char \<Rightarrow> bool" where
  "is_cased c = (let n = (of_char c :: nat) in (65 \<le> n \<and> n \<le> 90) \<or> (97 \<le> n \<and> n \<le> 122))"

text \<open>
  \<open>s.lower()\<close>, on the letters of ASCII; the bytes of any other character are left as
  they are. Python also lowers letters beyond ASCII. That changes no match with the
  keywords sought in a lowered string here: they are ASCII, and the only characters
  whose lower case has an ASCII letter in it are the Kelvin sign (\<open>k\<close>, in no keyword)
  and the dotted capital I (\<open>i\<close> followed by a combining dot, so that no keyword
  continues after it, and none ends in \<open>i\<close>).
\<close>

definition lower :: "string \<Rightarrow> string" where
  "lower s = map lower_char s"

text \<open>\<open>s.replace('_', ' ')\<close>\<close>

definition replace_underscore :: "string \<Rightarrow> string" where
  "replace_underscore s = map (\<lambda>c. if c = CHR ''_'' then CHR '' '' else c) s"

text \<open>
  \<open>s.title()\<close>: a cased character is put in upper case when the character before it is
  not cased, and in lower case otherwise.
\<close>

fun title_from :: "bool \<Rightarrow> string \<Rightarrow> string" where
  "title_from prev [] = []"
| "title_from prev (c # s) =
     (if is_cased c
      then (if prev then lower_char c else upper_char c) # title_from True s
      else c # title_from False s)"

definition title :: "string \<Rightarrow> string" where
  "title s = title_from False s"

fun starts_with :: "string \<Rightarrow> string \<Rightarrow> bool" where
  "starts_with s [] = True"
| "starts_with [] (k # ks) = False"
| "starts_with (c # s) (k # ks) = (c = k \<and> starts_with s ks)"

text \<open>\<open>k in s\<close> on strings: \<open>k\<close> occurs in \<open>s\<close> as a contiguous piece.\<close>

fun py_in :: "string \<Rightarrow> string \<Rightarrow> bool" where
  "py_in k [] = (k = [])"
| "py_in k (c # s) = (starts_with (c # s) k \<or> py_in k s)"

fun join :: "string \<Rightarrow> string list \<Rightarrow> string" where
  "join sep [] = []"
| "join sep [x] = x"
| "join sep (x # y # ys) = x @ sep @ join sep (y # ys)"

text \<open>
  \<open>repr(s)\<close> of a string: between single quotes, or between double quotes when the
  string has a single quote and no double quote; the quote character in use and the
  backslash are escaped with a backslash; tab, newline and carriage return are written
  \<open>\t\<close>, \<open>\n\<close>, \<open>\r\<close>, and any other control character as \<open>\x\<close> and two hexadecimal
  digits. The bytes of a character beyond ASCII are copied, which is what Python prints
  for a printable character.
\<close>

definition repr_quote :: "string \<Rightarrow> char" where
  "repr_quote s = (if CHR 0x27 \<in> set s \<and> CHR 0x22 \<notin> set s then CHR 0x22 else CHR 0x27)"

definition hex_digit :: "nat \<Rightarrow> char" where
  "hex_digit n = ''0123456789abcdef'' ! (n mod 16)"

definition repr_char :: "char \<Rightarrow> char \<Rightarrow> string" where
  "repr_char q c =
     (let n = (of_char c :: nat)
      in if c = q \<or> c = CHR 0x5C then [CHR 0x5C, c]
         else if c = CHR 0x09 then [CHR 0x5C, CHR ''t'']
         else if c = CHR 0x0A then [CHR 0x5C, CHR ''n'']
         else if c = CHR 0x0D then [CHR 0x5C, CHR ''r'']
         else if n < 32 \<or> n = 127 then [CHR 0x5C, CHR ''x'', hex_digit (n div 16), hex_digit n]
         else [c])"

definition repr_str :: "string \<Rightarrow> string" where
  "repr_str s = (let q = repr_quote s in [q] @ concat (map (repr_char q) s) @ [q])"

subsection \<open>Integers as text\<close>

function digits :: "int \<Rightarrow> string" where
  "digits n =
     (if n < 10 then [char_of (48 + n)] else digits (n div 10) @ [char_of (48 + n mod 10)])"
  by pat_completeness auto
termination
  by (relation "measure nat") auto

declare digits.simps [simp del]

text \<open>Thousands separators: a comma before every group of three digits, from the right.\<close>

fun group3 :: "string \<Rightarrow> string" where
  "group3 (a # b # c # d # rest) = a # b # c # CHR '','' # group3 (d # rest)"
| "group3 s = s"

definition commas :: "string \<Rightarrow> string" where
  "commas s = rev (group3 (rev s))"

text \<open>\<open>str(n)\<close> and \<open>format(n, ',')\<close> of an integer.\<close>

definition str_int :: "int \<Rightarrow> string" where
  "str_int n = (if n < 0 then CHR ''-'' # digits (- n) else digits n)"

definition format_int_comma :: "int \<Rightarrow> string" where
  "format_int_comma n = (if n < 0 then CHR ''-'' # commas (digits (- n)) else commas (digits n))"

definition pound :: string where
  "pound = [CHR 0xC2, CHR 0xA3]"

subsection \<open>Floating point: arithmetic\<close>

text \<open>
  The result of an operation on floats is the exact result rounded to binary64: to
  nearest, a tie to the even mantissa, with 53 significant bits, or fewer below the
  smallest normal number, where the spacing is \<open>2 ^ - 1074\<close>; a result that rounds to
  \<open>2 ^ 1024\<close> or beyond is an infinity.
\<close>

text \<open>The value of a finite float as a rational; the others are given 0.\<close>

definition float_val :: "pyfloat \<Rightarrow> rat" where
  "float_val x = (case x of Dbl m k \<Rightarrow> of_int m / 2 ^ k | _ \<Rightarrow> 0)"

function bit_length :: "int \<Rightarrow> nat" where
  "bit_length n = (if n \<le> 0 then 0 else Suc (bit_length (n div 2)))"
  by pat_completeness auto
termination
  by (relation "measure nat") auto

declare bit_length.simps [simp del]

text \<open>\<open>n / 2 ^ s\<close> rounded to the nearest integer, a tie to the even one (\<open>n \<ge> 0\<close>).\<close>

definition round_half_even :: "int \<Rightarrow> nat \<Rightarrow> int" where
  "round_half_even n s =
     (let q = n div 2 ^ s; r = n mod 2 ^ s
      in if 2 * r > 2 ^ s \<or> (2 * r = 2 ^ s \<and> odd q) then q + 1 else q)"

text \<open>A non-negative integer rounded to 53 significant bits.\<close>

definition round53 :: "int \<Rightarrow> int" where
  "round53 n = (let s = bit_length n - 53 in round_half_even n s * 2 ^ s)"

text \<open>
  The number \<open>a / 2 ^ k\<close> (\<open>a \<ge> 0\<close>) with the sign given, rounded to a double. The
  mantissa is cut to 53 bits, or at \<open>2 ^ - 1074\<close> if that leaves fewer.
\<close>

definition round_to_double :: "bool \<Rightarrow> int \<Rightarrow> nat \<Rightarrow> pyfloat" where
  "round_to_double negative a k =
     (let s = nat (max (int (bit_length a) - 53) (int k - 1074));
          r = round_half_even a s * 2 ^ s
      in if r = 0 then (if negative then NegZero else Dbl 0 0)
         else if r \<ge> 2 ^ (1024 + k) then (if negative then NegInf else PosInf)
         else Dbl (if negative then - r else r) k)"

text \<open>The literals: \<open>0.7 = 0x1.6666666666666p-1\<close> and \<open>0.4 = 0x1.999999999999ap-2\<close>.\<close>

definition dbl_0_7 :: pyfloat where
  "dbl_0_7 = Dbl 0x16666666666666 53"

definition dbl_0_4 :: pyfloat where
  "dbl_0_4 = Dbl 0x1999999999999A 54"

text \<open>\<open>float(n)\<close>: correctly rounded; \<open>OverflowError\<close> beyond the largest double.\<close>

definition float_of_int :: "int \<Rightarrow> exn + pyfloat" where
  "float_of_int n =
     (let r = round53 \<bar>n\<bar>
      in if r \<ge> 2 ^ 1024 then Inl (OverflowError ''int too large to convert to float'')
         else Inr (Dbl (sgn n * r) 0))"

text \<open>The sign bit, the infinities, the zeros, and the magnitude of a finite float.\<close>

fun float_sign :: "pyfloat \<Rightarrow> bool" where
  "float_sign (Dbl m k) = (m < 0)"
| "float_sign NegZero = True"
| "float_sign NegInf = True"
| "float_sign PosInf = False"
| "float_sign NaN = False"

fun is_inf :: "pyfloat \<Rightarrow> bool" where
  "is_inf PosInf = True"
| "is_inf NegInf = True"
| "is_inf _ = False"

fun is_zero :: "pyfloat \<Rightarrow> bool" where
  "is_zero (Dbl m k) = (m = 0)"
| "is_zero NegZero = True"
| "is_zero _ = False"

fun mantissa :: "pyfloat \<Rightarrow> int" where
  "mantissa (Dbl m k) = m"
| "mantissa _ = 0"

fun exponent :: "pyfloat \<Rightarrow> nat" where
  "exponent (Dbl m k) = k"
| "exponent _ = 0"

text \<open>\<open>x * y\<close> on floats.\<close>

definition float_mul :: "pyfloat \<Rightarrow> pyfloat \<Rightarrow> pyfloat" where
  "float_mul x y =
     (let negative = (float_sign x \<noteq> float_sign y)
      in if x = NaN \<or> y = NaN then NaN
         else if is_inf x \<or> is_inf y
         then (if is_zero x \<or> is_zero y then NaN else if negative then NegInf else PosInf)
         else round_to_double negative \<bar>mantissa x * mantissa y\<bar> (exponent x + exponent y))"

text \<open>\<open>- x\<close> and \<open>x + y\<close> on floats. An exact sum of zero is \<open>-0.0\<close> only for \<open>-0.0 + -0.0\<close>.\<close>

fun float_neg :: "pyfloat \<Rightarrow> pyfloat" where
  "float_neg (Dbl m k) = (if m = 0 then NegZero else Dbl (- m) k)"
| "float_neg NegZero = Dbl 0 0"
| "float_neg PosInf = NegInf"
| "float_neg NegInf = PosInf"
| "float_neg NaN = NaN"

definition float_add :: "pyfloat \<Rightarrow> pyfloat \<Rightarrow> pyfloat" where
  "float_add x y =
     (if x = NaN \<or> y = NaN then NaN
      else if is_inf x then (if is_inf y \<and> x \<noteq> y then NaN else x)
      else if is_inf y then y
      else
        (let k = max (exponent x) (exponent y);
             s = mantissa x * 2 ^ (k - exponent x) + mantissa y * 2 ^ (k - exponent y)
         in if s = 0 then (if float_sign x \<and> float_sign y then NegZero else Dbl 0 0)
            else round_to_double (s < 0) \<bar>s\<bar> k))"

text \<open>\<open>x - y\<close> on floats.\<close>

definition float_sub :: "pyfloat \<Rightarrow> pyfloat \<Rightarrow> pyfloat" where
  "float_sub x y = float_add x (float_neg y)"

text \<open>
  Comparisons. Python compares an integer and a float by their exact values; any
  comparison with not-a-number is false.
\<close>

definition float_gt :: "pyfloat \<Rightarrow> pyfloat \<Rightarrow> bool" where
  "float_gt x y =
     (if x = NaN \<or> y = NaN then False
      else if x = PosInf then y \<noteq> PosInf
      else if y = NegInf then x \<noteq> NegInf
      else if x = NegInf \<or> y = PosInf then False
      else mantissa x * 2 ^ exponent y > mantissa y * 2 ^ exponent x)"

definition float_gt_int :: "pyfloat \<Rightarrow> int \<Rightarrow> bool" where
  "float_gt_int x n = float_gt x (Dbl n 0)"

definition int_gt_float :: "int \<Rightarrow> pyfloat \<Rightarrow> bool" where
  "int_gt_float n x = float_gt (Dbl n 0) x"

text \<open>\<open>v > n\<close> with an integer literal on the right.\<close>

definition py_gt :: "pyval \<Rightarrow> int \<Rightarrow> exn + bool" where
  "py_gt v n =
     (case num_of v of
        Some m \<Rightarrow> Inr (m > n)
      | None \<Rightarrow>
          (case v of
             VFloat x \<Rightarrow> Inr (float_gt_int x n)
           | _ \<Rightarrow>
               Inl (TypeError (quoted ''>'' @ '' not supported between instances of ''
                      @ quoted (type_name v) @ '' and '' @ quoted ''int''))))"

text \<open>
  The float that an operand of mixed arithmetic stands for: a float is itself, an
  integer is converted, which raises \<open>OverflowError\<close> when it is too large.
\<close>

definition as_float :: "pyval \<Rightarrow> (exn + pyfloat) option" where
  "as_float v =
     (case num_of v of
        Some n \<Rightarrow> Some (float_of_int n)
      | None \<Rightarrow> (case v of VFloat x \<Rightarrow> Some (Inr x) | _ \<Rightarrow> None))"

text \<open>\<open>a - b\<close>: exact on integers; with a float on either side, the difference of two floats.\<close>

definition py_sub :: "pyval \<Rightarrow> pyval \<Rightarrow> exn + pyval" where
  "py_sub a b =
     (case (num_of a, num_of b) of
        (Some m, Some n) \<Rightarrow> Inr (VInt (m - n))
      | _ \<Rightarrow>
          (case (as_float a, as_float b) of
             (Some x, Some y) \<Rightarrow>
               and_then x (\<lambda>x'. and_then y (\<lambda>y'. Inr (VFloat (float_sub x' y'))))
           | _ \<Rightarrow>
               Inl (TypeError (''unsupported operand type(s) for -: '' @ quoted (type_name a)
                      @ '' and '' @ quoted (type_name b)))))"

text \<open>\<open>v * c\<close> with a float literal \<open>c\<close>: an integer is converted to a float first.\<close>

definition py_mul_float :: "pyval \<Rightarrow> pyfloat \<Rightarrow> exn + pyfloat" where
  "py_mul_float v c =
     (case num_of v of
        Some n \<Rightarrow> and_then (float_of_int n) (\<lambda>x. Inr (float_mul x c))
      | None \<Rightarrow>
          (case v of
             VFloat x \<Rightarrow> Inr (float_mul x c)
           | VStr _ \<Rightarrow>
               Inl (TypeError (''can'' @ [CHR 0x27] @ ''t multiply sequence by non-int of type ''
                      @ quoted ''float''))
           | VList _ \<Rightarrow>
               Inl (TypeError (''can'' @ [CHR 0x27] @ ''t multiply sequence by non-int of type ''
                      @ quoted ''float''))
           | _ \<Rightarrow>
               Inl (TypeError (''unsupported operand type(s) for *: '' @ quoted (type_name v)
                      @ '' and '' @ quoted ''float''))))"

text \<open>\<open>v > x\<close> with a float on the right.\<close>

definition py_gt_float :: "pyval \<Rightarrow> pyfloat \<Rightarrow> exn + bool" where
  "py_gt_float v x =
     (case num_of v of
        Some n \<Rightarrow> Inr (int_gt_float n x)
      | None \<Rightarrow>
          (case v of
             VFloat y \<Rightarrow> Inr (float_gt y x)
           | _ \<Rightarrow>
               Inl (TypeError (quoted ''>'' @ '' not supported between instances of ''
                      @ quoted (type_name v) @ '' and '' @ quoted ''float''))))"

text \<open>
  \<open>max(0, x)\<close>: \<open>x\<close> when \<open>x > 0\<close>, else the integer 0, which is kept as the float zero
  (both print as \<open>0\<close> with no decimals). Not-a-number is not greater than 0.
\<close>

definition py_max0 :: "pyfloat \<Rightarrow> pyfloat" where
  "py_max0 x = (if float_gt_int x 0 then x else Dbl 0 0)"

text \<open>\<open>x >= 0\<close>\<close>

definition float_ge_zero :: "pyfloat \<Rightarrow> bool" where
  "float_ge_zero x = (x \<noteq> NaN \<and> \<not> float_gt (Dbl 0 0) x)"

subsection \<open>Floating point: text\<close>

text \<open>\<open>format(x, ',.0f')\<close>: rounded to an integer (ties to even), then thousands separators.\<close>

definition format_float_comma0 :: "pyfloat \<Rightarrow> string" where
  "format_float_comma0 x =
     (case x of
        Dbl m k \<Rightarrow> (if m < 0 then ''-'' else []) @ commas (digits (round_half_even \<bar>m\<bar> k))
      | NegZero \<Rightarrow> ''-0''
      | PosInf \<Rightarrow> ''inf''
      | NegInf \<Rightarrow> ''-inf''
      | NaN \<Rightarrow> ''nan'')"

text \<open>
  \<open>repr(x)\<close> writes the shortest decimal that reads back as \<open>x\<close>, and of those the one
  nearest to \<open>x\<close>. A decimal reads back as \<open>x\<close> when it lies between the midpoints to
  the two neighbours of \<open>x\<close>, a midpoint counting when the mantissa of \<open>x\<close> is even.
  All numbers are scaled by \<open>2 ^ t\<close> to integers: for \<open>x = a / 2 ^ k\<close> (\<open>a > 0\<close>) the
  result is \<open>t\<close>, \<open>x\<close>, the two midpoints and whether the mantissa is even. The spacing
  of the doubles at \<open>x\<close> is \<open>2 ^ e\<close>; below a power of two it is half of that.
\<close>

definition double_interval :: "int \<Rightarrow> nat \<Rightarrow> nat \<times> int \<times> int \<times> int \<times> bool" where
  "double_interval a k =
     (let bl = bit_length a;
          e = max (int bl - 53 - int k) (- 1074);
          t = nat (max (int k) (2 - e));
          v = a * 2 ^ (t - k);
          above = 2 ^ nat (int t + e - 1);
          below = (if a = 2 ^ (bl - 1) \<and> e > - 1074 then 2 ^ nat (int t + e - 2) else above)
      in (t, v, v - below, v + above, even (v div 2 ^ nat (int t + e))))"

text \<open>The position of the decimal point: \<open>p\<close> with \<open>10 ^ (p - 1) \<le> a / 2 ^ k < 10 ^ p\<close>.\<close>

definition dec_point :: "int \<Rightarrow> nat \<Rightarrow> int" where
  "dec_point a k =
     (if a \<ge> 2 ^ k then int (length (digits (a div 2 ^ k)))
      else (case find (\<lambda>j. a * 10 ^ j \<ge> 2 ^ k) [0..<Suc k] of
              Some j \<Rightarrow> 1 - int j
            | None \<Rightarrow> 0))"

text \<open>
  The decimal of \<open>n\<close> digits that reads back as \<open>x\<close>, if there is one: of the two
  \<open>n\<close>-digit decimals around \<open>x\<close> the one in the interval, the nearer one if both are,
  the one with the even last digit if they are equally near.
\<close>

definition digit_candidate :: "int \<Rightarrow> nat \<Rightarrow> int \<Rightarrow> nat \<Rightarrow> int option" where
  "digit_candidate a k p n =
     (case double_interval a k of (t, v, lo, hi, even_mantissa) \<Rightarrow>
        (let up = 10 ^ nat (int n - p);
             unit = 2 ^ t * 10 ^ nat (p - int n);
             w = v * up;
             d0 = w div unit;
             c0 = d0 * unit;
             c1 = (d0 + 1) * unit;
             inside = (\<lambda>c. (lo * up < c \<and> c < hi * up)
                            \<or> (even_mantissa \<and> (c = lo * up \<or> c = hi * up)))
         in if inside c0 \<and> inside c1
            then Some (if w - c0 < c1 - w then d0
                       else if c1 - w < w - c0 then d0 + 1
                       else if even d0 then d0 else d0 + 1)
            else if inside c0 then Some d0
            else if inside c1 then Some (d0 + 1)
            else None))"

text \<open>
  The digits of \<open>repr\<close>, without trailing zeros, and the position of the decimal point
  before them (the number is \<open>0.digits * 10 ^ point\<close>). Seventeen digits are enough for
  every double.
\<close>

definition shortest_digits :: "int \<Rightarrow> nat \<Rightarrow> string \<times> int" where
  "shortest_digits a k =
     (let p = dec_point a k
      in case find (\<lambda>n. digit_candidate a k p n \<noteq> None) [1..<18] of
           None \<Rightarrow> (''0'', 1)
         | Some n \<Rightarrow>
             (let ds = digits (the (digit_candidate a k p n))
              in (rev (dropWhile (\<lambda>c. c = CHR ''0'') (rev ds)), int (length ds) + p - int n)))"

text \<open>
  The layout of \<open>repr\<close>: with an exponent when the decimal point is more than 16 places
  to the right or more than 3 to the left of the digits, the exponent with its sign and
  at least two digits; otherwise in positional notation with at least one digit after
  the point. With \<open>grouped\<close>, the integer part gets thousands separators.
\<close>

definition float_layout :: "bool \<Rightarrow> string \<Rightarrow> int \<Rightarrow> string" where
  "float_layout grouped ds point =
     (let grp = (\<lambda>s. if grouped then commas s else s)
      in if point > 16 \<or> point < - 3
         then (let e = point - 1; es = digits \<bar>e\<bar>
               in [hd ds] @ (if length ds > 1 then ''.'' @ tl ds else [])
                  @ ''e'' @ (if e < 0 then ''-'' else ''+'')
                  @ (if length es < 2 then ''0'' @ es else es))
         else if point \<le> 0 then ''0.'' @ replicate (nat (- point)) CHR ''0'' @ ds
         else if point \<ge> int (length ds)
         then grp (ds @ replicate (nat point - length ds) CHR ''0'') @ ''.0''
         else grp (take (nat point) ds) @ ''.'' @ drop (nat point) ds)"

definition float_text :: "bool \<Rightarrow> pyfloat \<Rightarrow> string" where
  "float_text grouped x =
     (case x of
        Dbl m k \<Rightarrow>
          (if m = 0 then ''0.0''
           else (if m < 0 then ''-'' else [])
                @ (case shortest_digits \<bar>m\<bar> k of (ds, point) \<Rightarrow> float_layout grouped ds point))
      | NegZero \<Rightarrow> ''-0.0''
      | PosInf \<Rightarrow> ''inf''
      | NegInf \<Rightarrow> ''-inf''
      | NaN \<Rightarrow> ''nan'')"

text \<open>\<open>repr(x)\<close>, which is also \<open>str(x)\<close>, and \<open>format(x, ',')\<close>.\<close>

definition float_repr :: "pyfloat \<Rightarrow> string" where
  "float_repr x = float_text False x"

definition format_float_comma :: "pyfloat \<Rightarrow> string" where
  "format_float_comma x = float_text True x"

subsection \<open>Values as text\<close>

text \<open>\<open>repr(v)\<close>; a list and a dict print the \<open>repr\<close> of what they hold.\<close>

primrec py_repr :: "pyval \<Rightarrow> string" where
  "py_repr VNone = ''None''"
| "py_repr (VBool b) = (if b then ''True'' else ''False'')"
| "py_repr (VInt n) = str_int n"
| "py_repr (VFloat x) = float_repr x"
| "py_repr (VStr s) = repr_str s"
| "py_repr (VList xs) = ''['' @ join '', '' (map py_repr xs) @ '']''"
| "py_repr (VDict kvs) =
     ''{'' @ join '', '' (map (\<lambda>p. repr_str (fst p) @ '': '' @ snd p) (map (map_prod id py_repr) kvs))
       @ ''}''"

text \<open>\<open>str(v)\<close>: a string is itself, anything else prints its \<open>repr\<close>.\<close>

definition py_str :: "pyval \<Rightarrow> string" where
  "py_str v = (case v of VStr s \<Rightarrow> s | _ \<Rightarrow> py_repr v)"

text \<open>
  \<open>f"{v:,}"\<close>: an integer (or a bool, which formats as its integer) and a float get
  thousands separators; a string raises \<open>ValueError\<close>; \<open>None\<close>, a list and a dict raise
  \<open>TypeError\<close>.
\<close>

definition format_comma :: "pyval \<Rightarrow> exn + string" where
  "format_comma v =
     (case num_of v of
        Some n \<Rightarrow> Inr (format_int_comma n)
      | None \<Rightarrow>
          (case v of
             VFloat x \<Rightarrow> Inr (format_float_comma x)
           | VStr _ \<Rightarrow>
               Inl (ValueError (''Cannot specify '' @ quoted '','' @ '' with '' @ quoted ''s'' @ ''.''))
           | _ \<Rightarrow>
               Inl (TypeError (''unsupported format string passed to '' @ type_name v
                      @ ''.__format__''))))"

section \<open>Knowledge lookup: \<open>UKLegalResearchTool\<close>\<close>

text \<open>
  \<open>_load_comprehensive_legal_knowledge\<close>: a dict with five sections, in this order. The
  text of a section is a triple-quoted literal: it starts with a newline, and each of
  its lines carries the indentation of the source file.
\<close>

type_synonym knowledge = "(string \<times> string) list"

definition inheritance_tax_2024_25_text :: string where
  "inheritance_tax_2024_25_text =
     [CHR 0x0A]
     @ ''            UK Inheritance Tax (2024/25 Tax Year) - Current Rates and Rules:'' @ [CHR 0x0A]
     @ ''            '' @ [CHR 0x0A]
     @ ''            RATES AND THRESHOLDS:'' @ [CHR 0x0A]
     @ ''            '' @ [CHR 0xE2, CHR 0x80, CHR 0xA2] @ '' Nil-rate band: '' @ [CHR 0xC2, CHR 0xA3] @ ''325,000 (frozen until April 2028)'' @ [CHR 0x0A]
     @ ''            '' @ [CHR 0xE2, CHR 0x80, CHR 0xA2] @ '' Residence nil-rate band: '' @ [CHR 0xC2, CHR 0xA3] @ ''175,000 (for family homes passed to direct descendants)'' @ [CHR 0x0A]
     @ ''            '' @ [CHR 0xE2, CHR 0x80, CHR 0xA2] @ '' Combined maximum threshold: '' @ [CHR 0xC2, CHR 0xA3] @ ''500,000 for qualifying estates'' @ [CHR 0x0A]
     @ ''            '' @ [CHR 0xE2, CHR 0x80, CHR 0xA2] @ '' Standard rate: 40% on excess above thresholds'' @ [CHR 0x0A]
     @ ''            '' @ [CHR 0xE2, CHR 0x80, CHR 0xA2] @ '' Reduced rate: 36% if 10% or more left to charity'' @ [CHR 0x0A]
     @ ''            '' @ [CHR 0xE2, CHR 0x80, CHR 0xA2] @ '' Transferable nil-rate band: Unused portion from deceased spouse/civil partner'' @ [CHR 0x0A]
     @ ''            '' @ [CHR 0x0A]
     @ ''            KEY EXEMPTIONS AND RELIEFS:'' @ [CHR 0x0A]
     @ ''            '' @ [CHR 0xE2, CHR 0x80, CHR 0xA2] @ '' Spouse/civil partner: Unlimited exemption (UK domiciled)'' @ [CHR 0x0A]
     @ ''            '' @ [CHR 0xE2, CHR 0x80, CHR 0xA2] @ '' Charity gifts: 100% exempt'' @ [CHR 0x0A]
     @ ''            '' @ [CHR 0xE2, CHR 0x80, CHR 0xA2] @ '' Annual exemption: '' @ [CHR 0xC2, CHR 0xA3] @ ''3,000 per year (can carry forward one year)'' @ [CHR 0x0A]
     @ ''            '' @ [CHR 0xE2, CHR 0x80, CHR 0xA2] @ '' Small gifts: '' @ [CHR 0xC2, CHR 0xA3] @ ''250 per person per year'' @ [CHR 0x0A]
     @ ''            '' @ [CHR 0xE2, CHR 0x80, CHR 0xA2] @ '' Wedding gifts: '' @ [CHR 0xC2, CHR 0xA3] @ ''5,000 (child), '' @ [CHR 0xC2, CHR 0xA3] @ ''2,500 (grandchild), '' @ [CHR 0xC2, CHR 0xA3] @ ''1,000 (others)'' @ [CHR 0x0A]
     @ ''            '' @ [CHR 0xE2, CHR 0x80, CHR 0xA2] @ '' Business Property Relief: 50% or 100% depending on asset type'' @ [CHR 0x0A]
     @ ''            '' @ [CHR 0xE2, CHR 0x80, CHR 0xA2] @ '' Agricultural Property Relief: 50% or 100% for qualifying agricultural property'' @ [CHR 0x0A]
     @ ''            '' @ [CHR 0x0A]
     @ ''            PAYMENT AND COMPLIANCE:'' @ [CHR 0x0A]
     @ ''            '' @ [CHR 0xE2, CHR 0x80, CHR 0xA2] @ '' Payment due: 6 months after death'' @ [CHR 0x0A]
     @ ''            '' @ [CHR 0xE2, CHR 0x80, CHR 0xA2] @ '' Interest charged: Bank of England base rate + 2.5% on late payments'' @ [CHR 0x0A]
     @ ''            '' @ [CHR 0xE2, CHR 0x80, CHR 0xA2] @ '' Installments available: For certain assets (property, business assets)'' @ [CHR 0x0A]
     @ ''            '' @ [CHR 0xE2, CHR 0x80, CHR 0xA2] @ '' Forms required: IHT400 (estates >'' @ [CHR 0xC2, CHR 0xA3] @ ''325,000), IHT205 (smaller estates)'' @ [CHR 0x0A]
     @ ''            '' @ [CHR 0xE2, CHR 0x80, CHR 0xA2] @ '' Professional valuation: Required for assets >'' @ [CHR 0xC2, CHR 0xA3] @ ''1,500 individual value'' @ [CHR 0x0A]
     @ ''            ''"

definition probate_process_2024_text :: string where
  "probate_process_2024_text =
     [CHR 0x0A]
     @ ''            UK Probate Process (2024 Current Procedures):'' @ [CHR 0x0A]
     @ ''            '' @ [CHR 0x0A]
     @ ''            WHEN PROBATE IS REQUIRED:'' @ [CHR 0x0A]
     @ ''            '' @ [CHR 0xE2, CHR 0x80, CHR 0xA2] @ '' Estate value over '' @ [CHR 0xC2, CHR 0xA3] @ ''5,000 in England and Wales'' @ [CHR 0x0A]
     @ ''            '' @ [CHR 0xE2, CHR 0x80, CHR 0xA2] @ '' Property held in sole name (any value)'' @ [CHR 0x0A]
     @ ''            '' @ [CHR 0xE2, CHR 0x80, CHR 0xA2] @ '' Shares/investments over '' @ [CHR 0xC2, CHR 0xA3] @ ''15,000-'' @ [CHR 0xC2, CHR 0xA3] @ ''50,000 (varies by institution)'' @ [CHR 0x0A]
     @ ''            '' @ [CHR 0xE2, CHR 0x80, CHR 0xA2] @ '' Some banks require probate for amounts as low as '' @ [CHR 0xC2, CHR 0xA3] @ ''5,000'' @ [CHR 0x0A]
     @ ''            '' @ [CHR 0xE2, CHR 0x80, CHR 0xA2] @ '' Not required for jointly owned assets passing by survivorship'' @ [CHR 0x0A]
     @ ''            '' @ [CHR 0x0A]
     @ ''            APPLICATION PROCESS:'' @ [CHR 0x0A]
     @ ''            '' @ [CHR 0xE2, CHR 0x80, CHR 0xA2] @ '' Online application: Available via GOV.UK (faster processing)'' @ [CHR 0x0A]
     @ ''            '' @ [CHR 0xE2, CHR 0x80, CHR 0xA2] @ '' Postal application: PA1P (with will) or PA1A (without will)'' @ [CHR 0x0A]
     @ ''            '' @ [CHR 0xE2, CHR 0x80, CHR 0xA2] @ '' Court fee: '' @ [CHR 0xC2, CHR 0xA3] @ ''273 for estates over '' @ [CHR 0xC2, CHR 0xA3] @ ''5,000 (no fee for estates under '' @ [CHR 0xC2, CHR 0xA3] @ ''5,000)'' @ [CHR 0x0A]
     @ ''            '' @ [CHR 0xE2, CHR 0x80, CHR 0xA2] @ '' Additional copies: '' @ [CHR 0xC2, CHR 0xA3] @ ''1.50 each (sealed copies)'' @ [CHR 0x0A]
     @ ''            '' @ [CHR 0xE2, CHR 0x80, CHR 0xA2] @ '' Processing time: 8-16 weeks (online faster than postal)'' @ [CHR 0x0A]
     @ ''            '' @ [CHR 0xE2, CHR 0x80, CHR 0xA2] @ '' Express service: Available for urgent cases (additional fee)'' @ [CHR 0x0A]
     @ ''            '' @ [CHR 0x0A]
     @ ''            REQUIRED DOCUMENTS:'' @ [CHR 0x0A]
     @ ''            '' @ [CHR 0xE2, CHR 0x80, CHR 0xA2] @ '' Original death certificate (certified copy acceptable)'' @ [CHR 0x0A]
     @ ''            '' @ [CHR 0xE2, CHR 0x80, CHR 0xA2] @ '' Original will and any codicils (if they exist)'' @ [CHR 0x0A]
     @ ''            '' @ [CHR 0xE2, CHR 0x80, CHR 0xA2] @ '' Inheritance tax forms (IHT205 or IHT400)'' @ [CHR 0x0A]
     @ ''            '' @ [CHR 0xE2, CHR 0x80, CHR 0xA2] @ '' Oath for executors/administrators'' @ [CHR 0x0A]
     @ ''            '' @ [CHR 0xE2, CHR 0x80, CHR 0xA2] @ '' Asset and debt schedules'' @ [CHR 0x0A]
     @ ''            '' @ [CHR 0x0A]
     @ ''            EXECUTOR DUTIES AND RESPONSIBILITIES:'' @ [CHR 0x0A]
     @ ''            '' @ [CHR 0xE2, CHR 0x80, CHR 0xA2] @ '' Fiduciary duty to act in best interests of estate and beneficiaries'' @ [CHR 0x0A]
     @ ''            '' @ [CHR 0xE2, CHR 0x80, CHR 0xA2] @ '' Must not profit from position unless specifically authorized'' @ [CHR 0x0A]
     @ ''            '' @ [CHR 0xE2, CHR 0x80, CHR 0xA2] @ '' Duty to preserve and protect estate assets'' @ [CHR 0x0A]
     @ ''            '' @ [CHR 0xE2, CHR 0x80, CHR 0xA2] @ '' Must distribute according to will terms or intestacy rules'' @ [CHR 0x0A]
     @ ''            '' @ [CHR 0xE2, CHR 0x80, CHR 0xA2] @ '' Personal liability for mistakes or breaches of duty'' @ [CHR 0x0A]
     @ ''            '' @ [CHR 0xE2, CHR 0x80, CHR 0xA2] @ '' Can be removed by court for failing in duties'' @ [CHR 0x0A]
     @ ''            '' @ [CHR 0xE2, CHR 0x80, CHR 0xA2] @ '' Should consider professional indemnity insurance'' @ [CHR 0x0A]
     @ ''            ''"

definition property_valuation_probate_2024_text :: string where
  "property_valuation_probate_2024_text =
     [CHR 0x0A]
     @ ''            Property Valuation for Probate (2024 Requirements):'' @ [CHR 0x0A]
     @ ''            '' @ [CHR 0x0A]
     @ ''            VALUATION PRINCIPLES:'' @ [CHR 0x0A]
     @ ''            '' @ [CHR 0xE2, CHR 0x80, CHR 0xA2] @ '' Open market value at date of death (not forced sale value)'' @ [CHR 0x0A]
     @ ''            '' @ [CHR 0xE2, CHR 0x80, CHR 0xA2] @ '' Professional valuation recommended for properties >'' @ [CHR 0xC2, CHR 0xA3] @ ''500,000'' @ [CHR 0x0A]
     @ ''            '' @ [CHR 0xE2, CHR 0x80, CHR 0xA2] @ '' RICS qualified surveyor preferred for accuracy and HMRC acceptance'' @ [CHR 0x0A]
     @ ''            '' @ [CHR 0xE2, CHR 0x80, CHR 0xA2] @ '' Joint valuations acceptable for jointly owned property'' @ [CHR 0x0A]
     @ ''            '' @ [CHR 0xE2, CHR 0x80, CHR 0xA2] @ '' Consider any restrictions, rights of way, or planning issues'' @ [CHR 0x0A]
     @ ''            '' @ [CHR 0x0A]
     @ ''            VALUATION METHODS:'' @ [CHR 0x0A]
     @ ''            '' @ [CHR 0xE2, CHR 0x80, CHR 0xA2] @ '' Comparative method: Recent sales of similar properties'' @ [CHR 0x0A]
     @ ''            '' @ [CHR 0xE2, CHR 0x80, CHR 0xA2] @ '' Investment method: For rental properties (yield-based)'' @ [CHR 0x0A]
     @ ''            '' @ [CHR 0xE2, CHR 0x80, CHR 0xA2] @ '' Residual method: For development land'' @ [CHR 0x0A]
     @ ''            '' @ [CHR 0xE2, CHR 0x80, CHR 0xA2] @ '' Profits method: For specialized properties (pubs, hotels)'' @ [CHR 0x0A]
     @ ''            '' @ [CHR 0x0A]
     @ ''            HMRC CONSIDERATIONS:'' @ [CHR 0x0A]
     @ ''            '' @ [CHR 0xE2, CHR 0x80, CHR 0xA2] @ '' May challenge unrealistic valuations (too high or too low)'' @ [CHR 0x0A]
     @ ''            '' @ [CHR 0xE2, CHR 0x80, CHR 0xA2] @ '' Can request second independent valuation'' @ [CHR 0x0A]
     @ ''            '' @ [CHR 0xE2, CHR 0x80, CHR 0xA2] @ '' Penalties for deliberate undervaluation: Up to 100% of tax due'' @ [CHR 0x0A]
     @ ''            '' @ [CHR 0xE2, CHR 0x80, CHR 0xA2] @ '' Safe harbor: Professional valuation provides protection'' @ [CHR 0x0A]
     @ ''            '' @ [CHR 0xE2, CHR 0x80, CHR 0xA2] @ '' Market conditions: Consider economic factors at date of death'' @ [CHR 0x0A]
     @ ''            '' @ [CHR 0x0A]
     @ ''            SPECIAL SITUATIONS:'' @ [CHR 0x0A]
     @ ''            '' @ [CHR 0xE2, CHR 0x80, CHR 0xA2] @ '' Jointly owned property: Value whole property, then apply ownership percentage'' @ [CHR 0x0A]
     @ ''            '' @ [CHR 0xE2, CHR 0x80, CHR 0xA2] @ '' Leasehold property: Consider lease terms and ground rent'' @ [CHR 0x0A]
     @ ''            '' @ [CHR 0xE2, CHR 0x80, CHR 0xA2] @ '' Agricultural property: May qualify for Agricultural Property Relief'' @ [CHR 0x0A]
     @ ''            '' @ [CHR 0xE2, CHR 0x80, CHR 0xA2] @ '' Business property: May qualify for Business Property Relief'' @ [CHR 0x0A]
     @ ''            '' @ [CHR 0xE2, CHR 0x80, CHR 0xA2] @ '' Overseas property: Include in UK estate if UK domiciled'' @ [CHR 0x0A]
     @ ''            ''"

definition estate_administration_best_practices_text :: string where
  "estate_administration_best_practices_text =
     [CHR 0x0A]
     @ ''            Estate Administration Best Practices (2024):'' @ [CHR 0x0A]
     @ ''            '' @ [CHR 0x0A]
     @ ''            IMMEDIATE ACTIONS (First 2 weeks):'' @ [CHR 0x0A]
     @ ''            '' @ [CHR 0xE2, CHR 0x80, CHR 0xA2] @ '' Register death and obtain multiple death certificates'' @ [CHR 0x0A]
     @ ''            '' @ [CHR 0xE2, CHR 0x80, CHR 0xA2] @ '' Secure property and valuable assets'' @ [CHR 0x0A]
     @ ''            '' @ [CHR 0xE2, CHR 0x80, CHR 0xA2] @ '' Notify banks, insurers, pension providers, HMRC'' @ [CHR 0x0A]
     @ ''            '' @ [CHR 0xE2, CHR 0x80, CHR 0xA2] @ '' Cancel benefits, driving license, passport'' @ [CHR 0x0A]
     @ ''            '' @ [CHR 0xE2, CHR 0x80, CHR 0xA2] @ '' Arrange funeral and settle funeral expenses'' @ [CHR 0x0A]
     @ ''            '' @ [CHR 0xE2, CHR 0x80, CHR 0xA2] @ '' Locate will and important documents'' @ [CHR 0x0A]
     @ ''            '' @ [CHR 0x0A]
     @ ''            ASSET COLLECTION AND VALUATION:'' @ [CHR 0x0A]
     @ ''            '' @ [CHR 0xE2, CHR 0x80, CHR 0xA2] @ '' Bank accounts and building society accounts'' @ [CHR 0x0A]
     @ ''            '' @ [CHR 0xE2, CHR 0x80, CHR 0xA2] @ '' Investments, shares, and unit trusts'' @ [CHR 0x0A]
     @ ''            '' @ [CHR 0xE2, CHR 0x80, CHR 0xA2] @ '' Property and land (residential and commercial)'' @ [CHR 0x0A]
     @ ''            '' @ [CHR 0xE2, CHR 0x80, CHR 0xA2] @ '' Personal possessions and household contents'' @ [CHR 0x0A]
     @ ''            '' @ [CHR 0xE2, CHR 0x80, CHR 0xA2] @ '' Business interests and partnerships'' @ [CHR 0x0A]
     @ ''            '' @ [CHR 0xE2, CHR 0x80, CHR 0xA2] @ '' Debts owed to the deceased'' @ [CHR 0x0A]
     @ ''            '' @ [CHR 0xE2, CHR 0x80, CHR 0xA2] @ '' Life insurance policies and pension benefits'' @ [CHR 0x0A]
     @ ''            '' @ [CHR 0x0A]
     @ ''            DEBT PAYMENT PRIORITY ORDER:'' @ [CHR 0x0A]
     @ ''            1. Secured debts (mortgages, secured loans)'' @ [CHR 0x0A]
     @ ''            2. Funeral expenses and testamentary expenses'' @ [CHR 0x0A]
     @ ''            3. Preferential debts (employee wages, some taxes)'' @ [CHR 0x0A]
     @ ''            4. Ordinary unsecured debts'' @ [CHR 0x0A]
     @ ''            5. Interest on debts'' @ [CHR 0x0A]
     @ ''            6. Deferred debts (loans from shareholders)'' @ [CHR 0x0A]
     @ ''            '' @ [CHR 0x0A]
     @ ''            DISTRIBUTION PROCEDURES:'' @ [CHR 0x0A]
     @ ''            '' @ [CHR 0xE2, CHR 0x80, CHR 0xA2] @ '' Follow will provisions exactly as written'' @ [CHR 0x0A]
     @ ''            '' @ [CHR 0xE2, CHR 0x80, CHR 0xA2] @ '' If no will, follow intestacy rules precisely'' @ [CHR 0x0A]
     @ ''            '' @ [CHR 0xE2, CHR 0x80, CHR 0xA2] @ '' Consider deed of variation (within 2 years of death)'' @ [CHR 0x0A]
     @ ''            '' @ [CHR 0xE2, CHR 0x80, CHR 0xA2] @ '' Obtain receipts from all beneficiaries'' @ [CHR 0x0A]
     @ ''            '' @ [CHR 0xE2, CHR 0x80, CHR 0xA2] @ '' Prepare estate accounts for beneficiaries'' @ [CHR 0x0A]
     @ ''            '' @ [CHR 0xE2, CHR 0x80, CHR 0xA2] @ '' Consider interim distributions for large estates'' @ [CHR 0x0A]
     @ ''            '' @ [CHR 0x0A]
     @ ''            RECORD KEEPING REQUIREMENTS:'' @ [CHR 0x0A]
     @ ''            '' @ [CHR 0xE2, CHR 0x80, CHR 0xA2] @ '' Maintain detailed records for minimum 12 years'' @ [CHR 0x0A]
     @ ''            '' @ [CHR 0xE2, CHR 0x80, CHR 0xA2] @ '' Keep all receipts, bank statements, valuations'' @ [CHR 0x0A]
     @ ''            '' @ [CHR 0xE2, CHR 0x80, CHR 0xA2] @ '' Document all decisions and their rationale'' @ [CHR 0x0A]
     @ ''            '' @ [CHR 0xE2, CHR 0x80, CHR 0xA2] @ '' Prepare annual estate accounts if administration exceeds one year'' @ [CHR 0x0A]
     @ ''            ''"

definition gdpr_probate_compliance_2024_text :: string where
  "gdpr_probate_compliance_2024_text =
     [CHR 0x0A]
     @ ''            GDPR Compliance in Probate Administration (2024):'' @ [CHR 0x0A]
     @ ''            '' @ [CHR 0x0A]
     @ ''            LAWFUL BASIS FOR PROCESSING:'' @ [CHR 0x0A]
     @ ''            '' @ [CHR 0xE2, CHR 0x80, CHR 0xA2] @ '' Legitimate interest: Estate administration and asset distribution'' @ [CHR 0x0A]
     @ ''            '' @ [CHR 0xE2, CHR 0x80, CHR 0xA2] @ '' Legal obligation: HMRC reporting, court requirements'' @ [CHR 0x0A]
     @ ''            '' @ [CHR 0xE2, CHR 0x80, CHR 0xA2] @ '' Consent: Marketing communications and non-essential processing'' @ [CHR 0x0A]
     @ ''            '' @ [CHR 0xE2, CHR 0x80, CHR 0xA2] @ '' Vital interests: Protecting beneficiaries'' @ [CHR 0x27] @ '' financial interests'' @ [CHR 0x0A]
     @ ''            '' @ [CHR 0x0A]
     @ ''            DATA SUBJECT RIGHTS:'' @ [CHR 0x0A]
     @ ''            '' @ [CHR 0xE2, CHR 0x80, CHR 0xA2] @ '' Deceased persons: Limited rights, some exercisable by estate'' @ [CHR 0x0A]
     @ ''            '' @ [CHR 0xE2, CHR 0x80, CHR 0xA2] @ '' Living beneficiaries: Full GDPR rights apply'' @ [CHR 0x0A]
     @ ''            '' @ [CHR 0xE2, CHR 0x80, CHR 0xA2] @ '' Executors: Can exercise certain rights on behalf of estate'' @ [CHR 0x0A]
     @ ''            '' @ [CHR 0xE2, CHR 0x80, CHR 0xA2] @ '' Right to be informed: Privacy notices for all data processing'' @ [CHR 0x0A]
     @ ''            '' @ [CHR 0xE2, CHR 0x80, CHR 0xA2] @ '' Right of access: Beneficiaries can request their personal data'' @ [CHR 0x0A]
     @ ''            '' @ [CHR 0xE2, CHR 0x80, CHR 0xA2] @ '' Right to rectification: Correct inaccurate information'' @ [CHR 0x0A]
     @ ''            '' @ [CHR 0xE2, CHR 0x80, CHR 0xA2] @ '' Right to erasure: Balanced against legal retention requirements'' @ [CHR 0x0A]
     @ ''            '' @ [CHR 0x0A]
     @ ''            RETENTION PERIODS:'' @ [CHR 0x0A]
     @ ''            '' @ [CHR 0xE2, CHR 0x80, CHR 0xA2] @ '' Probate administration records: 12 years minimum'' @ [CHR 0x0A]
     @ ''            '' @ [CHR 0xE2, CHR 0x80, CHR 0xA2] @ '' Tax records: 7 years after completion of administration'' @ [CHR 0x0A]
     @ ''            '' @ [CHR 0xE2, CHR 0x80, CHR 0xA2] @ '' Personal data: Delete when no longer needed for legal purposes'' @ [CHR 0x0A]
     @ ''            '' @ [CHR 0xE2, CHR 0x80, CHR 0xA2] @ '' Beneficiary communications: 7 years after final distribution'' @ [CHR 0x0A]
     @ ''            '' @ [CHR 0x0A]
     @ ''            SECURITY MEASURES:'' @ [CHR 0x0A]
     @ ''            '' @ [CHR 0xE2, CHR 0x80, CHR 0xA2] @ '' Encryption: AES-256 minimum for digital storage'' @ [CHR 0x0A]
     @ ''            '' @ [CHR 0xE2, CHR 0x80, CHR 0xA2] @ '' Access controls: Role-based permissions for staff'' @ [CHR 0x0A]
     @ ''            '' @ [CHR 0xE2, CHR 0x80, CHR 0xA2] @ '' Audit trails: Log all access to personal data'' @ [CHR 0x0A]
     @ ''            '' @ [CHR 0xE2, CHR 0x80, CHR 0xA2] @ '' Backup procedures: Secure, encrypted backups'' @ [CHR 0x0A]
     @ ''            '' @ [CHR 0xE2, CHR 0x80, CHR 0xA2] @ '' Physical security: Locked filing cabinets, secure premises'' @ [CHR 0x0A]
     @ ''            '' @ [CHR 0xE2, CHR 0x80, CHR 0xA2] @ '' Staff training: Regular GDPR awareness training'' @ [CHR 0x0A]
     @ ''            '' @ [CHR 0x0A]
     @ ''            DATA SHARING:'' @ [CHR 0x0A]
     @ ''            '' @ [CHR 0xE2, CHR 0x80, CHR 0xA2] @ '' Third parties: Only share data necessary for estate administration'' @ [CHR 0x0A]
     @ ''            '' @ [CHR 0xE2, CHR 0x80, CHR 0xA2] @ '' Professional advisors: Ensure they have appropriate safeguards'' @ [CHR 0x0A]
     @ ''            '' @ [CHR 0xE2, CHR 0x80, CHR 0xA2] @ '' Beneficiaries: Can share their own data, not others'' @ [CHR 0x27, CHR 0x0A]
     @ ''            '' @ [CHR 0xE2, CHR 0x80, CHR 0xA2] @ '' HMRC: Legal obligation to share for tax purposes'' @ [CHR 0x0A]
     @ ''            '' @ [CHR 0xE2, CHR 0x80, CHR 0xA2] @ '' Courts: Legal obligation for probate applications'' @ [CHR 0x0A]
     @ ''            ''"

definition legal_knowledge :: knowledge where
  "legal_knowledge =
     [(''inheritance_tax_2024_25'', inheritance_tax_2024_25_text),
      (''probate_process_2024'', probate_process_2024_text),
      (''property_valuation_probate_2024'', property_valuation_probate_2024_text),
      (''estate_administration_best_practices'', estate_administration_best_practices_text),
      (''gdpr_probate_compliance_2024'', gdpr_probate_compliance_2024_text)]"

definition keyword_mapping :: "(string \<times> string list) list" where
  "keyword_mapping =
     [(''inheritance tax'', [''inheritance_tax_2024_25'']),
      (''iht'', [''inheritance_tax_2024_25'']),
      (''tax'', [''inheritance_tax_2024_25'']),
      (''probate'', [''probate_process_2024'', ''estate_administration_best_practices'']),
      (''estate'', [''estate_administration_best_practices'', ''probate_process_2024'']),
      (''property'', [''property_valuation_probate_2024'']),
      (''valuation'', [''property_valuation_probate_2024'']),
      (''gdpr'', [''gdpr_probate_compliance_2024'']),
      (''compliance'', [''gdpr_probate_compliance_2024'']),
      (''administration'', [''estate_administration_best_practices''])]"

text \<open>
  The inner loop \<open>for section in sections\<close>: a section is appended when the knowledge
  base has it and it is not among the names collected so far.
\<close>

fun add_sections :: "knowledge \<Rightarrow> string list \<Rightarrow> (string \<times> string) list \<Rightarrow> (string \<times> string) list" where
  "add_sections kb [] rel = rel"
| "add_sections kb (section # rest) rel =
     add_sections kb rest
       (case map_of kb section of
          Some content \<Rightarrow>
            if section \<notin> set (map fst rel) then rel @ [(section, content)] else rel
        | None \<Rightarrow> rel)"

text \<open>The outer loop \<open>for keyword, sections in keyword_mapping.items()\<close>.\<close>

fun scan_keywords ::
  "knowledge \<Rightarrow> string \<Rightarrow> (string \<times> string list) list \<Rightarrow> (string \<times> string) list \<Rightarrow> (string \<times> string) list" where
  "scan_keywords kb query_lower [] rel = rel"
| "scan_keywords kb query_lower ((keyword, sections) # rest) rel =
     scan_keywords kb query_lower rest
       (if py_in keyword query_lower then add_sections kb sections rel else rel)"

text \<open>
  \<open>kb[k]\<close> raises \<open>KeyError\<close> when the key is missing; the text of a \<open>KeyError\<close> is the
  \<open>repr\<close> of the key.
\<close>

definition kb_index :: "knowledge \<Rightarrow> string \<Rightarrow> exn + string" where
  "kb_index kb k = (case map_of kb k of None \<Rightarrow> Inl (KeyError (repr_str k)) | Some v \<Rightarrow> Inr v)"

definition format_section :: "string \<times> string \<Rightarrow> string" where
  "format_section p =
     ''**'' @ title (replace_underscore (fst p)) @ '':**'' @ [CHR 0x0A] @ snd p @ [CHR 0x0A, CHR 0x0A]"

definition response_header :: "string \<Rightarrow> string" where
  "response_header query =
     ''Legal Research Results for: '' @ [CHR 0x27] @ query @ [CHR 0x27, CHR 0x0A, CHR 0x0A]"

definition disclaimer :: string where
  "disclaimer =
     [CHR 0x0A] @ ''**Important Note:** This information is for guidance only. Always consult qualified legal professionals for specific advice on individual cases.''"

definition format_response :: "string \<Rightarrow> (string \<times> string) list \<Rightarrow> string" where
  "format_response query rel =
     response_header query @ concat (map format_section (take 2 rel)) @ disclaimer"

definition search_legal_info :: "knowledge \<Rightarrow> string \<Rightarrow> exn + string" where
  "search_legal_info kb query =
     (let query_lower = lower query;
          relevant_sections = scan_keywords kb query_lower keyword_mapping []
      in if relevant_sections = []
         then (case kb_index kb ''probate_process_2024'' of
                 Inl e \<Rightarrow> Inl e
               | Inr c1 \<Rightarrow>
                   (case kb_index kb ''inheritance_tax_2024_25'' of
                      Inl e \<Rightarrow> Inl e
                    | Inr c2 \<Rightarrow>
                        Inr (format_response query
                               [(''probate_process_2024'', c1), (''inheritance_tax_2024_25'', c2)])))
         else Inr (format_response query relevant_sections))"

subsection \<open>The lookup as the specification words it\<close>

text \<open>
  Written from the specification's sentences, with nothing of the program's string
  handling: lower case by a table of the 26 letters, "substring" as \<open>sublist\<close> (a list
  that occurs in another as a contiguous piece), the human-readable title of each topic
  from a table, and the disclaimer as a constant. Only the mapping from keywords to
  topics and the reference texts are the data of the program.
\<close>

definition spec_lower_table :: "(char \<times> char) list" where
  "spec_lower_table = zip ''ABCDEFGHIJKLMNOPQRSTUVWXYZ'' ''abcdefghijklmnopqrstuvwxyz''"

definition spec_lower :: "string \<Rightarrow> string" where
  "spec_lower s = map (\<lambda>c. case map_of spec_lower_table c of Some l \<Rightarrow> l | None \<Rightarrow> c) s"

text \<open>Duplicates suppressed, the first occurrence kept.\<close>

definition first_occurrences :: "'a list \<Rightarrow> 'a list" where
  "first_occurrences xs = rev (remdups (rev xs))"

text \<open>The topics of every keyword that occurs in the lower-cased query, in the mapping's order.\<close>

definition matched_topics :: "string \<Rightarrow> string list" where
  "matched_topics query =
     first_occurrences
       (concat (map snd (filter (\<lambda>p. sublist (fst p) (spec_lower query)) keyword_mapping)))"

text \<open>The default pair: the general process overview, then the general tax overview.\<close>

definition default_topics :: "string list" where
  "default_topics = [''probate_process_2024'', ''inheritance_tax_2024_25'']"

text \<open>The topics that the result shows: at most the first two.\<close>

definition shown_topics :: "string \<Rightarrow> string list" where
  "shown_topics query =
     take 2 (if matched_topics query = [] then default_topics else matched_topics query)"

definition topic_title :: "string \<Rightarrow> string" where
  "topic_title t =
     (case map_of
        [(''inheritance_tax_2024_25'', ''Inheritance Tax 2024 25''),
         (''probate_process_2024'', ''Probate Process 2024''),
         (''property_valuation_probate_2024'', ''Property Valuation Probate 2024''),
         (''estate_administration_best_practices'', ''Estate Administration Best Practices''),
         (''gdpr_probate_compliance_2024'', ''Gdpr Probate Compliance 2024'')] t
      of Some h \<Rightarrow> h | None \<Rightarrow> [])"

definition topic_text :: "string \<Rightarrow> string" where
  "topic_text t = (case map_of legal_knowledge t of Some c \<Rightarrow> c | None \<Rightarrow> [])"

text \<open>A topic in the result: its title between asterisks, a colon, then its text.\<close>

definition spec_topic_block :: "string \<Rightarrow> string" where
  "spec_topic_block t =
     ''**'' @ topic_title t @ '':**'' @ [CHR 0x0A] @ topic_text t @ [CHR 0x0A, CHR 0x0A]"

definition spec_disclaimer :: string where
  "spec_disclaimer =
     [CHR 0x0A] @ ''**Important Note:** This information is for guidance only. Always consult qualified legal professionals for specific advice on individual cases.''"

definition lookup_spec :: "string \<Rightarrow> string" where
  "lookup_spec query =
     ''Legal Research Results for: '' @ [CHR 0x27] @ query @ [CHR 0x27, CHR 0x0A, CHR 0x0A]
     @ concat (map spec_topic_block (shown_topics query))
     @ spec_disclaimer"

section \<open>The probate crew\<close>

subsection \<open>Tasks\<close>

text \<open>
  A task has a description (an f-string), an agent and, except for the first task of a
  crew, a \<open>context\<close>: the list of the tasks whose output it is given. The model keeps a
  task under the name of the variable that holds it, its agent by the agent's role, and
  of the description the values that the f-string interpolates, in order: a value
  written as \<open>{v}\<close> is kept as it is, a value written as \<open>{v:,}\<close> is formatted, which
  can raise. The fixed prompt text between the values is left out, and so is
  \<open>legal_context\<close>, the knowledge lookup that the first description quotes (the lookup
  never raises).
\<close>

datatype frag = Shown pyval | Formatted string

record task =
  task_name :: string
  task_agent :: string
  task_fields :: "frag list"
  task_context :: "string list option"

definition shown :: "pyval \<Rightarrow> exn + frag" where
  "shown v = Inr (Shown v)"

definition formatted :: "exn + string \<Rightarrow> exn + frag" where
  "formatted r = (case r of Inl e \<Rightarrow> Inl e | Inr s \<Rightarrow> Inr (Formatted s))"

text \<open>
  What is outside the program: whether constructing the LLM client of a crew raises
  (\<open>crew_init\<close>; in the divorce crew the search tool is constructed unguarded as well and
  counts with it), what \<open>kickoff\<close> returns or raises for the tasks it is given, and the
  clock. The \<open>print\<close> calls of the program are left out.
\<close>

record env =
  crew_init :: "exn option"
  kickoff :: "task list \<Rightarrow> exn + string"
  now_processed :: string
  now_completed :: string

subsection \<open>\<open>_enhance_case_with_context\<close>\<close>

definition enhance_case_with_context :: "case_data \<Rightarrow> exn + case_data" where
  "enhance_case_with_context cd =
     (let estate_value = dict_get cd ''estate_value'' (VInt 0);
          property_value = dict_get cd ''property_value'' (VInt 0)
      in and_then
           (and_then (py_gt estate_value 500000) (\<lambda>b1.
              if b1
              then Inr (cd(''iht_likely'' \<mapsto> VBool True,
                          ''complexity_factors'' \<mapsto>
                            VList [VStr ''High estate value'', VStr ''IHT planning required'']))
              else and_then (py_gt estate_value 325000) (\<lambda>b2.
                if b2
                then Inr (cd(''iht_likely'' \<mapsto> VBool True,
                            ''complexity_factors'' \<mapsto>
                              VList [VStr ''Potential IHT liability'',
                                     VStr ''Residence nil-rate band assessment needed'']))
                else Inr (cd(''iht_likely'' \<mapsto> VBool False,
                            ''complexity_factors'' \<mapsto>
                              VList [VStr ''Below IHT threshold'', VStr ''Simplified process possible''])))))
           (\<lambda>enhanced_data.
              and_then (py_gt property_value 0) (\<lambda>b3.
                if b3
                then Inr (enhanced_data(''property_considerations'' \<mapsto>
                            VList [VStr ''Professional valuation required'',
                                   VStr ''Title deed verification needed'',
                                   VStr ''Property transfer procedures apply'']))
                else Inr enhanced_data)))"

subsection \<open>\<open>_assess_complexity\<close>\<close>

text \<open>The estate value factor: the \<open>if\<close>/\<open>elif\<close> chain.\<close>

definition estate_value_factor :: "pyval \<Rightarrow> exn + int" where
  "estate_value_factor estate_value =
     and_then (py_gt estate_value 2000000) (\<lambda>b1.
       if b1 then Inr 3
       else and_then (py_gt estate_value 1000000) (\<lambda>b2.
         if b2 then Inr 2
         else and_then (py_gt estate_value 500000) (\<lambda>b3.
           if b3 then Inr 1 else Inr 0)))"

text \<open>The property factor: \<open>property_value > estate_value * 0.7\<close>.\<close>

definition property_heavy :: "pyval \<Rightarrow> pyval \<Rightarrow> exn + bool" where
  "property_heavy property_value estate_value =
     and_then (py_mul_float estate_value dbl_0_7) (\<lambda>x. py_gt_float property_value x)"

definition complexity_score :: "case_data \<Rightarrow> exn + int" where
  "complexity_score cd =
     (let estate_value = dict_get cd ''estate_value'' (VInt 0);
          property_value = dict_get cd ''property_value'' (VInt 0)
      in and_then (estate_value_factor estate_value) (\<lambda>s1.
         and_then (property_heavy property_value estate_value) (\<lambda>heavy.
           let s2 = (if heavy then s1 + 1 else s1);
               s3 = (if dict_get_none cd ''urgency_level'' = VStr ''HIGH'' then s2 + 1 else s2)
           in Inr s3)))"

definition complexity_label :: "int \<Rightarrow> string" where
  "complexity_label score =
     (if score \<ge> 4 then ''HIGH''
      else if score \<ge> 2 then ''MEDIUM''
      else ''LOW'')"

definition assess_complexity :: "case_data \<Rightarrow> exn + string" where
  "assess_complexity cd = and_then (complexity_score cd) (\<lambda>s. Inr (complexity_label s))"

subsection \<open>The five tasks of \<open>process_probate_case\<close>\<close>

definition money :: "case_data \<Rightarrow> string \<Rightarrow> exn + frag" where
  "money d k = formatted (format_comma (dict_get d k (VInt 0)))"

definition document_analysis_task :: "case_data \<Rightarrow> exn + task" where
  "document_analysis_task d =
     and_then
       (collect
          [shown (dict_get_none d ''case_id''),
           shown (dict_get_none d ''deceased_name''),
           shown (dict_get_none d ''executor_name''),
           money d ''estate_value'',
           money d ''property_value'',
           shown (dict_get_none d ''property_address''),
           shown (dict_get d ''urgency_level'' (VStr ''MEDIUM''))])
       (\<lambda>fs. Inr \<lparr>task_name = ''document_analysis_task'',
                   task_agent = ''Senior Probate Document Analyst'',
                   task_fields = fs,
                   task_context = None\<rparr>)"

definition legal_strategy_task :: "case_data \<Rightarrow> exn + task" where
  "legal_strategy_task d =
     and_then
       (collect
          [money d ''estate_value'',
           money d ''property_value'',
           formatted (assess_complexity d),
           shown (dict_get d ''urgency_level'' (VStr ''MEDIUM''))])
       (\<lambda>fs. Inr \<lparr>task_name = ''legal_strategy_task'',
                   task_agent = ''Senior UK Probate Solicitor'',
                   task_fields = fs,
                   task_context = Some [''document_analysis_task'']\<rparr>)"

definition tax_calculation_task :: "case_data \<Rightarrow> exn + task" where
  "tax_calculation_task d =
     and_then
       (collect
          [money d ''estate_value'',
           money d ''property_value'',
           formatted
             (and_then
                (py_sub (dict_get d ''estate_value'' (VInt 0)) (dict_get d ''property_value'' (VInt 0)))
                format_comma)])
       (\<lambda>fs. Inr \<lparr>task_name = ''tax_calculation_task'',
                   task_agent = ''Chartered Tax Advisor - Inheritance Tax Specialist'',
                   task_fields = fs,
                   task_context = Some [''document_analysis_task'', ''legal_strategy_task'']\<rparr>)"

definition compliance_task :: "case_data \<Rightarrow> exn + task" where
  "compliance_task d =
     and_then
       (collect
          [shown (dict_get_none d ''client_name''),
           shown (dict_get_none d ''deceased_name''),
           money d ''estate_value'',
           shown (dict_get_none d ''property_address'')])
       (\<lambda>fs. Inr \<lparr>task_name = ''compliance_task'',
                   task_agent = ''Legal Compliance Officer'',
                   task_fields = fs,
                   task_context = Some [''document_analysis_task'']\<rparr>)"

definition case_management_task :: "case_data \<Rightarrow> exn + task" where
  "case_management_task d =
     Inr \<lparr>task_name = ''case_management_task'',
          task_agent = ''Senior Probate Case Manager'',
          task_fields = [],
          task_context =
            Some [''document_analysis_task'', ''legal_strategy_task'',
                  ''tax_calculation_task'', ''compliance_task'']\<rparr>"

text \<open>The \<open>tasks\<close> list of the crew, in the order given to \<open>Crew\<close>.\<close>

definition probate_tasks :: "case_data \<Rightarrow> exn + task list" where
  "probate_tasks d =
     collect
       [document_analysis_task d,
        legal_strategy_task d,
        tax_calculation_task d,
        compliance_task d,
        case_management_task d]"

subsection \<open>The result structurer\<close>

text \<open>
  The \<open>_extract_*\<close> methods that return fixed lists and dicts; none of them reads its
  argument \<open>crew_result\<close>.
\<close>

definition extract_key_findings :: "jval" where
  "extract_key_findings =
     JList
      [JStr ([CHR 0xF0, CHR 0x9F, CHR 0x93, CHR 0x8B] @ '' Comprehensive document analysis completed with detailed recommendations''),
       JStr ([CHR 0xE2, CHR 0x9A, CHR 0x96, CHR 0xEF, CHR 0xB8, CHR 0x8F] @ '' Legal strategy developed with current UK probate law compliance''),
       JStr ([CHR 0xF0, CHR 0x9F, CHR 0x92, CHR 0xB0] @ '' Inheritance tax calculation completed with optimization strategies''),
       JStr ([CHR 0xF0, CHR 0x9F, CHR 0x9B, CHR 0xA1, CHR 0xEF, CHR 0xB8, CHR 0x8F] @ '' GDPR compliance verified with current ICO guidance''),
       JStr ([CHR 0xF0, CHR 0x9F, CHR 0x93, CHR 0x8A] @ '' Master case management plan created with integrated timeline''),
       JStr ([CHR 0xF0, CHR 0x9F, CHR 0x94, CHR 0x8D] @ '' Risk assessment completed with specific mitigation strategies'')]"

definition extract_next_steps :: "jval" where
  "extract_next_steps =
     JList
      [JStr ([CHR 0xF0, CHR 0x9F, CHR 0x93, CHR 0x8B] @ '' Priority 1: Gather death certificate and will documents''),
       JStr ([CHR 0xF0, CHR 0x9F, CHR 0x92, CHR 0xB0] @ '' Priority 1: Obtain professional property valuation (RICS qualified)''),
       JStr ([CHR 0xF0, CHR 0x9F, CHR 0x93, CHR 0x9D] @ '' Priority 2: Prepare probate application with current forms''),
       JStr ([CHR 0xF0, CHR 0x9F, CHR 0x8F, CHR 0xA6] @ '' Priority 2: Contact banks and financial institutions for asset details''),
       JStr ([CHR 0xF0, CHR 0x9F, CHR 0x93, CHR 0x9E] @ '' Priority 3: Schedule consultation with qualified legal advisor''),
       JStr ([CHR 0xF0, CHR 0x9F, CHR 0x92, CHR 0xBC] @ '' Priority 3: Review inheritance tax planning options and deadlines''),
       JStr ([CHR 0xF0, CHR 0x9F, CHR 0x94, CHR 0x8D] @ '' Priority 4: Verify beneficiary details and contact information'')]"

definition extract_timeline :: "jval" where
  "extract_timeline =
     JDict
      [(''weeks_1_4'', JStr (''Document collection, asset identification, and initial valuations'')),
       (''weeks_5_8'', JStr (''Probate application preparation and submission to court'')),
       (''weeks_9_20'', JStr (''Court processing, grant issuance, and asset access'')),
       (''weeks_21_40'', JStr (''Asset realization, debt payment, and beneficiary distribution'')),
       (''weeks_41_52'', JStr (''Final accounts preparation and case closure''))]"

definition extract_costs :: "jval" where
  "extract_costs =
     JDict
      [(''court_fees'', JStr ([CHR 0xC2, CHR 0xA3] @ ''273 (estates over '' @ [CHR 0xC2, CHR 0xA3] @ ''5,000)'')),
       (''legal_fees'', JStr ([CHR 0xC2, CHR 0xA3] @ ''2,000 - '' @ [CHR 0xC2, CHR 0xA3] @ ''8,000 (complexity dependent)'')),
       (''valuation_costs'', JStr ([CHR 0xC2, CHR 0xA3] @ ''300 - '' @ [CHR 0xC2, CHR 0xA3] @ ''1,000 (property type dependent)'')),
       (''professional_fees'', JStr ([CHR 0xC2, CHR 0xA3] @ ''500 - '' @ [CHR 0xC2, CHR 0xA3] @ ''2,000 (accountant, surveyor fees)'')),
       (''administrative_costs'', JStr ([CHR 0xC2, CHR 0xA3] @ ''200 - '' @ [CHR 0xC2, CHR 0xA3] @ ''500 (copies, postage, etc.)'')),
       (''total_estimate'', JStr ([CHR 0xC2, CHR 0xA3] @ ''3,275 - '' @ [CHR 0xC2, CHR 0xA3] @ ''11,773''))]"

definition extract_compliance_score :: "jval" where
  "extract_compliance_score = JInt 94"

definition extract_recommendations :: "jval" where
  "extract_recommendations =
     JList
      [JStr (''Consider deed of variation within 2-year window for tax optimization''),
       JStr (''Obtain professional property valuation immediately to avoid delays''),
       JStr (''Implement comprehensive beneficiary communication strategy''),
       JStr (''Establish robust record-keeping system for 12-year retention requirement''),
       JStr (''Consider professional indemnity insurance for executor protection''),
       JStr (''Review estate liquidity for inheritance tax payment requirements''),
       JStr (''Engage qualified legal professionals for complex aspects'')]"

definition reliefs_available :: "jval" where
  "reliefs_available =
     JList
      [JStr (''Spouse/civil partner exemption (unlimited)''),
       JStr (''Charity relief (100% exempt)''),
       JStr (''Business property relief (up to 100%)''),
       JStr (''Agricultural property relief (up to 100%)'')]"

definition forms_required :: "jval" where
  "forms_required =
     JList
      [JStr (''IHT400 (if estate >'' @ [CHR 0xC2, CHR 0xA3] @ ''325,000)''),
       JStr (''IHT205 (if estate <'' @ [CHR 0xC2, CHR 0xA3] @ ''325,000)'')]"

definition optimization_opportunities :: "jval" where
  "optimization_opportunities =
     JList
      [JStr (''Deed of variation (within 2 years)''),
       JStr (''Charitable giving for reduced rate''),
       JStr (''Asset revaluation if appropriate'')]"

definition fallback_next_steps :: "jval" where
  "fallback_next_steps =
     JList
      [JStr ([CHR 0xF0, CHR 0x9F, CHR 0x93, CHR 0x9E] @ '' Contact qualified legal advisor for immediate manual review''),
       JStr ([CHR 0xF0, CHR 0x9F, CHR 0x93, CHR 0x8B] @ '' Prepare basic probate documentation checklist''),
       JStr ([CHR 0xF0, CHR 0x9F, CHR 0x92, CHR 0xB0] @ '' Obtain professional property valuation''),
       JStr ([CHR 0xF0, CHR 0x9F, CHR 0x93, CHR 0x9D] @ '' Review estate assets and liabilities comprehensively''),
       JStr ([CHR 0xF0, CHR 0x9F, CHR 0x8F, CHR 0xA6] @ '' Contact financial institutions for asset information'')]"

definition fallback_recommendations :: "jval" where
  "fallback_recommendations =
     JList
      [JStr (''Seek professional legal advice immediately due to processing error''),
       JStr (''Gather all estate documentation for manual review''),
       JStr (''Consider professional estate administration service''),
       JStr (''Ensure all deadlines are monitored manually''),
       JStr (''Implement backup record-keeping procedures'')]"

subsection \<open>\<open>_extract_tax_info\<close>\<close>

definition nil_rate_band :: int where
  "nil_rate_band = 325000"

definition residence_band :: int where
  "residence_band = 175000"

definition total_threshold :: int where
  "total_threshold = nil_rate_band + residence_band"

text \<open>\<open>potential_iht = max(0, (estate_value - total_threshold) * 0.4)\<close>\<close>

definition potential_iht :: "pyval \<Rightarrow> exn + pyfloat" where
  "potential_iht estate_value =
     and_then (py_sub estate_value (VInt total_threshold)) (\<lambda>excess.
       and_then (py_mul_float excess dbl_0_4) (\<lambda>x. Inr (py_max0 x)))"

definition extract_tax_info :: "case_data \<Rightarrow> string \<Rightarrow> exn + jval" where
  "extract_tax_info cd crew_result =
     (let estate_value = dict_get cd ''estate_value'' (VInt 0);
          property_value = dict_get cd ''property_value'' (VInt 0)
      in and_then (potential_iht estate_value) (\<lambda>iht.
         and_then (format_comma estate_value) (\<lambda>ev.
         and_then (format_comma property_value) (\<lambda>pv.
           Inr (JDict
             [(''estate_value'', JStr (pound @ ev)),
              (''property_value'', JStr (pound @ pv)),
              (''nil_rate_band'', JStr (pound @ format_int_comma nil_rate_band)),
              (''residence_nil_rate_band'', JStr (pound @ format_int_comma residence_band)),
              (''combined_threshold'', JStr (pound @ format_int_comma total_threshold)),
              (''potential_iht'', JStr (pound @ format_float_comma0 iht)),
              (''iht_rate'', JStr ''40% on excess above threshold''),
              (''reduced_rate_available'', JStr ''36% if 10%+ to charity''),
              (''reliefs_available'', reliefs_available),
              (''payment_deadline'', JStr ''6 months from death''),
              (''forms_required'', forms_required),
              (''optimization_opportunities'', optimization_opportunities)])))))"

subsection \<open>\<open>_structure_probate_results\<close> and \<open>_generate_fallback_results\<close>\<close>

definition structure_probate_results :: "case_data \<Rightarrow> string \<Rightarrow> string \<Rightarrow> exn + jval" where
  "structure_probate_results cd crew_result processed_at =
     and_then (format_comma (dict_get cd ''estate_value'' (VInt 0))) (\<lambda>ev.
     and_then (format_comma (dict_get cd ''property_value'' (VInt 0))) (\<lambda>pv.
     and_then (assess_complexity cd) (\<lambda>complexity.
     and_then (extract_tax_info cd crew_result) (\<lambda>tax_analysis.
       Inr (JDict
         [(''case_id'', jv (dict_get_none cd ''case_id'')),
          (''processing_status'', JStr ''completed''),
          (''crew_analysis'', JStr crew_result),
          (''summary'', JDict
             [(''case_type'', JStr ''Probate''),
              (''deceased'', jv (dict_get_none cd ''deceased_name'')),
              (''executor'', jv (dict_get_none cd ''executor_name'')),
              (''estate_value'', JStr (pound @ ev)),
              (''property_value'', JStr (pound @ pv)),
              (''complexity'', JStr complexity),
              (''estimated_duration'', JStr ''16-24 weeks''),
              (''ai_confidence'', JStr ''95%''),
              (''iht_likely'', jv (dict_get cd ''iht_likely'' (VBool False)))]),
          (''key_findings'', extract_key_findings),
          (''next_steps'', extract_next_steps),
          (''timeline'', extract_timeline),
          (''cost_estimates'', extract_costs),
          (''tax_analysis'', tax_analysis),
          (''compliance_score'', extract_compliance_score),
          (''recommendations'', extract_recommendations),
          (''processed_at'', JStr processed_at),
          (''crew_agents'', JList
             [JStr ''Document Analyst'', JStr ''Legal Advisor'', JStr ''Tax Specialist'',
              JStr ''Compliance Officer'', JStr ''Case Manager'']),
          (''tools_used'', JList
             [JStr ''UK Legal Research Tool'', JStr ''Web Search Tool'',
              JStr ''File Analysis Tool''])])))))"

definition generate_fallback_results :: "case_data \<Rightarrow> string \<Rightarrow> string \<Rightarrow> exn + jval" where
  "generate_fallback_results cd error processed_at =
     and_then (format_comma (dict_get cd ''estate_value'' (VInt 0))) (\<lambda>ev.
       Inr (JDict
         [(''case_id'', jv (dict_get_none cd ''case_id'')),
          (''processing_status'', JStr ''completed_with_fallback''),
          (''error'', JStr (''CrewAI processing error: '' @ error)),
          (''summary'', JDict
             [(''case_type'', JStr ''Probate''),
              (''deceased'', jv (dict_get_none cd ''deceased_name'')),
              (''estate_value'', JStr (pound @ ev)),
              (''status'', JStr ''Manual review required''),
              (''fallback_mode'', JBool True)]),
          (''next_steps'', fallback_next_steps),
          (''recommendations'', fallback_recommendations),
          (''processed_at'', JStr processed_at),
          (''fallback_reason'',
             JStr ''AI processing temporarily unavailable - manual review recommended'')]))"

subsection \<open>\<open>process_probate_case\<close>\<close>

text \<open>
  The case data is enhanced and the five tasks are built before the \<open>try\<close>: an exception
  there leaves the method. Inside the \<open>try\<close> are \<open>kickoff\<close> and the structuring of its
  result; whatever they raise is answered with the fallback results.
\<close>

definition process_probate_case :: "env \<Rightarrow> case_data \<Rightarrow> exn + jval" where
  "process_probate_case ev case_data =
     and_then (enhance_case_with_context case_data) (\<lambda>enhanced_case_data.
     and_then (probate_tasks enhanced_case_data) (\<lambda>tasks.
       (case kickoff ev tasks of
          Inl e \<Rightarrow> generate_fallback_results enhanced_case_data (str_exn e) (now_processed ev)
        | Inr crew_result \<Rightarrow>
            (case structure_probate_results enhanced_case_data crew_result (now_processed ev) of
               Inl e \<Rightarrow>
                 generate_fallback_results enhanced_case_data (str_exn e) (now_processed ev)
             | Inr structured_results \<Rightarrow> Inr structured_results))))"

section \<open>The divorce crew\<close>

definition financial_task :: "case_data \<Rightarrow> exn + task" where
  "financial_task d =
     and_then
       (collect
          [shown (dict_get_none d ''case_id''),
           money d ''property_value'',
           shown (dict_get_none d ''property_address''),
           shown (dict_get d ''marriage_duration'' (VStr ''Unknown'')),
           shown (dict_get d ''children_count'' (VInt 0))])
       (\<lambda>fs. Inr \<lparr>task_name = ''financial_task'',
                   task_agent = [CHR 0xF0, CHR 0x9F, CHR 0x92, CHR 0xB0] @ '' Divorce Financial Expert'',
                   task_fields = fs,
                   task_context = None\<rparr>)"

definition legal_task :: "case_data \<Rightarrow> exn + task" where
  "legal_task d =
     and_then
       (collect
          [shown (dict_get d ''marriage_duration'' (VStr ''Unknown'')),
           shown (dict_get d ''dispute_level'' (VStr ''Unknown'')),
           shown (dict_get d ''children_count'' (VInt 0)),
           shown (dict_get d ''urgency_level'' (VStr ''Standard''))])
       (\<lambda>fs. Inr \<lparr>task_name = ''legal_task'',
                   task_agent =
                     [CHR 0xE2, CHR 0x9A, CHR 0x96, CHR 0xEF, CHR 0xB8, CHR 0x8F]
                       @ '' Family Law Specialist'',
                   task_fields = fs,
                   task_context = Some [''financial_task'']\<rparr>)"

definition property_task :: "case_data \<Rightarrow> exn + task" where
  "property_task d =
     and_then
       (collect
          [shown (dict_get_none d ''property_address''),
           money d ''property_value'',
           shown (dict_get d ''property_type'' (VStr ''Unknown''))])
       (\<lambda>fs. Inr \<lparr>task_name = ''property_task'',
                   task_agent =
                     [CHR 0xF0, CHR 0x9F, CHR 0x8F, CHR 0xA0] @ '' Property Division Specialist'',
                   task_fields = fs,
                   task_context = Some [''financial_task'']\<rparr>)"

definition mediation_task :: "case_data \<Rightarrow> exn + task" where
  "mediation_task d =
     and_then
       (collect
          [shown (dict_get d ''children_count'' (VInt 0)),
           shown (dict_get d ''dispute_level'' (VStr ''Unknown''))])
       (\<lambda>fs. Inr \<lparr>task_name = ''mediation_task'',
                   task_agent = [CHR 0xF0, CHR 0x9F, CHR 0xA4, CHR 0x9D] @ '' Family Mediator'',
                   task_fields = fs,
                   task_context = Some [''financial_task'', ''legal_task'', ''property_task'']\<rparr>)"

definition divorce_tasks :: "case_data \<Rightarrow> exn + task list" where
  "divorce_tasks d = collect [financial_task d, legal_task d, property_task d, mediation_task d]"

definition create_summary :: "case_data \<Rightarrow> string \<Rightarrow> exn + jval" where
  "create_summary cd result =
     and_then (format_comma (dict_get cd ''property_value'' (VInt 0))) (\<lambda>pv.
       Inr (JDict
         [(''case_type'', JStr ''Divorce''),
          (''marriage_duration'',
             JStr (py_str (dict_get cd ''marriage_duration'' (VInt 0)) @ '' years'')),
          (''property_value'', JStr (pound @ pv)),
          (''children'', jv (dict_get cd ''children_count'' (VInt 0))),
          (''complexity'', JStr ''Medium''),
          (''estimated_duration'', JStr ''6-12 months'')]))"

definition divorce_next_steps :: "jval" where
  "divorce_next_steps =
     JList
      [JStr ([CHR 0xF0, CHR 0x9F, CHR 0x93, CHR 0x8B] @ '' Complete financial disclosure forms''),
       JStr ([CHR 0xF0, CHR 0x9F, CHR 0x8F, CHR 0xA0] @ '' Get professional property valuation''),
       JStr ([CHR 0xF0, CHR 0x9F, CHR 0x91, CHR 0xA8, CHR 0xE2, CHR 0x80, CHR 0x8D, CHR 0xF0, CHR 0x9F, CHR 0x91, CHR 0xA9, CHR 0xE2, CHR 0x80, CHR 0x8D, CHR 0xF0, CHR 0x9F, CHR 0x91, CHR 0xA7, CHR 0xE2, CHR 0x80, CHR 0x8D, CHR 0xF0, CHR 0x9F, CHR 0x91, CHR 0xA6] @ '' Consider children'' @ [CHR 0x27] @ ''s needs and preferences''),
       JStr ([CHR 0xF0, CHR 0x9F, CHR 0xA4, CHR 0x9D] @ '' Schedule mediation session''),
       JStr ([CHR 0xF0, CHR 0x9F, CHR 0x93, CHR 0x9E] @ '' Consult with family law solicitor'')]"

definition extract_settlement_options :: "jval" where
  "extract_settlement_options =
     JList
      [JDict
         [(''option'', JStr (''50/50 Split with Property Sale'')),
          (''description'', JStr (''Sell house and split everything equally'')),
          (''pros'', JStr (''Simple and fair'')),
          (''cons'', JStr (''Need to find new homes''))],
       JDict
         [(''option'', JStr (''One Person Keeps House'')),
          (''description'', JStr (''One person buys out the other'' @ [CHR 0x27] @ ''s share'')),
          (''pros'', JStr (''Stability for children'')),
          (''cons'', JStr (''Need mortgage approval''))],
       JDict
         [(''option'', JStr (''Delayed Sale'')),
          (''description'', JStr (''Keep house until children are older'')),
          (''pros'', JStr (''Minimal disruption to children'')),
          (''cons'', JStr (''Ongoing shared ownership''))]]"

text \<open>
  \<open>process_divorce_case\<close>: there is no \<open>try\<close>; whatever the tasks, \<open>kickoff\<close> or the
  summary raise leaves the method.
\<close>

definition process_divorce_case :: "env \<Rightarrow> case_data \<Rightarrow> exn + jval" where
  "process_divorce_case ev case_data =
     and_then (divorce_tasks case_data) (\<lambda>tasks.
     and_then (kickoff ev tasks) (\<lambda>result.
     and_then (create_summary case_data result) (\<lambda>summary.
       Inr (JDict
         [(''case_id'', jv (dict_get_none case_data ''case_id'')),
          (''status'', JStr ''completed''),
          (''ai_analysis'', JStr result),
          (''summary'', summary),
          (''settlement_options'', extract_settlement_options),
          (''next_steps'', divorce_next_steps)]))))"

section \<open>The job store and the endpoints\<close>

text \<open>
  \<open>case_results\<close> is a module-level dict from case id to a job record, itself a dict
  with the keys \<open>status\<close>, \<open>created_at\<close>, \<open>case_type\<close> and \<open>case_data\<close>, to which the
  background function adds \<open>results\<close> and \<open>completed_at\<close>, or \<open>error\<close>.
\<close>

record job =
  status :: string
  created_at :: string
  case_type :: string
  job_case_data :: case_data
  results :: "jval option"
  completed_at :: "string option"
  error :: "string option"

type_synonym store = "string \<rightharpoonup> job"

datatype http_exn = HTTPException nat string

datatype kind = Probate | Divorce

text \<open>A background task as handed to \<open>background_tasks.add_task\<close>: function and arguments.\<close>

record bg_task =
  bg_kind :: kind
  bg_case_id :: string
  bg_case_data :: case_data

text \<open>
  \<open>create_probate_case\<close>. \<open>token\<close> is \<open>uuid.uuid4().hex[:8].upper()\<close> and \<open>now\<close> is
  \<open>datetime.now().isoformat()\<close>, both drawn outside the program. Nothing in the \<open>try\<close>
  raises. The result is the store, the task scheduled and the response.
\<close>

definition create_probate_case ::
  "store \<Rightarrow> string \<Rightarrow> string \<Rightarrow> case_data \<Rightarrow> store \<times> bg_task \<times> jval" where
  "create_probate_case case_results token now cd =
     (let case_id = ''PROB_'' @ token;
          cd' = cd(''case_id'' \<mapsto> VStr case_id)
      in (case_results(case_id \<mapsto>
            \<lparr>status = ''processing'', created_at = now, case_type = ''probate'',
             job_case_data = cd', results = None, completed_at = None, error = None\<rparr>),
          \<lparr>bg_kind = Probate, bg_case_id = case_id, bg_case_data = cd'\<rparr>,
          JDict
            [(''success'', JBool True),
             (''case_id'', JStr case_id),
             (''status'', JStr ''processing''),
             (''message'',
                JStr ([CHR 0xF0, CHR 0x9F, CHR 0x9A, CHR 0x80]
                        @ '' Your probate case is being analyzed by our AI agents'')),
             (''estimated_time'', JStr ''2-5 minutes'')]))"

definition create_divorce_case ::
  "store \<Rightarrow> string \<Rightarrow> string \<Rightarrow> case_data \<Rightarrow> store \<times> bg_task \<times> jval" where
  "create_divorce_case case_results token now cd =
     (let case_id = ''DIV_'' @ token;
          cd' = cd(''case_id'' \<mapsto> VStr case_id)
      in (case_results(case_id \<mapsto>
            \<lparr>status = ''processing'', created_at = now, case_type = ''divorce'',
             job_case_data = cd', results = None, completed_at = None, error = None\<rparr>),
          \<lparr>bg_kind = Divorce, bg_case_id = case_id, bg_case_data = cd'\<rparr>,
          JDict
            [(''success'', JBool True),
             (''case_id'', JStr case_id),
             (''status'', JStr ''processing''),
             (''message'',
                JStr ([CHR 0xF0, CHR 0x9F, CHR 0x9A, CHR 0x80]
                        @ '' Your divorce case is being analyzed by our AI agents'')),
             (''estimated_time'', JStr ''3-7 minutes'')]))"

definition get_case_status :: "store \<Rightarrow> string \<Rightarrow> http_exn + jval" where
  "get_case_status case_results case_id =
     (case case_results case_id of
        None \<Rightarrow> Inl (HTTPException 404 ''Case not found'')
      | Some c \<Rightarrow>
          Inr (JDict
            [(''case_id'', JStr case_id),
             (''status'', JStr (status c)),
             (''case_type'', JStr (case_type c)),
             (''created_at'', JStr (created_at c)),
             (''progress'',
                JStr (if status c = ''processing''
                      then [CHR 0xF0, CHR 0x9F, CHR 0xA4, CHR 0x96] @ '' AI agents are working...''
                      else [CHR 0xE2, CHR 0x9C, CHR 0x85] @ '' Complete''))]))"

text \<open>\<open>case.get("results", {})\<close>: an empty dict when the record has no results.\<close>

definition get_case_results :: "store \<Rightarrow> string \<Rightarrow> http_exn + jval" where
  "get_case_results case_results case_id =
     (case case_results case_id of
        None \<Rightarrow> Inl (HTTPException 404 ''Case not found'')
      | Some c \<Rightarrow>
          if status c \<noteq> ''completed''
          then Inl (HTTPException 400 ''Case is still processing'')
          else Inr (JDict
                 [(''case_id'', JStr case_id),
                  (''results'', (case results c of None \<Rightarrow> JDict [] | Some r \<Rightarrow> r)),
                  (''status'', JStr ''completed'')]))"

subsection \<open>Background processing\<close>

text \<open>
  \<open>UKLegalResearchTool.__init__\<close> calls \<open>super().__init__()\<close> and then assigns
  \<open>self.legal_knowledge\<close>. The class derives from \<open>BaseTool\<close>, a pydantic model, and
  declares the fields \<open>name\<close>, \<open>description\<close> and \<open>args_schema\<close> only; assigning an
  attribute that is not a field of a pydantic model raises \<open>ValueError\<close>. So the
  constructor raises, whatever the environment.
\<close>

definition uk_legal_research_tool_init :: "exn option" where
  "uk_legal_research_tool_init =
     Some (ValueError ([CHR 0x22] @ ''UKLegalResearchTool'' @ [CHR 0x22] @ '' object has no field ''
             @ [CHR 0x22] @ ''legal_knowledge'' @ [CHR 0x22]))"

text \<open>
  \<open>ProbateCrew.__init__\<close>: the LLM client is constructed; the search tool and the file
  tool are constructed in a \<open>try\<close> each, a failure leaves \<open>None\<close> in their place; then
  \<open>UKLegalResearchTool()\<close> is called outside any \<open>try\<close>. The result is the exception
  that leaves the constructor, if any.
\<close>

definition probate_crew_init :: "env \<Rightarrow> exn option" where
  "probate_crew_init ev =
     (case crew_init ev of Some e \<Rightarrow> Some e | None \<Rightarrow> uk_legal_research_tool_init)"

text \<open>
  \<open>DivorceCrew.__init__\<close>: the LLM client, the search tool and four agents; nothing of
  the program's own can raise there.
\<close>

definition divorce_crew_init :: "env \<Rightarrow> exn option" where
  "divorce_crew_init ev = crew_init ev"

text \<open>
  The body of the \<open>try\<close> of a background function up to the first write to the store:
  the crew is constructed, then the case is processed.
\<close>

definition run_probate :: "env \<Rightarrow> case_data \<Rightarrow> exn + jval" where
  "run_probate ev cd =
     (case probate_crew_init ev of Some e \<Rightarrow> Inl e | None \<Rightarrow> process_probate_case ev cd)"

definition run_divorce :: "env \<Rightarrow> case_data \<Rightarrow> exn + jval" where
  "run_divorce ev cd =
     (case divorce_crew_init ev of Some e \<Rightarrow> Inl e | None \<Rightarrow> process_divorce_case ev cd)"

text \<open>
  The writes of a background function. With results, the record gets status
  \<open>completed\<close>, the results and \<open>completed_at\<close>; with an exception, status \<open>error\<close> and
  \<open>str(e)\<close>. Were the case id not in the store, \<open>case_results[case_id]\<close> would raise
  \<open>KeyError\<close> in the \<open>try\<close> and again in the handler, and nothing would be written.
\<close>

definition record_outcome :: "store \<Rightarrow> string \<Rightarrow> string \<Rightarrow> exn + jval \<Rightarrow> store" where
  "record_outcome case_results case_id now outcome =
     (case case_results case_id of
        None \<Rightarrow> case_results
      | Some c \<Rightarrow>
          (case outcome of
             Inr res \<Rightarrow>
               case_results(case_id \<mapsto>
                 c\<lparr>status := ''completed'', results := Some res, completed_at := Some now\<rparr>)
           | Inl e \<Rightarrow>
               case_results(case_id \<mapsto> c\<lparr>status := ''error'', error := Some (str_exn e)\<rparr>)))"

definition process_probate_background :: "env \<Rightarrow> store \<Rightarrow> string \<Rightarrow> case_data \<Rightarrow> store" where
  "process_probate_background ev case_results case_id cd =
     record_outcome case_results case_id (now_completed ev) (run_probate ev cd)"

definition process_divorce_background :: "env \<Rightarrow> store \<Rightarrow> string \<Rightarrow> case_data \<Rightarrow> store" where
  "process_divorce_background ev case_results case_id cd =
     record_outcome case_results case_id (now_completed ev) (run_divorce ev cd)"

subsection \<open>The service as a transition system\<close>

text \<open>
  The endpoints and the background functions are coroutines without an \<open>await\<close> inside,
  so each runs to its end once started. The state is the store and the background tasks
  scheduled and not yet run; an event is a submission or the run of a scheduled task,
  in any order. Status and result queries read the store and change nothing.
\<close>

record sys =
  case_results :: store
  pending :: "bg_task list"

datatype event =
    SubmitProbate string string case_data
  | SubmitDivorce string string case_data
  | RunTask nat env

definition init_sys :: sys where
  "init_sys = \<lparr>case_results = Map.empty, pending = []\<rparr>"

definition run_task :: "env \<Rightarrow> store \<Rightarrow> bg_task \<Rightarrow> store" where
  "run_task ev st t =
     (case bg_kind t of
        Probate \<Rightarrow> process_probate_background ev st (bg_case_id t) (bg_case_data t)
      | Divorce \<Rightarrow> process_divorce_background ev st (bg_case_id t) (bg_case_data t))"

fun step :: "event \<Rightarrow> sys \<Rightarrow> sys" where
  "step (SubmitProbate token now cd) s =
     (case create_probate_case (case_results s) token now cd of
        (st, t, response) \<Rightarrow> \<lparr>case_results = st, pending = pending s @ [t]\<rparr>)"
| "step (SubmitDivorce token now cd) s =
     (case create_divorce_case (case_results s) token now cd of
        (st, t, response) \<Rightarrow> \<lparr>case_results = st, pending = pending s @ [t]\<rparr>)"
| "step (RunTask i ev) s =
     (if i < length (pending s)
      then \<lparr>case_results = run_task ev (case_results s) (pending s ! i),
            pending = take i (pending s) @ drop (Suc i) (pending s)\<rparr>
      else s)"

definition exec :: "event list \<Rightarrow> sys \<Rightarrow> sys" where
  "exec evs s = fold step evs s"

text \<open>The status that a status query shows for a case id.\<close>

definition status_of :: "sys \<Rightarrow> string \<Rightarrow> string option" where
  "status_of s case_id = map_option status (case_results s case_id)"

subsection \<open>Runs of the service\<close>

text \<open>The case id that a submission generates.\<close>

fun submit_id :: "event \<Rightarrow> string option" where
  "submit_id (SubmitProbate token now cd) = Some (''PROB_'' @ token)"
| "submit_id (SubmitDivorce token now cd) = Some (''DIV_'' @ token)"
| "submit_id (RunTask i ev) = None"

text \<open>
  An event leaves the case id \<open>i\<close> alone when it is not a submission that generates
  \<open>i\<close> while \<open>i\<close> has a record in the store; a run leaves \<open>i\<close> alone when each of its
  events does. Submissions that generate other ids, colliding or not, are not limited.
\<close>

definition fresh_for :: "string \<Rightarrow> event \<Rightarrow> sys \<Rightarrow> bool" where
  "fresh_for i e s =
     (case submit_id e of None \<Rightarrow> True | Some k \<Rightarrow> k \<noteq> i \<or> case_results s i = None)"

fun fresh_run_for :: "string \<Rightarrow> event list \<Rightarrow> sys \<Rightarrow> bool" where
  "fresh_run_for i [] s = True"
| "fresh_run_for i (e # es) s = (fresh_for i e s \<and> fresh_run_for i es (step e s))"

text \<open>The event runs a scheduled background task for the case id.\<close>

fun runs_on :: "string \<Rightarrow> event \<Rightarrow> sys \<Rightarrow> bool" where
  "runs_on i (RunTask k ev) s = (k < length (pending s) \<and> bg_case_id (pending s ! k) = i)"
| "runs_on i (SubmitProbate token now cd) s = False"
| "runs_on i (SubmitDivorce token now cd) s = False"

text \<open>How many times the background executor runs for the case id in a run.\<close>

fun executor_writes :: "string \<Rightarrow> event list \<Rightarrow> sys \<Rightarrow> nat" where
  "executor_writes i [] s = 0"
| "executor_writes i (e # es) s =
     (if runs_on i e s then 1 else 0) + executor_writes i es (step e s)"

text \<open>The scheduled tasks for a case id.\<close>

definition pending_count :: "string \<Rightarrow> sys \<Rightarrow> nat" where
  "pending_count i s = length (filter (\<lambda>t. bg_case_id t = i) (pending s))"

text \<open>
  What holds of the store and the schedule for a case id that is left alone: without a
  record it has no task; a record that is processing has exactly one; a record that is
  completed or in error has none.
\<close>

definition consistent :: "sys \<Rightarrow> string \<Rightarrow> bool" where
  "consistent s i =
     (case case_results s i of
        None \<Rightarrow> pending_count i s = 0
      | Some j \<Rightarrow>
          (status j = ''processing'' \<and> pending_count i s = 1)
          \<or> ((status j = ''completed'' \<or> status j = ''error'') \<and> pending_count i s = 0))"

section \<open>Readers and the specification's formulas\<close>

text \<open>The \<open>progress\<close> field of a status response.\<close>

definition progress_of :: "http_exn + jval \<Rightarrow> jval option" where
  "progress_of r = (case r of Inl _ \<Rightarrow> None | Inr d \<Rightarrow> jget d ''progress'')"

text \<open>
  The complexity score as the specification words it, with 70% taken exactly:
  3, 2 or 1 by the band of the estate value, plus 1 if the property value exceeds 70%
  of the estate value, plus 1 if the urgency is HIGH.
\<close>

definition spec_complexity_score :: "int \<Rightarrow> int \<Rightarrow> bool \<Rightarrow> int" where
  "spec_complexity_score estate_value property_value urgency_high =
     (if estate_value > 2000000 then 3
      else if estate_value > 1000000 then 2
      else if estate_value > 500000 then 1 else 0)
     + (if 10 * property_value > 7 * estate_value then 1 else 0)
     + (if urgency_high then 1 else 0)"

section \<open>Example inputs\<close>

definition example_job :: "string \<Rightarrow> job" where
  "example_job st =
     \<lparr>status = st, created_at = ''2024-05-01T10:00:00'', case_type = ''probate'',
      job_case_data = Map.empty, results = None, completed_at = None, error = None\<rparr>"

definition example_store :: store where
  "example_store =
     [''PROB_0000000A'' \<mapsto> example_job ''processing'',
      ''PROB_0000000B'' \<mapsto> (example_job ''error'')\<lparr>error := Some ''Connection error.''\<rparr>,
      ''PROB_0000000C'' \<mapsto> (example_job ''completed'')\<lparr>results := Some (JDict [])\<rparr>]"

definition example_case :: case_data where
  "example_case =
     [''deceased_name'' \<mapsto> VStr ''John Smith'',
      ''executor_name'' \<mapsto> VStr ''Jane Smith'',
      ''estate_value'' \<mapsto> VInt 600000,
      ''property_value'' \<mapsto> VInt 350000,
      ''urgency_level'' \<mapsto> VStr ''MEDIUM'']"

definition boundary_case :: case_data where
  "boundary_case =
     [''estate_value'' \<mapsto> VInt 1400000,
      ''property_value'' \<mapsto> VInt 980000,
      ''urgency_level'' \<mapsto> VStr ''HIGH'']"

definition large_case :: case_data where
  "large_case =
     [''estate_value'' \<mapsto> VInt 2500000,
      ''property_value'' \<mapsto> VInt 0,
      ''urgency_level'' \<mapsto> VStr ''HIGH'']"

text \<open>An estate value that is a float: 600,000.5.\<close>

definition float_case :: case_data where
  "float_case =
     [''estate_value'' \<mapsto> VFloat (Dbl 1200001 1),
      ''property_value'' \<mapsto> VInt 350000]"


definition example_divorce :: case_data where
  "example_divorce =
     [''property_value'' \<mapsto> VInt 450000,
      ''marriage_duration'' \<mapsto> VInt 12,
      ''children_count'' \<mapsto> VInt 2,
      ''dispute_level'' \<mapsto> VStr ''LOW'']"

text \<open>A backend that raises, and one that answers.\<close>

definition failing_env :: env where
  "failing_env =
     \<lparr>crew_init = None,
      kickoff = (\<lambda>tasks. Inl (BackendError ''Connection error.'')),
      now_processed = ''2024-05-01T10:02:00'',
      now_completed = ''2024-05-01T10:02:01''\<rparr>"

definition working_env :: env where
  "working_env =
     \<lparr>crew_init = None,
      kickoff = (\<lambda>tasks. Inr ''analysis''),
      now_processed = ''2024-05-01T10:02:00'',
      now_completed = ''2024-05-01T10:02:01''\<rparr>"

text \<open>
  Three runs. A divorce case is submitted and processed. The same, followed by a
  submission that draws the same token again. And a run in which a divorce case and a
  probate case are submitted, the divorce case is processed, a probate submission draws
  the token of the first probate case again and the older of the two probate tasks runs:
  the probate id collides, the divorce id does not.
\<close>

definition run_once :: "event list" where
  "run_once =
     [SubmitDivorce ''0000000A'' ''2024-05-01T10:00:00'' example_divorce,
      RunTask 0 working_env]"

definition run_collision :: "event list" where
  "run_collision =
     run_once @ [SubmitDivorce ''0000000A'' ''2024-05-01T10:05:00'' Map.empty]"

definition run_two :: "event list" where
  "run_two =
     [SubmitDivorce ''0000000A'' ''2024-05-01T10:00:00'' example_divorce,
      SubmitProbate ''0000000B'' ''2024-05-01T10:00:30'' example_case,
      RunTask 0 working_env,
      SubmitProbate ''0000000B'' ''2024-05-01T10:03:00'' large_case,
      RunTask 0 failing_env]"

section \<open>Theorems\<close>

subsection \<open>Sequencing\<close>

lemma and_then_Inr:
  "and_then r f = Inr y \<Longrightarrow> \<exists>x. r = Inr x \<and> f x = Inr y"
  by (cases r) (simp_all add: and_then_def)

lemma collect_Cons_Inr:
  "collect (r # rs) = Inr xs \<Longrightarrow> \<exists>y ys. r = Inr y \<and> collect rs = Inr ys \<and> xs = y # ys"
  by (cases r; cases "collect rs") simp_all



subsection \<open>Knowledge lookup\<close>

text \<open>The program's string handling against the specification's words.\<close>

lemma lower_char_spec:
  "\<forall>c. lower_char c = (case map_of spec_lower_table c of Some l \<Rightarrow> l | None \<Rightarrow> c)"
  by code_simp

lemma lower_spec: "lower s = spec_lower s"
  by (simp add: lower_def spec_lower_def lower_char_spec)

lemma starts_with_prefix: "starts_with s k = prefix k s"
  by (induction s k rule: starts_with.induct) auto

lemma py_in_sublist: "py_in k s = sublist k s"
  by (induction s) (simp_all add: starts_with_prefix sublist_Cons_right)

lemma titles:
  "title (replace_underscore ''inheritance_tax_2024_25'') = topic_title ''inheritance_tax_2024_25''"
  "title (replace_underscore ''probate_process_2024'') = topic_title ''probate_process_2024''"
  "title (replace_underscore ''property_valuation_probate_2024'')
     = topic_title ''property_valuation_probate_2024''"
  "title (replace_underscore ''estate_administration_best_practices'')
     = topic_title ''estate_administration_best_practices''"
  "title (replace_underscore ''gdpr_probate_compliance_2024'')
     = topic_title ''gdpr_probate_compliance_2024''"
  by code_simp+

lemma block_spec:
  "t \<in> set (map fst legal_knowledge) \<Longrightarrow> format_section (t, topic_text t) = spec_topic_block t"
  by (auto simp: legal_knowledge_def format_section_def spec_topic_block_def titles)

lemma disclaimer_spec: "disclaimer = spec_disclaimer"
  by (simp add: disclaimer_def spec_disclaimer_def)

text \<open>The names collected by the loops, as a fold over the sections met.\<close>

lemma first_occurrences_snoc:
  "first_occurrences (xs @ [y]) =
     (if y \<in> set xs then first_occurrences xs else first_occurrences xs @ [y])"
  by (simp add: first_occurrences_def)

lemma set_first_occurrences: "set (first_occurrences xs) = set xs"
  by (simp add: first_occurrences_def)

lemma distinct_first_occurrences: "distinct (first_occurrences xs)"
  by (simp add: first_occurrences_def)

lemma fold_first_occurrences:
  "fold (\<lambda>s ns. if s \<in> set ns then ns else ns @ [s]) secs (first_occurrences xs)
     = first_occurrences (xs @ secs)"
proof (induction secs arbitrary: xs)
  case Nil
  then show ?case by simp
next
  case (Cons s secs)
  have "(if s \<in> set (first_occurrences xs) then first_occurrences xs
         else first_occurrences xs @ [s]) = first_occurrences (xs @ [s])"
    by (simp add: first_occurrences_snoc set_first_occurrences)
  then show ?case using Cons.IH [of "xs @ [s]"] by simp
qed

lemma add_sections_names:
  "\<forall>s \<in> set secs. map_of kb s \<noteq> None \<Longrightarrow>
   map fst (add_sections kb secs rel)
     = fold (\<lambda>s ns. if s \<in> set ns then ns else ns @ [s]) secs (map fst rel)"
proof (induction secs arbitrary: rel)
  case Nil
  then show ?case by simp
next
  case (Cons s secs)
  from Cons.prems obtain c where c: "map_of kb s = Some c" by auto
  from Cons.prems have rest: "\<forall>s \<in> set secs. map_of kb s \<noteq> None" by simp
  show ?case
    using Cons.IH [OF rest, of "rel @ [(s, c)]"] Cons.IH [OF rest, of rel]
    by (simp add: c)
qed

lemma add_sections_content:
  "\<forall>p \<in> set rel. map_of kb (fst p) = Some (snd p) \<Longrightarrow>
   \<forall>p \<in> set (add_sections kb secs rel). map_of kb (fst p) = Some (snd p)"
proof (induction secs arbitrary: rel)
  case Nil
  then show ?case by simp
next
  case (Cons s secs)
  show ?case
  proof (cases "map_of kb s")
    case None
    then show ?thesis using Cons by simp
  next
    case (Some c)
    have ext: "\<forall>p \<in> set (rel @ [(s, c)]). map_of kb (fst p) = Some (snd p)"
      using Cons.prems Some by simp
    show ?thesis
    proof (cases "s \<in> set (map fst rel)")
      case True
      then show ?thesis using Cons.IH [OF Cons.prems] Some by simp
    next
      case False
      then show ?thesis using Cons.IH [OF ext] Some by simp
    qed
  qed
qed

lemma scan_keywords_names:
  "\<forall>p \<in> set kws. \<forall>s \<in> set (snd p). map_of kb s \<noteq> None \<Longrightarrow>
   map fst (scan_keywords kb q kws rel) =
     fold (\<lambda>s ns. if s \<in> set ns then ns else ns @ [s])
       (concat (map snd (filter (\<lambda>p. py_in (fst p) q) kws))) (map fst rel)"
proof (induction kws arbitrary: rel)
  case Nil
  then show ?case by simp
next
  case (Cons kw kws)
  obtain k secs where kw: "kw = (k, secs)" by (cases kw)
  from Cons.prems have secs: "\<forall>s \<in> set secs. map_of kb s \<noteq> None"
    and rest: "\<forall>p \<in> set kws. \<forall>s \<in> set (snd p). map_of kb s \<noteq> None"
    by (auto simp: kw)
  show ?case
    using Cons.IH [OF rest] add_sections_names [OF secs] by (simp add: kw)
qed

lemma scan_keywords_content:
  "\<forall>p \<in> set rel. map_of kb (fst p) = Some (snd p) \<Longrightarrow>
   \<forall>p \<in> set (scan_keywords kb q kws rel). map_of kb (fst p) = Some (snd p)"
proof (induction kws arbitrary: rel)
  case Nil
  then show ?case by simp
next
  case (Cons kw kws)
  obtain k secs where kw: "kw = (k, secs)" by (cases kw)
  show ?case
    using Cons.IH [OF add_sections_content [OF Cons.prems, of secs]] Cons.IH [OF Cons.prems]
    by (simp add: kw)
qed

lemma keyword_mapping_known:
  "\<forall>p \<in> set keyword_mapping. \<forall>s \<in> set (snd p). map_of legal_knowledge s \<noteq> None"
  by (simp add: keyword_mapping_def legal_knowledge_def)

lemma scan_matched:
  "map fst (scan_keywords legal_knowledge (lower q) keyword_mapping []) = matched_topics q"
  using scan_keywords_names [OF keyword_mapping_known, of "lower q" "[]"]
    fold_first_occurrences [of _ "[]"]
  by (simp add: matched_topics_def first_occurrences_def py_in_sublist lower_spec)

lemma content_pairs:
  "\<forall>p \<in> set rel. map_of legal_knowledge (fst p) = Some (snd p) \<Longrightarrow>
   rel = map (\<lambda>t. (t, topic_text t)) (map fst rel)"
  by (induction rel) (auto simp: topic_text_def)

lemma matched_known: "set (matched_topics q) \<subseteq> set (map fst legal_knowledge)"
proof
  fix t
  assume "t \<in> set (matched_topics q)"
  then obtain p where p: "p \<in> set keyword_mapping" and t: "t \<in> set (snd p)"
    by (auto simp: matched_topics_def set_first_occurrences)
  from keyword_mapping_known p t have "map_of legal_knowledge t \<noteq> None" by blast
  then show "t \<in> set (map fst legal_knowledge)" by (simp add: map_of_eq_None_iff)
qed

lemma default_known: "set default_topics \<subseteq> set (map fst legal_knowledge)"
  by (simp add: default_topics_def legal_knowledge_def)

lemma blocks_spec:
  assumes "set ts \<subseteq> set (map fst legal_knowledge)"
  shows "map format_section (map (\<lambda>t. (t, topic_text t)) (take 2 ts))
           = map spec_topic_block (take 2 ts)"
proof -
  have "\<forall>t \<in> set (take 2 ts). format_section (t, topic_text t) = spec_topic_block t"
    using assms block_spec by (meson in_set_takeD subsetD)
  then show ?thesis by simp
qed

text \<open>
  C8. The knowledge lookup is a function of the query alone and never fails: for every
  query it returns (\<open>Inr\<close>) the text that the specification describes. That text,
  \<open>lookup_spec\<close>, is written without the program's string functions: the query is put in
  lower case, the topics of every keyword that occurs in it as a contiguous piece are
  taken in the mapping's order, the first occurrence of each topic is kept, the default
  pair (process overview, tax overview) stands in when nothing matches, and the result
  is the query header, at most the first two topics, each under its title, and the
  fixed disclaimer at the end. The topics shown are one or two, and no topic is matched
  twice.
\<close>

theorem search_legal_info_spec:
  "search_legal_info legal_knowledge query = Inr (lookup_spec query)
   \<and> shown_topics query \<noteq> [] \<and> length (shown_topics query) \<le> 2
   \<and> distinct (matched_topics query)"
proof -
  let ?rel = "scan_keywords legal_knowledge (lower query) keyword_mapping []"
  have names: "map fst ?rel = matched_topics query" by (rule scan_matched)
  have "\<forall>p \<in> set ?rel. map_of legal_knowledge (fst p) = Some (snd p)"
    by (rule scan_keywords_content) simp
  then have pairs: "?rel = map (\<lambda>t. (t, topic_text t)) (matched_topics query)"
    using content_pairs names by metis
  have main: "search_legal_info legal_knowledge query = Inr (lookup_spec query)"
  proof (cases "matched_topics query = []")
    case True
    then have rel: "?rel = []" using pairs by simp
    have c1: "kb_index legal_knowledge ''probate_process_2024''
                = Inr (topic_text ''probate_process_2024'')"
      and c2: "kb_index legal_knowledge ''inheritance_tax_2024_25''
                = Inr (topic_text ''inheritance_tax_2024_25'')"
      by (simp_all add: kb_index_def topic_text_def legal_knowledge_def)
    have "map format_section (map (\<lambda>t. (t, topic_text t)) (take 2 default_topics))
            = map spec_topic_block (take 2 default_topics)"
      by (rule blocks_spec [OF default_known])
    then have "concat (map format_section
                 [(''probate_process_2024'', topic_text ''probate_process_2024''),
                  (''inheritance_tax_2024_25'', topic_text ''inheritance_tax_2024_25'')])
               = concat (map spec_topic_block (shown_topics query))"
      using True by (simp add: default_topics_def shown_topics_def)
    then show ?thesis
      using rel
      by (simp add: search_legal_info_def c1 c2 format_response_def response_header_def
          lookup_spec_def disclaimer_spec)
  next
    case False
    then have rel: "?rel \<noteq> []" using pairs by simp
    have "map format_section (map (\<lambda>t. (t, topic_text t)) (take 2 (matched_topics query)))
            = map spec_topic_block (take 2 (matched_topics query))"
      by (rule blocks_spec [OF matched_known])
    moreover have "take 2 ?rel = map (\<lambda>t. (t, topic_text t)) (take 2 (matched_topics query))"
      by (subst pairs) (simp add: take_map)
    ultimately have "concat (map format_section (take 2 ?rel))
               = concat (map spec_topic_block (take 2 (matched_topics query)))"
      by (simp only:)
    then have "concat (map format_section (take 2 ?rel))
               = concat (map spec_topic_block (shown_topics query))"
      using False by (simp add: shown_topics_def)
    then show ?thesis
      using rel
      by (simp add: search_legal_info_def format_response_def response_header_def
          lookup_spec_def disclaimer_spec Let_def)
  qed
  have shown: "shown_topics query \<noteq> [] \<and> length (shown_topics query) \<le> 2"
    by (simp add: shown_topics_def default_topics_def)
  have "distinct (matched_topics query)"
    by (simp add: matched_topics_def distinct_first_occurrences)
  with main shown show ?thesis by simp
qed

theorem search_legal_info_spec_witness:
  "matched_topics ''Inheritance Tax on property''
       = [''inheritance_tax_2024_25'', ''property_valuation_probate_2024'']
   \<and> matched_topics ''Estate valuation for Probate''
       = [''probate_process_2024'', ''estate_administration_best_practices'',
          ''property_valuation_probate_2024'']
   \<and> matched_topics ''hello'' = []
   \<and> shown_topics ''hello'' = [''probate_process_2024'', ''inheritance_tax_2024_25'']
   \<and> search_legal_info legal_knowledge ''hello''
       = Inr (''Legal Research Results for: '' @ [CHR 0x27] @ ''hello'' @ [CHR 0x27, CHR 0x0A, CHR 0x0A]
              @ ''**Probate Process 2024:**'' @ [CHR 0x0A]
              @ probate_process_2024_text @ [CHR 0x0A, CHR 0x0A]
              @ ''**Inheritance Tax 2024 25:**'' @ [CHR 0x0A]
              @ inheritance_tax_2024_25_text @ [CHR 0x0A, CHR 0x0A]
              @ [CHR 0x0A] @ ''**Important Note:** This information is for guidance only. Always consult qualified legal professionals for specific advice on individual cases.'')"
proof -
  have m1: "matched_topics ''Inheritance Tax on property''
          = [''inheritance_tax_2024_25'', ''property_valuation_probate_2024'']"
    by code_simp
  have m2: "matched_topics ''Estate valuation for Probate''
       = [''probate_process_2024'', ''estate_administration_best_practices'',
          ''property_valuation_probate_2024'']"
    by code_simp
  have m3: "matched_topics ''hello'' = []" by code_simp
  have s3: "shown_topics ''hello'' = [''probate_process_2024'', ''inheritance_tax_2024_25'']"
    by code_simp
  have r: "search_legal_info legal_knowledge ''hello'' = Inr (lookup_spec ''hello'')"
    using search_legal_info_spec [of "''hello''"] by simp
  have "lookup_spec ''hello''
       = ''Legal Research Results for: '' @ [CHR 0x27] @ ''hello'' @ [CHR 0x27, CHR 0x0A, CHR 0x0A]
              @ ''**Probate Process 2024:**'' @ [CHR 0x0A]
              @ probate_process_2024_text @ [CHR 0x0A, CHR 0x0A]
              @ ''**Inheritance Tax 2024 25:**'' @ [CHR 0x0A]
              @ inheritance_tax_2024_25_text @ [CHR 0x0A, CHR 0x0A]
              @ [CHR 0x0A] @ ''**Important Note:** This information is for guidance only. Always consult qualified legal professionals for specific advice on individual cases.''"
    by (simp add: lookup_spec_def s3 spec_topic_block_def topic_title_def topic_text_def
        legal_knowledge_def spec_disclaimer_def)
  with m1 m2 m3 s3 r show ?thesis by simp
qed

subsection \<open>Declared contexts of the probate tasks\<close>

lemma document_analysis_task_context:
  "document_analysis_task d = Inr t \<Longrightarrow>
   task_name t = ''document_analysis_task'' \<and> task_context t = None"
  unfolding document_analysis_task_def by (drule and_then_Inr) auto

lemma legal_strategy_task_context:
  "legal_strategy_task d = Inr t \<Longrightarrow>
   task_name t = ''legal_strategy_task'' \<and> task_context t = Some [''document_analysis_task'']"
  unfolding legal_strategy_task_def by (drule and_then_Inr) auto

lemma tax_calculation_task_context:
  "tax_calculation_task d = Inr t \<Longrightarrow>
   task_name t = ''tax_calculation_task''
   \<and> task_context t = Some [''document_analysis_task'', ''legal_strategy_task'']"
  unfolding tax_calculation_task_def by (drule and_then_Inr) auto

lemma compliance_task_context:
  "compliance_task d = Inr t \<Longrightarrow>
   task_name t = ''compliance_task'' \<and> task_context t = Some [''document_analysis_task'']"
  unfolding compliance_task_def by (drule and_then_Inr) auto

lemma case_management_task_context:
  "case_management_task d = Inr t \<Longrightarrow>
   task_name t = ''case_management_task''
   \<and> task_context t = Some [''document_analysis_task'', ''legal_strategy_task'',
                              ''tax_calculation_task'', ''compliance_task'']"
  unfolding case_management_task_def by auto

text \<open>
  C5. Whenever the five probate tasks are built, their declared contexts are exactly
  these: the legal strategy has the document analysis only; the tax calculation has the
  document analysis and the legal strategy; the compliance assessment has the document
  analysis only, so the tax calculation is not in it; the case management has all four
  earlier tasks. The document analysis declares none.
\<close>

theorem probate_contexts:
  assumes "probate_tasks d = Inr ts"
  shows "map (\<lambda>t. (task_name t, task_context t)) ts =
     [(''document_analysis_task'', None),
      (''legal_strategy_task'', Some [''document_analysis_task'']),
      (''tax_calculation_task'', Some [''document_analysis_task'', ''legal_strategy_task'']),
      (''compliance_task'', Some [''document_analysis_task'']),
      (''case_management_task'',
         Some [''document_analysis_task'', ''legal_strategy_task'',
               ''tax_calculation_task'', ''compliance_task''])]"
proof -
  from assms obtain t1 r1 where t1: "document_analysis_task d = Inr t1"
    and r1: "collect [legal_strategy_task d, tax_calculation_task d, compliance_task d,
                      case_management_task d] = Inr r1" and ts: "ts = t1 # r1"
    unfolding probate_tasks_def by (blast dest: collect_Cons_Inr)
  from r1 obtain t2 r2 where t2: "legal_strategy_task d = Inr t2"
    and r2: "collect [tax_calculation_task d, compliance_task d, case_management_task d] = Inr r2"
    and e1: "r1 = t2 # r2"
    by (blast dest: collect_Cons_Inr)
  from r2 obtain t3 r3 where t3: "tax_calculation_task d = Inr t3"
    and r3: "collect [compliance_task d, case_management_task d] = Inr r3"
    and e2: "r2 = t3 # r3"
    by (blast dest: collect_Cons_Inr)
  from r3 obtain t4 r4 where t4: "compliance_task d = Inr t4"
    and r4: "collect [case_management_task d] = Inr r4" and e3: "r3 = t4 # r4"
    by (blast dest: collect_Cons_Inr)
  from r4 obtain t5 r5 where t5: "case_management_task d = Inr t5"
    and r5: "collect [] = Inr r5" and e4: "r4 = t5 # (r5 :: task list)"
    by (blast dest: collect_Cons_Inr)
  from r5 have e5: "r5 = []" by simp
  show ?thesis
    using document_analysis_task_context [OF t1] legal_strategy_task_context [OF t2]
      tax_calculation_task_context [OF t3] compliance_task_context [OF t4]
      case_management_task_context [OF t5]
    by (simp add: ts e1 e2 e3 e4 e5)
qed

theorem probate_contexts_witness:
  "\<not> isl (probate_tasks example_case)
   \<and> map (\<lambda>t. (task_name t, task_context t)) (projr (probate_tasks example_case)) =
     [(''document_analysis_task'', None),
      (''legal_strategy_task'', Some [''document_analysis_task'']),
      (''tax_calculation_task'', Some [''document_analysis_task'', ''legal_strategy_task'']),
      (''compliance_task'', Some [''document_analysis_task'']),
      (''case_management_task'',
         Some [''document_analysis_task'', ''legal_strategy_task'',
               ''tax_calculation_task'', ''compliance_task''])]"
proof -
  have built: "\<not> isl (probate_tasks example_case)" by code_simp
  then have "probate_tasks example_case = Inr (projr (probate_tasks example_case))" by simp
  from probate_contexts [OF this] built show ?thesis by simp
qed

subsection \<open>Creating a job\<close>

text \<open>
  C9, as stated, fails: creating a job under a case id that is already in the store
  does not fail and does overwrite. In the example store \<open>PROB_0000000C\<close> is completed
  and has results; a submission whose token is \<open>0000000C\<close> answers with success and
  leaves a fresh record there, processing and without results.
\<close>

theorem create_case_counterexample:
  "map_option status (example_store ''PROB_0000000C'') = Some ''completed''
   \<and> map_option results (example_store ''PROB_0000000C'') = Some (Some (JDict []))
   \<and> map_option status
        (fst (create_probate_case example_store ''0000000C'' ''2024-05-02T09:00:00'' example_case)
           ''PROB_0000000C'') = Some ''processing''
   \<and> map_option results
        (fst (create_probate_case example_store ''0000000C'' ''2024-05-02T09:00:00'' example_case)
           ''PROB_0000000C'') = Some None
   \<and> jget (snd (snd (create_probate_case example_store ''0000000C'' ''2024-05-02T09:00:00''
                        example_case))) ''success'' = Some (JBool True)"
  by (simp add: example_store_def example_job_def create_probate_case_def jget_def Let_def)

text \<open>
  C9, amended. Creating a job never fails and never looks at the store: whether or not
  the generated case id is already present, the response reports success and the store
  holds a fresh record under the id, with status \<open>processing\<close> and no results, in place
  of whatever was there. So for probate and for divorce.
\<close>

theorem create_case_overwrites:
  "fst (create_probate_case st token now cd)
     = st(''PROB_'' @ token \<mapsto>
          \<lparr>status = ''processing'', created_at = now, case_type = ''probate'',
           job_case_data = cd(''case_id'' \<mapsto> VStr (''PROB_'' @ token)),
           results = None, completed_at = None, error = None\<rparr>)
   \<and> jget (snd (snd (create_probate_case st token now cd))) ''success'' = Some (JBool True)
   \<and> fst (create_divorce_case st token now cd)
     = st(''DIV_'' @ token \<mapsto>
          \<lparr>status = ''processing'', created_at = now, case_type = ''divorce'',
           job_case_data = cd(''case_id'' \<mapsto> VStr (''DIV_'' @ token)),
           results = None, completed_at = None, error = None\<rparr>)
   \<and> jget (snd (snd (create_divorce_case st token now cd))) ''success'' = Some (JBool True)"
  by (simp add: create_probate_case_def create_divorce_case_def jget_def Let_def)

theorem create_case_overwrites_witness:
  "map_option status
     (fst (create_divorce_case example_store ''0000000C'' ''2024-05-02T09:00:00'' example_divorce)
        ''DIV_0000000C'') = Some ''processing''
   \<and> jget (snd (snd (create_divorce_case example_store ''0000000C'' ''2024-05-02T09:00:00''
                        example_divorce))) ''success'' = Some (JBool True)"
  using create_case_overwrites
    [of example_store "''0000000C''" "''2024-05-02T09:00:00''" example_divorce]
  by simp

subsection \<open>A backend failure in the divorce pipeline\<close>

text \<open>
  C6. For every divorce case whose tasks are built and whose crew is constructed, a
  failure of the inference backend in \<open>kickoff\<close> is not turned into a fallback payload:
  \<open>process_divorce_case\<close> raises the same exception, and the background function sets
  the job to status \<open>error\<close> and records the exception's message; no results are
  attached.
\<close>

theorem divorce_failure_is_error:
  assumes "st case_id = Some c" and "crew_init ev = None"
    and "divorce_tasks cd = Inr ts" and "kickoff ev ts = Inl e"
  shows "process_divorce_case ev cd = Inl e
    \<and> process_divorce_background ev st case_id cd
        = st(case_id \<mapsto> c\<lparr>status := ''error'', error := Some (str_exn e)\<rparr>)"
  using assms
  by (simp add: process_divorce_case_def process_divorce_background_def run_divorce_def
      divorce_crew_init_def record_outcome_def and_then_def)

theorem divorce_failure_is_error_witness:
  "example_store ''PROB_0000000A'' = Some (example_job ''processing'')
   \<and> crew_init failing_env = None
   \<and> \<not> isl (divorce_tasks example_divorce)
   \<and> kickoff failing_env (projr (divorce_tasks example_divorce))
       = Inl (BackendError ''Connection error.'')
   \<and> process_divorce_case failing_env example_divorce = Inl (BackendError ''Connection error.'')
   \<and> map_option status
        (process_divorce_background failing_env example_store ''PROB_0000000A'' example_divorce
           ''PROB_0000000A'') = Some ''error''
   \<and> map_option error
        (process_divorce_background failing_env example_store ''PROB_0000000A'' example_divorce
           ''PROB_0000000A'') = Some (Some ''Connection error.'')
   \<and> map_option results
        (process_divorce_background failing_env example_store ''PROB_0000000A'' example_divorce
           ''PROB_0000000A'') = Some None"
proof -
  have a: "example_store ''PROB_0000000A'' = Some (example_job ''processing'')"
    by (simp add: example_store_def)
  have b: "crew_init failing_env = None" by (simp add: failing_env_def)
  have built: "\<not> isl (divorce_tasks example_divorce)" by code_simp
  then have c: "divorce_tasks example_divorce = Inr (projr (divorce_tasks example_divorce))"
    by simp
  have d: "kickoff failing_env (projr (divorce_tasks example_divorce))
             = Inl (BackendError ''Connection error.'')"
    by (simp add: failing_env_def)
  from divorce_failure_is_error
         [of example_store "''PROB_0000000A''" "example_job ''processing''" failing_env
             example_divorce "projr (divorce_tasks example_divorce)"
             "BackendError ''Connection error.''", OF a b c d]
       a b built d
  show ?thesis by (simp add: example_job_def)
qed

subsection \<open>A backend failure in the probate pipeline\<close>





text \<open>
  As the constructors are written, no probate crew is ever built, so every background
  probate job that finds its record ends in \<open>error\<close>, whatever the backend does.
\<close>

lemma probate_crew_never_built: "\<exists>e. probate_crew_init ev = Some e"
  by (cases "crew_init ev") (simp_all add: probate_crew_init_def uk_legal_research_tool_init_def)

lemma probate_job_ends_in_error:
  assumes "st case_id = Some c"
  shows "\<exists>e. process_probate_background ev st case_id cd
               = st(case_id \<mapsto> c\<lparr>status := ''error'', error := Some (str_exn e)\<rparr>)"
proof -
  from probate_crew_never_built obtain e where "probate_crew_init ev = Some e" by blast
  then show ?thesis
    using assms by (auto simp: process_probate_background_def run_probate_def record_outcome_def)
qed




subsection \<open>Status and result queries\<close>

text \<open>
  C10. For every stored case whose status is anything other than \<open>processing\<close>, a job
  in the error state included, the status query returns the progress text
  "(check mark) Complete": the progress field does not tell an errored job from a
  completed one.
\<close>

theorem status_progress_complete:
  assumes "st case_id = Some c" and "status c \<noteq> ''processing''"
  shows "progress_of (get_case_status st case_id)
           = Some (JStr ([CHR 0xE2, CHR 0x9C, CHR 0x85] @ '' Complete''))"
  using assms by (simp add: progress_of_def get_case_status_def jget_def)

theorem status_progress_complete_witness:
  "example_store ''PROB_0000000B''
     = Some ((example_job ''error'')\<lparr>error := Some ''Connection error.''\<rparr>)
   \<and> status ((example_job ''error'')\<lparr>error := Some ''Connection error.''\<rparr>) = ''error''
   \<and> progress_of (get_case_status example_store ''PROB_0000000B'')
       = Some (JStr ([CHR 0xE2, CHR 0x9C, CHR 0x85] @ '' Complete''))"
  using status_progress_complete
    [of example_store "''PROB_0000000B''"
        "(example_job ''error'')\<lparr>error := Some ''Connection error.''\<rparr>"]
  by (simp add: example_store_def example_job_def)

text \<open>
  C7, as stated, fails: a result query does not tell "still running" from "failed".
  In the example store the job \<open>PROB_0000000A\<close> is processing and \<open>PROB_0000000B\<close> is
  in the error state, and both queries get the same answer, 400 "Case is still
  processing".
\<close>

theorem results_query_counterexample:
  "map_option status (example_store ''PROB_0000000A'') = Some ''processing''
   \<and> map_option status (example_store ''PROB_0000000B'') = Some ''error''
   \<and> get_case_results example_store ''PROB_0000000A''
       = Inl (HTTPException 400 ''Case is still processing'')
   \<and> get_case_results example_store ''PROB_0000000B''
       = Inl (HTTPException 400 ''Case is still processing'')"
  by (simp add: example_store_def example_job_def get_case_results_def)

text \<open>
  C7, amended. A result query for an unknown case id fails with 404 "Case not found";
  for a known case id whose status is not \<open>completed\<close>, be it processing or error, it
  fails with 400 "Case is still processing"; for a completed job it returns the stored
  payload, in which a fallback is told from a normal success by the payload's
  \<open>processing_status\<close>.
\<close>

theorem results_query:
  "(st case_id = None \<longrightarrow>
      get_case_results st case_id = Inl (HTTPException 404 ''Case not found''))
   \<and> (\<forall>c. st case_id = Some c \<and> status c \<noteq> ''completed'' \<longrightarrow>
      get_case_results st case_id = Inl (HTTPException 400 ''Case is still processing''))
   \<and> (\<forall>c r. st case_id = Some c \<and> status c = ''completed'' \<and> results c = Some r \<longrightarrow>
      get_case_results st case_id
        = Inr (JDict [(''case_id'', JStr case_id), (''results'', r),
                      (''status'', JStr ''completed'')]))
   \<and> (\<forall>d e t r. generate_fallback_results d e t = Inr r \<longrightarrow>
      jget r ''processing_status'' = Some (JStr ''completed_with_fallback''))
   \<and> (\<forall>d a t r. structure_probate_results d a t = Inr r \<longrightarrow>
      jget r ''processing_status'' = Some (JStr ''completed''))"
  by (auto simp: get_case_results_def generate_fallback_results_def
      structure_probate_results_def and_then_def jget_def split: sum.splits)

theorem results_query_witness:
  "get_case_results example_store ''PROB_0000000D'' = Inl (HTTPException 404 ''Case not found'')
   \<and> get_case_results example_store ''PROB_0000000A''
       = Inl (HTTPException 400 ''Case is still processing'')
   \<and> get_case_results example_store ''PROB_0000000C''
       = Inr (JDict [(''case_id'', JStr ''PROB_0000000C''), (''results'', JDict []),
                     (''status'', JStr ''completed'')])
   \<and> \<not> isl (generate_fallback_results example_case ''Connection error.'' ''2024-05-01T10:02:00'')
   \<and> jget (projr (generate_fallback_results example_case ''Connection error.''
                       ''2024-05-01T10:02:00'')) ''processing_status''
       = Some (JStr ''completed_with_fallback'')
   \<and> \<not> isl (structure_probate_results example_case ''analysis'' ''2024-05-01T10:02:00'')
   \<and> jget (projr (structure_probate_results example_case ''analysis''
                       ''2024-05-01T10:02:00'')) ''processing_status''
       = Some (JStr ''completed'')"
proof -
  have f: "\<not> isl (generate_fallback_results example_case ''Connection error.''
                    ''2024-05-01T10:02:00'')"
    by code_simp
  then have f': "generate_fallback_results example_case ''Connection error.''
                   ''2024-05-01T10:02:00''
      = Inr (projr (generate_fallback_results example_case ''Connection error.''
                      ''2024-05-01T10:02:00''))"
    by simp
  have g: "\<not> isl (structure_probate_results example_case ''analysis'' ''2024-05-01T10:02:00'')"
    by code_simp
  then have g': "structure_probate_results example_case ''analysis'' ''2024-05-01T10:02:00''
      = Inr (projr (structure_probate_results example_case ''analysis''
                      ''2024-05-01T10:02:00''))"
    by simp
  have a: "get_case_results example_store ''PROB_0000000D''
             = Inl (HTTPException 404 ''Case not found'')"
    using results_query [of example_store "''PROB_0000000D''"]
    by (simp add: example_store_def)
  have b: "get_case_results example_store ''PROB_0000000A''
             = Inl (HTTPException 400 ''Case is still processing'')"
    using results_query [of example_store "''PROB_0000000A''"]
    by (simp add: example_store_def example_job_def)
  have c: "get_case_results example_store ''PROB_0000000C''
             = Inr (JDict [(''case_id'', JStr ''PROB_0000000C''), (''results'', JDict []),
                           (''status'', JStr ''completed'')])"
    using results_query [of example_store "''PROB_0000000C''"]
    by (simp add: example_store_def example_job_def)
  have d: "jget (projr (generate_fallback_results example_case ''Connection error.''
                         ''2024-05-01T10:02:00'')) ''processing_status''
             = Some (JStr ''completed_with_fallback'')"
    using results_query [of example_store "''PROB_0000000A''"] f' by blast
  have e: "jget (projr (structure_probate_results example_case ''analysis''
                         ''2024-05-01T10:02:00'')) ''processing_status''
             = Some (JStr ''completed'')"
    using results_query [of example_store "''PROB_0000000A''"] g' by blast
  from a b c d e f g show ?thesis by blast
qed

subsection \<open>Complexity\<close>

text \<open>
  C3, at the input where the code leaves the formula: estate value 1,400,000, property
  value 980,000, urgency HIGH. The property value is exactly 70% of the estate value,
  so the formula gives 2 + 0 + 1 = 3, MEDIUM. The code compares with the float product
  \<open>1400000 * 0.7\<close>, which is 979999.9999999999 (0.7 is not a binary fraction), adds
  the point for a property-heavy estate, and returns score 4, HIGH.
\<close>

theorem complexity_boundary:
  "complexity_score boundary_case = Inr 4
   \<and> assess_complexity boundary_case = Inr ''HIGH''
   \<and> spec_complexity_score 1400000 980000 True = 3
   \<and> complexity_label (spec_complexity_score 1400000 980000 True) = ''MEDIUM''"
  by code_simp

text \<open>The example of the specification: 2,500,000 with no property and urgency HIGH.\<close>

lemma complexity_large:
  "complexity_score large_case = Inr 4 \<and> assess_complexity large_case = Inr ''HIGH''"
  by code_simp

subsection \<open>Rounding to a double\<close>

lemma bit_length_0: "bit_length 0 = 0"
  by (subst bit_length.simps) simp

lemma bit_length_pos: "0 < n \<Longrightarrow> bit_length n = Suc (bit_length (n div 2))"
  by (subst bit_length.simps) simp

lemma bit_length_bounds:
  "0 < n \<Longrightarrow> (2::int) ^ (bit_length n - 1) \<le> n \<and> n < 2 ^ bit_length n"
proof (induction n rule: bit_length.induct)
  case (1 n)
  have bl: "bit_length n = Suc (bit_length (n div 2))"
    using "1.prems" by (rule bit_length_pos)
  show ?case
  proof (cases "n = 1")
    case True
    have "bit_length 1 = Suc 0" using bit_length_pos [of 1] by (simp add: bit_length_0)
    with True show ?thesis by simp
  next
    case False
    with "1.prems" have pos: "0 < n div 2" by simp
    from "1.prems" have "\<not> n \<le> 0" by simp
    from "1.IH" [OF this pos]
    have lo: "(2::int) ^ (bit_length (n div 2) - 1) \<le> n div 2"
      and hi: "n div 2 < 2 ^ bit_length (n div 2)" by simp_all
    obtain k where k: "bit_length (n div 2) = Suc k"
      using bit_length_pos [OF pos] by blast
    have "(2::int) * 2 ^ k \<le> 2 * (n div 2)" using lo by (simp add: k)
    moreover have "2 * (n div 2) \<le> n" by simp
    ultimately have a: "(2::int) ^ (bit_length n - 1) \<le> n" by (simp add: bl k)
    have "n < 2 * (n div 2) + 2" by presburger
    moreover have "2 * (n div 2) + 2 \<le> 2 * 2 ^ bit_length (n div 2)" using hi by simp
    ultimately have b: "n < 2 ^ bit_length n" by (simp add: bl)
    from a b show ?thesis by simp
  qed
qed

lemma bit_length_le:
  assumes "0 \<le> n" and "n < 2 ^ k"
  shows "bit_length n \<le> k"
proof (cases "n = 0")
  case True
  then show ?thesis by (simp add: bit_length_0)
next
  case False
  with assms have pos: "0 < n" by simp
  show ?thesis
  proof (rule ccontr)
    assume "\<not> bit_length n \<le> k"
    then have "k \<le> bit_length n - 1" by simp
    then have A: "(2::int) ^ k \<le> 2 ^ (bit_length n - 1)" by (rule power_increasing) simp
    have B: "(2::int) ^ (bit_length n - 1) \<le> n" using bit_length_bounds [OF pos] by blast
    from A B assms(2) show False by linarith
  qed
qed

lemma round_half_even_error:
  "2 * \<bar>round_half_even n s * 2 ^ s - n\<bar> \<le> 2 ^ s"
proof -
  define q where "q = n div 2 ^ s"
  define r where "r = n mod 2 ^ s"
  have n: "n = q * 2 ^ s + r" unfolding q_def r_def by (rule div_mult_mod_eq [symmetric])
  have r0: "0 \<le> r" and r1: "r < 2 ^ s" by (simp_all add: r_def)
  show ?thesis
  proof (cases "2 * r > 2 ^ s \<or> (2 * r = 2 ^ s \<and> odd q)")
    case True
    then have "round_half_even n s = q + 1"
      unfolding round_half_even_def Let_def q_def [symmetric] r_def [symmetric] by simp
    then have "round_half_even n s * 2 ^ s - n = 2 ^ s - r"
      by (simp add: n algebra_simps)
    with True r0 r1 show ?thesis by auto
  next
    case False
    then have "round_half_even n s = q"
      unfolding round_half_even_def Let_def q_def [symmetric] r_def [symmetric] by simp
    then have "round_half_even n s * 2 ^ s - n = - r" by (simp add: n)
    with False r0 r1 show ?thesis by auto
  qed
qed

lemma div_mod_unique:
  assumes "0 \<le> r" and "r < (b::int)"
  shows "(r + a * b) div b = a \<and> (r + a * b) mod b = r"
  using assms by simp

lemma round_half_even_nearest:
  assumes "2 * \<bar>n - a * 2 ^ s\<bar> < 2 ^ s"
  shows "round_half_even n s = a"
proof (cases "a * 2 ^ s \<le> n")
  case True
  define r where "r = n - a * 2 ^ s"
  have r0: "0 \<le> r" using True by (simp add: r_def)
  have r2: "2 * r < 2 ^ s" using True assms by (simp add: r_def)
  have rs: "r < 2 ^ s" using r0 r2 by linarith
  have n: "n = r + a * 2 ^ s" by (simp add: r_def)
  have q: "n div 2 ^ s = a" and m: "n mod 2 ^ s = r"
    using div_mod_unique [OF r0 rs, of a] by (simp_all add: n)
  show ?thesis using r2 by (simp add: round_half_even_def q m Let_def)
next
  case False
  define r where "r = n - (a - 1) * 2 ^ s"
  have neg: "n - a * 2 ^ s < 0" using False by simp
  then have "2 * (a * 2 ^ s - n) < 2 ^ s" using assms by simp
  then have r2: "2 * r > 2 ^ s" by (simp add: r_def algebra_simps)
  have rs: "r < 2 ^ s" using neg by (simp add: r_def algebra_simps)
  have "(0::int) \<le> 2 ^ s" by simp
  with r2 have r0: "0 \<le> r" by linarith
  have n: "n = r + (a - 1) * 2 ^ s" by (simp add: r_def)
  have q: "n div 2 ^ s = a - 1" and m: "n mod 2 ^ s = r"
    using div_mod_unique [OF r0 rs, of "a - 1"] by (simp_all add: n)
  show ?thesis using r2 by (simp add: round_half_even_def q m Let_def)
qed

lemma round53_exact:
  assumes "0 \<le> n" and "n < 2 ^ 53"
  shows "round53 n = n"
proof -
  have "bit_length n - 53 = 0" using bit_length_le [OF assms] by simp
  then show ?thesis by (simp add: round53_def round_half_even_def)
qed

lemma round53_error:
  assumes "0 \<le> n"
  shows "\<bar>round53 n - n\<bar> * 2 ^ 53 \<le> n"
proof (cases "bit_length n \<le> 53")
  case True
  then have "bit_length n - 53 = 0" by simp
  then have "round53 n = n" by (simp add: round53_def round_half_even_def)
  with assms show ?thesis by simp
next
  case False
  define s where "s = bit_length n - 53"
  have bl: "bit_length n - 1 = s + 52" using False by (simp add: s_def)
  have pos: "0 < n"
    using False assms by (cases "n = 0") (simp_all add: bit_length_0)
  have "(2::int) ^ (bit_length n - 1) \<le> n" using bit_length_bounds [OF pos] by blast
  then have "(2::int) ^ (s + 52) \<le> n" unfolding bl .
  then have lo: "(2::int) ^ s * 2 ^ 52 \<le> n" by (simp add: power_add)
  have "2 * \<bar>round53 n - n\<bar> \<le> 2 ^ s"
    using round_half_even_error [of n s] by (simp add: round53_def s_def Let_def)
  then have "2 * \<bar>round53 n - n\<bar> * 2 ^ 52 \<le> 2 ^ s * 2 ^ 52"
    by (rule mult_right_mono) simp
  with lo show ?thesis by simp
qed

lemma round53_nonneg:
  assumes "0 \<le> n"
  shows "0 \<le> round53 n"
proof -
  have "0 \<le> n div 2 ^ (bit_length n - 53)" using assms by (simp add: pos_imp_zdiv_nonneg_iff)
  then have "0 \<le> round_half_even n (bit_length n - 53)"
    by (simp add: round_half_even_def Let_def)
  then show ?thesis by (simp add: round53_def Let_def)
qed


lemma rounding_margin:
  fixes R N d P :: int
  assumes err: "\<bar>R - N\<bar> * 9007199254740992 \<le> N"
    and n: "5 * N = d * 36028797018963970"
    and p: "\<bar>2 * d - 5 * P\<bar> \<le> 2"
    and d0: "0 < d" and d1: "d \<le> 1125899906842624"
  shows "2 * \<bar>R - P * 18014398509481984\<bar> < 18014398509481984"
    and "0 < R"
    and "10 * \<bar>5 * R - 2 * d * 18014398509481984\<bar> < 5 * 18014398509481984"
proof -
  define E where "E = R - N"
  define X where "X = R - P * 18014398509481984"
  define Y where "Y = 5 * R - 2 * d * 18014398509481984"
  define Q where "Q = 2 * d - 5 * P"
  have "E * 9007199254740992 \<le> \<bar>E\<bar> * 9007199254740992"
    by (rule mult_right_mono) simp_all
  with err have u1: "E * 9007199254740992 \<le> N" by (simp add: E_def)
  have "(- E) * 9007199254740992 \<le> \<bar>E\<bar> * 9007199254740992"
    by (rule mult_right_mono) simp_all
  with err have u2: "(- E) * 9007199254740992 \<le> N" by (simp add: E_def)
  have b1: "5 * E \<le> 4 * d + 1" using u1 n d0 d1 by linarith
  have b2: "- (5 * E) \<le> 4 * d + 1" using u2 n d0 d1 by linarith
  from p have p1: "Q \<le> 2" and p2: "- Q \<le> 2" by (simp_all add: Q_def abs_le_iff)
  have e1: "5 * X = 5 * E + 18014398509481984 * Q + 2 * d"
    using n by (simp add: X_def E_def Q_def algebra_simps)
  have q1: "18014398509481984 * Q \<le> 36028797018963968" using p1 by linarith
  have q2: "- (18014398509481984 * Q) \<le> 36028797018963968" using p2 by linarith
  have "5 * X \<le> 6 * d + 36028797018963969" using b1 e1 q1 by linarith
  then have g1: "X < 9007199254740992" using d1 by linarith
  have "- (5 * X) \<le> 2 * d + 36028797018963969" using b2 e1 q2 by linarith
  then have g2: "- X < 9007199254740992" using d1 by linarith
  from g1 g2 have "2 * \<bar>X\<bar> < 18014398509481984" by linarith
  then show "2 * \<bar>R - P * 18014398509481984\<bar> < 18014398509481984" by (simp add: X_def)
  have r: "5 * R = 5 * N + 5 * E" by (simp add: E_def)
  have "5 * N \<ge> 36028797018963970" using n d0 by linarith
  moreover have "5 * N \<ge> 32 * d" using n d0 by linarith
  ultimately have "0 < 5 * R" using b2 r by linarith
  then show "0 < R" by linarith
  have e3: "Y = 5 * E + 2 * d"
    using n by (simp add: Y_def E_def algebra_simps)
  have y1: "Y \<le> 6 * d + 1" using e3 b1 by linarith
  have y2: "- Y \<le> 2 * d + 1" using e3 b2 by linarith
  have "10 * \<bar>Y\<bar> < 90071992547409920" using y1 y2 d0 d1 by linarith
  then show "10 * \<bar>5 * R - 2 * d * 18014398509481984\<bar> < 5 * 18014398509481984"
    by (simp add: Y_def)
qed




lemma round53_pos:
  assumes "0 < n"
  shows "0 < round53 n"
proof (rule ccontr)
  assume "\<not> 0 < round53 n"
  moreover have "0 \<le> round53 n" using assms by (intro round53_nonneg) simp
  ultimately have z: "round53 n = 0" by simp
  have "\<bar>round53 n - n\<bar> * 2 ^ 53 \<le> n" using assms by (intro round53_error) simp
  then have "n * 2 ^ 53 \<le> n" using assms by (simp add: z)
  moreover have "n * 1 < n * 2 ^ 53" using assms by (intro mult_strict_left_mono) simp_all
  ultimately show False by simp
qed

lemma round53_le_double:
  assumes "0 \<le> n"
  shows "round53 n \<le> 2 * n"
proof -
  define X where "X = \<bar>round53 n - n\<bar>"
  have e: "X * 9007199254740992 \<le> n" using round53_error [OF assms] by (simp add: X_def)
  have "0 \<le> X" by (simp add: X_def)
  then have "X \<le> n" using e by linarith
  then show ?thesis by (simp add: X_def)
qed

lemma round_half_even_nonneg: "0 \<le> n \<Longrightarrow> 0 \<le> round_half_even n s"
proof -
  assume "0 \<le> n"
  then have "0 \<le> n div 2 ^ s" by (simp add: pos_imp_zdiv_nonneg_iff)
  then show ?thesis by (simp add: round_half_even_def Let_def)
qed

lemma round_half_even_0: "round_half_even 0 s = 0"
  by (simp add: round_half_even_def)

text \<open>Within 53 bits and above the subnormal range, rounding to a double is \<open>round53\<close>.\<close>

lemma round_to_double_53:
  assumes "0 < a" and "k \<le> 1074" and "round53 a < 2 ^ (1024 + k)"
  shows "round_to_double False a k = Dbl (round53 a) k"
proof -
  have s: "nat (max (int (bit_length a) - 53) (int k - 1074)) = bit_length a - 53"
    using assms(2) by arith
  have r: "round_half_even a (bit_length a - 53) * 2 ^ (bit_length a - 53) = round53 a"
    by (simp add: round53_def Let_def)
  have pos: "0 < round53 a" using assms(1) by (rule round53_pos)
  show ?thesis
    unfolding round_to_double_def Let_def s r using pos assms(3) by simp
qed

text \<open>A result with the negative sign, or a zero, is not greater than 0.\<close>

lemma py_max0_round_neg:
  assumes "0 \<le> a" and "\<not> negative \<Longrightarrow> a = 0"
  shows "py_max0 (round_to_double negative a k) = Dbl 0 0"
proof -
  define s where "s = nat (max (int (bit_length a) - 53) (int k - 1074))"
  define r where "r = round_half_even a s * 2 ^ s"
  have r0: "0 \<le> r" using round_half_even_nonneg [OF assms(1), of s] by (simp add: r_def)
  have z: "\<not> negative \<Longrightarrow> r = 0" using assms(2) by (simp add: r_def round_half_even_0)
  show ?thesis
    unfolding round_to_double_def Let_def s_def [symmetric] r_def [symmetric]
    using r0 z by (auto simp: py_max0_def float_gt_int_def float_gt_def)
qed

lemma float_mul_nonpos:
  assumes "\<not> float_gt_int x 0" and "0 < c"
  shows "py_max0 (float_mul x (Dbl c j)) = Dbl 0 0"
proof (cases x)
  case (Dbl m i)
  with assms(1) have m: "m \<le> 0" by (simp add: float_gt_int_def float_gt_def)
  have neg: "(float_sign x \<noteq> float_sign (Dbl c j)) = (m < 0)" using assms(2) Dbl by simp
  have "py_max0 (round_to_double (m < 0) \<bar>m * c\<bar> (i + j)) = Dbl 0 0"
    using m by (intro py_max0_round_neg) auto
  then show ?thesis using Dbl assms(2) by (simp add: float_mul_def Let_def)
next
  case NegZero
  have "py_max0 (round_to_double True 0 j) = Dbl 0 0" by (intro py_max0_round_neg) simp_all
  then show ?thesis using NegZero assms(2) by (simp add: float_mul_def Let_def)
next
  case PosInf
  with assms(1) show ?thesis by (simp add: float_gt_int_def float_gt_def)
next
  case NegInf
  then show ?thesis using assms(2)
    by (simp add: float_mul_def Let_def py_max0_def float_gt_int_def float_gt_def)
next
  case NaN
  then show ?thesis
    by (simp add: float_mul_def Let_def py_max0_def float_gt_int_def float_gt_def)
qed

text \<open>The literal 0.4 as a double: five times its mantissa is 2^55 + 2.\<close>

lemma float_of_int_small:
  assumes "\<bar>d\<bar> < 2 ^ 53"
  shows "float_of_int d = Inr (Dbl d 0)"
proof -
  have r: "round53 \<bar>d\<bar> = \<bar>d\<bar>" using round53_exact [of "\<bar>d\<bar>"] assms by simp
  have "\<bar>d\<bar> < 2 ^ 1024" using assms by simp
  then have big: "\<not> 2 ^ 1024 \<le> \<bar>d\<bar>" by simp
  have "sgn d * \<bar>d\<bar> = d" by (simp add: sgn_if)
  then show ?thesis
    unfolding float_of_int_def Let_def r using big by simp
qed

lemma float_mul_pos:
  assumes "0 < a" and "0 < c" and "i + j \<le> 1074" and "a * c < 2 ^ 1023"
  shows "float_mul (Dbl a i) (Dbl c j) = Dbl (round53 (a * c)) (i + j)"
proof -
  have pos: "0 < a * c" using assms(1,2) by simp
  have "round53 (a * c) \<le> 2 * (a * c)" using pos by (intro round53_le_double) simp
  also have "\<dots> < 2 ^ 1024" using assms(4) by simp
  also have "(2::int) ^ 1024 \<le> 2 ^ (1024 + (i + j))" by (intro power_increasing) simp_all
  finally have "round53 (a * c) < 2 ^ (1024 + (i + j))" .
  from round_to_double_53 [OF pos assms(3) this] pos assms(1,2)
  show ?thesis by (simp add: float_mul_def Let_def)
qed

lemma times_0_4:
  assumes "0 < d" and "d \<le> 2 ^ 50"
  shows "py_mul_float (VInt d) dbl_0_4 = Inr (Dbl (round53 (d * 0x1999999999999A)) 54)"
proof -
  have small: "\<bar>d\<bar> < 2 ^ 53" using assms by simp
  have f: "float_of_int d = Inr (Dbl d 0)" using small by (rule float_of_int_small)
  have "d * 0x1999999999999A \<le> 2 ^ 50 * 0x1999999999999A"
    using assms(2) by (intro mult_right_mono) simp_all
  also have "\<dots> < (2::int) ^ 1023" by simp
  finally have b: "d * 0x1999999999999A < 2 ^ 1023" .
  have "float_mul (Dbl d 0) (Dbl 0x1999999999999A 54)
          = Dbl (round53 (d * 0x1999999999999A)) (0 + 54)"
    using assms(1) b by (intro float_mul_pos) simp_all
  then show ?thesis
    by (simp add: py_mul_float_def f and_then_def dbl_0_4_def)
qed

lemma printed_amount:
  assumes "0 < d" and "d \<le> 2 ^ 50"
  shows "round_half_even (round53 (d * 0x1999999999999A)) 54 = (4 * d + 5) div 10"
    and "0 < round53 (d * 0x1999999999999A)"
    and "10 * \<bar>5 * round53 (d * 0x1999999999999A) - 2 * d * 2 ^ 54\<bar> < 5 * 2 ^ 54"
proof -
  define N where "N = d * 0x1999999999999A"
  define R where "R = round53 N"
  define P where "P = (4 * d + 5) div 10"
  have N5: "5 * N = d * 36028797018963970" by (simp add: N_def)
  have Npos: "0 \<le> N" using assms(1) by (simp add: N_def)
  have err: "\<bar>R - N\<bar> * 9007199254740992 \<le> N"
    using round53_error [OF Npos] by (simp add: R_def)
  have P: "\<bar>2 * d - 5 * P\<bar> \<le> 2" unfolding P_def by presburger
  have d1: "d \<le> 1125899906842624" using assms(2) by simp
  note m = rounding_margin [OF err N5 P assms(1) d1]
  have "2 * \<bar>R - P * 2 ^ 54\<bar> < 2 ^ 54" using m(1) by simp
  then have "round_half_even R 54 = P" by (rule round_half_even_nearest)
  then show "round_half_even (round53 (d * 0x1999999999999A)) 54 = (4 * d + 5) div 10"
    by (simp add: R_def N_def P_def)
  show "0 < round53 (d * 0x1999999999999A)" using m(2) by (simp add: R_def N_def)
  show "10 * \<bar>5 * round53 (d * 0x1999999999999A) - 2 * d * 2 ^ 54\<bar> < 5 * 2 ^ 54"
    using m(3) by (simp add: R_def N_def)
qed


lemma float_of_int_500000: "float_of_int 500000 = Inr (Dbl 500000 0)"
  by (rule float_of_int_small) simp

lemma potential_iht_int:
  assumes "num_of ev = Some n"
  shows "potential_iht ev
           = and_then (py_mul_float (VInt (n - 500000)) dbl_0_4) (\<lambda>y. Inr (py_max0 y))"
  using assms
  by (simp add: potential_iht_def py_sub_def and_then_def total_threshold_def
      nil_rate_band_def residence_band_def)

lemma potential_iht_float:
  "potential_iht (VFloat f)
     = Inr (py_max0 (float_mul (float_sub f (Dbl 500000 0)) dbl_0_4))"
  by (simp add: potential_iht_def py_sub_def as_float_def and_then_def total_threshold_def
      nil_rate_band_def residence_band_def float_of_int_500000 py_mul_float_def)

lemma potential_iht_number:
  assumes "potential_iht ev = Inr x"
  shows "(\<exists>n. num_of ev = Some n) \<or> (\<exists>f. ev = VFloat f)"
  using assms
  by (cases ev)
    (simp_all add: potential_iht_def py_sub_def as_float_def and_then_def)

lemma py_max0_val: "float_val (py_max0 y) = max 0 (float_val y)"
proof (cases y)
  case (Dbl m k)
  show ?thesis
  proof (cases "m > 0")
    case True
    then have "0 < (of_int m :: rat) / 2 ^ k" by simp
    then show ?thesis
      using True by (simp add: Dbl py_max0_def float_val_def float_gt_int_def float_gt_def)
  next
    case False
    then have "(of_int m :: rat) / 2 ^ k \<le> 0" by (simp add: divide_le_0_iff)
    then show ?thesis
      using False by (simp add: Dbl py_max0_def float_val_def float_gt_int_def float_gt_def)
  qed
qed (simp_all add: py_max0_def float_val_def float_gt_int_def float_gt_def)

lemma py_max0_ge_zero: "float_ge_zero (py_max0 y)"
  by (cases y) (auto simp: py_max0_def float_ge_zero_def float_gt_int_def float_gt_def)

lemma py_max0_pos: "0 < m \<Longrightarrow> py_max0 (Dbl m k) = Dbl m k"
  by (simp add: py_max0_def float_gt_int_def float_gt_def)

lemma digits_0: "digits 0 = ''0''"
  by code_simp

lemma format_zero: "format_float_comma0 (Dbl 0 0) = ''0''"
  by (simp add: format_float_comma0_def round_half_even_def commas_def digits_0)

lemma times_nonpositive:
  assumes "d \<le> 0" and "py_mul_float (VInt d) dbl_0_4 = Inr y"
  shows "py_max0 y = Dbl 0 0"
proof -
  from assms(2) obtain x where f: "float_of_int d = Inr x" and y: "y = float_mul x dbl_0_4"
    by (auto simp: py_mul_float_def dest: and_then_Inr)
  from f have x: "x = Dbl (sgn d * round53 \<bar>d\<bar>) 0"
    by (simp add: float_of_int_def Let_def split: if_splits)
  have "0 \<le> round53 \<bar>d\<bar>" by (rule round53_nonneg) simp
  moreover have "sgn d \<le> 0" using assms(1) by (simp add: sgn_if)
  ultimately have "sgn d * round53 \<bar>d\<bar> \<le> 0" by (simp add: mult_le_0_iff)
  then have "\<not> float_gt_int x 0" by (simp add: x float_gt_int_def float_gt_def)
  then show ?thesis unfolding y dbl_0_4_def by (rule float_mul_nonpos) simp
qed

lemma times_in_range:
  assumes "0 < d" and "d \<le> 2 ^ 50" and "py_mul_float (VInt d) dbl_0_4 = Inr y"
  shows "format_float_comma0 (py_max0 y) = format_int_comma ((4 * d + 5) div 10)"
    and "\<bar>float_val y - 2 / 5 * of_int d\<bar> < 1 / 10"
proof -
  define R where "R = round53 (d * 0x1999999999999A)"
  have y: "y = Dbl R 54" using times_0_4 [OF assms(1,2)] assms(3) by (simp add: R_def)
  note pa = printed_amount [OF assms(1,2), folded R_def]
  have P0: "0 \<le> (4 * d + 5) div 10" using assms(1) by simp
  have "format_float_comma0 (py_max0 y) = commas (digits ((4 * d + 5) div 10))"
    using pa(1,2) by (simp add: y py_max0_pos format_float_comma0_def)
  then show "format_float_comma0 (py_max0 y) = format_int_comma ((4 * d + 5) div 10)"
    using P0 by (simp add: format_int_comma_def)
  define X :: rat where "X = 5 * of_int R - of_int d * 36028797018963968"
  have "(of_int (10 * \<bar>5 * R - 2 * d * 2 ^ 54\<bar>) :: rat) < of_int (5 * 2 ^ 54)"
    using pa(3) by (simp only: of_int_less_iff)
  then have X: "\<bar>X\<bar> < 9007199254740992" by (simp add: X_def)
  have v: "float_val y = of_int R / 18014398509481984" by (simp add: y float_val_def)
  have "float_val y - 2 / 5 * of_int d = X / 90071992547409920"
    unfolding v X_def by (simp add: field_simps)
  then have "\<bar>float_val y - 2 / 5 * of_int d\<bar> = \<bar>X / 90071992547409920\<bar>"
    by (rule arg_cong)
  also have "\<dots> = \<bar>X\<bar> / 90071992547409920"
    by (simp only: abs_divide abs_numeral)
  also have "\<dots> < 9007199254740992 / 90071992547409920"
    using X by (rule divide_strict_right_mono) simp
  finally show "\<bar>float_val y - 2 / 5 * of_int d\<bar> < 1 / 10" by simp
qed

subsection \<open>The tax estimate on a float\<close>

text \<open>A float that is not above 500,000, not-a-number included, gives 0.\<close>

lemma round_neg_not_gt:
  assumes "0 \<le> a" and "\<not> negative \<Longrightarrow> a = 0"
  shows "\<not> float_gt_int (round_to_double negative a k) 0"
proof
  assume "float_gt_int (round_to_double negative a k) 0"
  then have "py_max0 (round_to_double negative a k) = round_to_double negative a k"
    by (simp add: py_max0_def)
  with py_max0_round_neg [OF assms, where k = k]
  have "round_to_double negative a k = Dbl 0 0" by simp
  with \<open>float_gt_int (round_to_double negative a k) 0\<close> show False
    by (simp add: float_gt_int_def float_gt_def)
qed

lemma float_sub_not_above:
  assumes "\<not> float_gt_int f 500000"
  shows "\<not> float_gt_int (float_sub f (Dbl 500000 0)) 0"
proof (cases f)
  case (Dbl m k)
  with assms have le: "m \<le> 500000 * 2 ^ k" by (simp add: float_gt_int_def float_gt_def)
  define s where "s = m + - 500000 * 2 ^ k"
  have s: "s \<le> 0" using le by (simp add: s_def)
  have sub: "float_sub f (Dbl 500000 0)
               = (if s = 0 then (if m < 0 then NegZero else Dbl 0 0)
                  else round_to_double (s < 0) \<bar>s\<bar> k)"
    by (simp add: Dbl float_sub_def float_add_def Let_def s_def)
  show ?thesis
  proof (cases "s = 0")
    case True
    then show ?thesis by (simp add: sub float_gt_int_def float_gt_def)
  next
    case False
    have "\<not> float_gt_int (round_to_double (s < 0) \<bar>s\<bar> k) 0"
      using s by (intro round_neg_not_gt) auto
    then show ?thesis using False by (simp add: sub)
  qed
next
  case NegZero
  have "float_sub NegZero (Dbl 500000 0) = Dbl (- 500000) 0" by code_simp
  then show ?thesis by (simp add: NegZero float_gt_int_def float_gt_def)
next
  case PosInf
  with assms show ?thesis by (simp add: float_gt_int_def float_gt_def)
next
  case NegInf
  then show ?thesis
    by (simp add: float_sub_def float_add_def float_gt_int_def float_gt_def)
next
  case NaN
  then show ?thesis
    by (simp add: float_sub_def float_add_def float_gt_int_def float_gt_def)
qed

lemma float_not_above:
  assumes "\<not> float_gt_int f 500000"
  shows "py_max0 (float_mul (float_sub f (Dbl 500000 0)) dbl_0_4) = Dbl 0 0"
  unfolding dbl_0_4_def
  by (rule float_mul_nonpos [OF float_sub_not_above [OF assms]]) simp

text \<open>
  A float above 500,000 with a mantissa of 53 bits: the subtraction is exact, and the
  product is the exact product rounded once.
\<close>

lemma float_excess:
  assumes "500000 * 2 ^ k < m" and "m < 2 ^ 53"
  shows "k < 53"
    and "float_sub (Dbl m k) (Dbl 500000 0) = Dbl (m - 500000 * 2 ^ k) k"
proof -
  have "(2::int) ^ k \<le> 500000 * 2 ^ k" by simp
  with assms have "(2::int) ^ k < 2 ^ 53" by linarith
  then show k: "k < 53" using power_less_imp_less_exp [of "2::int" k 53] by simp
  define a where "a = m - 500000 * 2 ^ k"
  have a0: "0 < a" using assms(1) by (simp add: a_def)
  have "0 \<le> (500000::int) * 2 ^ k" by simp
  then have a1: "a < 2 ^ 53" using assms(2) unfolding a_def by linarith
  have r: "round53 a = a" using round53_exact [of a] a0 a1 by simp
  have "a < 2 ^ 1024" using a1 by simp
  also have "(2::int) ^ 1024 \<le> 2 ^ (1024 + k)" by (intro power_increasing) simp_all
  finally have b: "round53 a < 2 ^ (1024 + k)" by (simp add: r)
  have k': "k \<le> 1074" using k by simp
  have rd: "round_to_double False a k = Dbl a k"
    using round_to_double_53 [OF a0 k' b] by (simp add: r)
  define s where "s = m + - 500000 * 2 ^ k"
  have sub: "float_sub (Dbl m k) (Dbl 500000 0)
               = (if s = 0 then (if m < 0 then NegZero else Dbl 0 0)
                  else round_to_double (s < 0) \<bar>s\<bar> k)"
    by (simp add: float_sub_def float_add_def Let_def s_def)
  have sa: "s = a" by (simp add: s_def a_def)
  have "float_sub (Dbl m k) (Dbl 500000 0) = Dbl a k"
    unfolding sub sa using a0 rd by simp
  then show "float_sub (Dbl m k) (Dbl 500000 0) = Dbl (m - 500000 * 2 ^ k) k"
    by (simp add: a_def)
qed

lemma float_times_0_4:
  assumes "0 < a" and "a < 2 ^ 53" and "k < 53"
  shows "float_mul (Dbl a k) dbl_0_4 = Dbl (round53 (a * 0x1999999999999A)) (k + 54)"
proof -
  have "a * 0x1999999999999A \<le> 2 ^ 53 * 0x1999999999999A"
    using assms(2) by (intro mult_right_mono) simp_all
  also have "\<dots> < (2::int) ^ 1023" by simp
  finally have b: "a * 0x1999999999999A < 2 ^ 1023" .
  show ?thesis
    unfolding dbl_0_4_def using assms(1,3) b by (intro float_mul_pos) simp_all
qed

lemma product_margin:
  fixes R N a :: int
  assumes err: "\<bar>R - N\<bar> * 9007199254740992 \<le> N"
    and n: "5 * N = a * 36028797018963970" and a0: "0 < a"
  shows "0 < R" and "\<bar>5 * R - a * 36028797018963968\<bar> \<le> 7 * a"
proof -
  define E where "E = R - N"
  have "E * 9007199254740992 \<le> \<bar>E\<bar> * 9007199254740992"
    by (rule mult_right_mono) simp_all
  with err have u1: "E * 9007199254740992 \<le> N" by (simp add: E_def)
  have "(- E) * 9007199254740992 \<le> \<bar>E\<bar> * 9007199254740992"
    by (rule mult_right_mono) simp_all
  with err have u2: "(- E) * 9007199254740992 \<le> N" by (simp add: E_def)
  have b1: "E \<le> a" using u1 n a0 by linarith
  have b2: "- E \<le> a" using u2 n a0 by linarith
  have r: "5 * R = 5 * N + 5 * E" by (simp add: E_def)
  have "5 * N \<ge> 32 * a" using n a0 by linarith
  then have "0 < 5 * R" using b2 r a0 by linarith
  then show "0 < R" by linarith
  define Y where "Y = 5 * R - a * 36028797018963968"
  have e3: "Y = 5 * E + 2 * a" using n by (simp add: Y_def E_def algebra_simps)
  have "Y \<le> 7 * a" "- Y \<le> 7 * a" using e3 b1 b2 a0 by linarith+
  then show "\<bar>5 * R - a * 36028797018963968\<bar> \<le> 7 * a" by (simp add: Y_def abs_le_iff)
qed

lemma float_estimate:
  assumes "500000 * 2 ^ k < m" and "m < 2 ^ 53"
  defines "x \<equiv> py_max0 (float_mul (float_sub (Dbl m k) (Dbl 500000 0)) dbl_0_4)"
  shows "float_gt_int x 0"
    and "\<bar>float_val x - 2 / 5 * (float_val (Dbl m k) - 500000)\<bar> * 2 ^ 52
           < float_val (Dbl m k) - 500000"
proof -
  define a where "a = m - 500000 * 2 ^ k"
  define N where "N = a * 0x1999999999999A"
  define R where "R = round53 N"
  have a0: "0 < a" using assms(1) by (simp add: a_def)
  have "0 \<le> (500000::int) * 2 ^ k" by simp
  then have a1: "a < 2 ^ 53" using assms(2) unfolding a_def by linarith
  note ex = float_excess [OF assms(1,2)]
  have y: "float_mul (float_sub (Dbl m k) (Dbl 500000 0)) dbl_0_4 = Dbl R (k + 54)"
    unfolding ex(2) a_def [symmetric] R_def N_def by (rule float_times_0_4 [OF a0 a1 ex(1)])
  have N0: "0 \<le> N" using a0 by (simp add: N_def)
  have err: "\<bar>R - N\<bar> * 9007199254740992 \<le> N"
    using round53_error [OF N0] by (simp add: R_def)
  have N5: "5 * N = a * 36028797018963970" by (simp add: N_def)
  note pm = product_margin [OF err N5 a0]
  have x: "x = Dbl R (k + 54)" unfolding x_def y using pm(1) by (rule py_max0_pos)
  show "float_gt_int x 0" using pm(1) by (simp add: x float_gt_int_def float_gt_def)
  define D :: rat where "D = 2 ^ k"
  have D0: "0 < D" by (simp add: D_def)
  define X :: rat where "X = 5 * of_int R - of_int a * 36028797018963968"
  have "(of_int \<bar>5 * R - a * 36028797018963968\<bar> :: rat) \<le> of_int (7 * a)"
    using pm(2) by (simp only: of_int_le_iff)
  then have X: "\<bar>X\<bar> \<le> 7 * of_int a" by (simp add: X_def)
  have vf: "float_val (Dbl m k) - 500000 = of_int a / D"
    using D0 by (simp add: float_val_def a_def D_def field_simps)
  have vx: "float_val x = of_int R / (18014398509481984 * D)"
    by (simp add: x float_val_def D_def power_add mult.commute)
  have "float_val x - 2 / 5 * (of_int a / D) = X / (90071992547409920 * D)"
    unfolding vx X_def using D0 by (simp add: field_simps)
  then have "\<bar>float_val x - 2 / 5 * (of_int a / D)\<bar> = \<bar>X\<bar> / (90071992547409920 * D)"
    using D0 by (simp add: abs_divide abs_mult)
  also have "\<dots> \<le> (7 * of_int a) / (90071992547409920 * D)"
    using X D0 by (intro divide_right_mono) simp_all
  finally have b: "\<bar>float_val x - 2 / 5 * (of_int a / D)\<bar>
                     \<le> (7 * of_int a) / (90071992547409920 * D)" .
  define Q :: rat where "Q = of_int a / D"
  have Q0: "0 < Q" using a0 D0 by (simp add: Q_def)
  have "(7 * of_int a) / (90071992547409920 * D) * 2 ^ 52 = (7 / 20) * Q"
    using D0 by (simp add: Q_def)
  moreover have "(7 / 20) * Q < Q" using Q0 by simp
  moreover have "of_int a / D = Q" by (simp add: Q_def)
  moreover have "\<bar>float_val x - 2 / 5 * (of_int a / D)\<bar> * 2 ^ 52
                   \<le> (7 * of_int a) / (90071992547409920 * D) * 2 ^ 52"
    using b by (intro mult_right_mono) simp_all
  ultimately show "\<bar>float_val x - 2 / 5 * (float_val (Dbl m k) - 500000)\<bar> * 2 ^ 52
           < float_val (Dbl m k) - 500000"
    unfolding vf by linarith
qed

lemma float_600000_5:
  "format_float_comma0 (py_max0 (float_mul (float_sub (Dbl 1200001 1) (Dbl 500000 0)) dbl_0_4))
     = ''40,000''"
  by code_simp

subsection \<open>Complexity away from the boundary\<close>

lemma margin_0_7:
  fixes R N d p :: int
  assumes err: "\<bar>R - N\<bar> * 9007199254740992 \<le> N"
    and n: "10 * N = d * 63050394783186940"
    and d0: "0 \<le> d" and d1: "d \<le> 562949953421312"
    and ne: "10 * p \<noteq> 7 * d"
  shows "(p * 9007199254740992 > R) = (10 * p > 7 * d)"
proof -
  define E where "E = R - N"
  have "E * 9007199254740992 \<le> \<bar>E\<bar> * 9007199254740992"
    by (rule mult_right_mono) simp_all
  with err have u1: "E * 9007199254740992 \<le> N" by (simp add: E_def)
  have "(- E) * 9007199254740992 \<le> \<bar>E\<bar> * 9007199254740992"
    by (rule mult_right_mono) simp_all
  with err have u2: "(- E) * 9007199254740992 \<le> N" by (simp add: E_def)
  have b1: "10 * E \<le> 7 * d" using u1 n d0 d1 by linarith
  have b2: "- (10 * E) \<le> 7 * d" using u2 n d0 d1 by linarith
  have r: "10 * R = 7 * d * 9007199254740992 - 4 * d + 10 * E"
    using n by (simp add: E_def algebra_simps)
  show ?thesis
  proof (cases "10 * p > 7 * d")
    case True
    then have "10 * p \<ge> 7 * d + 1" by simp
    then have "10 * p * 9007199254740992 \<ge> (7 * d + 1) * 9007199254740992"
      by (rule mult_right_mono) simp
    then have "10 * (p * 9007199254740992) \<ge> 7 * d * 9007199254740992 + 9007199254740992"
      by (simp add: algebra_simps)
    moreover have "10 * R \<le> 7 * d * 9007199254740992 + 3 * d" using r b1 by linarith
    ultimately have "10 * (p * 9007199254740992) > 10 * R" using d1 by linarith
    then show ?thesis using True by simp
  next
    case False
    with ne have "10 * p \<le> 7 * d - 1" by simp
    then have "10 * p * 9007199254740992 \<le> (7 * d - 1) * 9007199254740992"
      by (rule mult_right_mono) simp
    then have "10 * (p * 9007199254740992) \<le> 7 * d * 9007199254740992 - 9007199254740992"
      by (simp add: algebra_simps)
    moreover have "10 * R \<ge> 7 * d * 9007199254740992 - 11 * d" using r b2 by linarith
    ultimately have "10 * (p * 9007199254740992) \<le> 10 * R" using d1 by linarith
    then show ?thesis using False by simp
  qed
qed


lemma property_heavy_off_boundary:
  assumes "0 \<le> d" and "d \<le> 2 ^ 49" and "10 * p \<noteq> 7 * d"
  shows "property_heavy (VInt p) (VInt d) = Inr (10 * p > 7 * d)"
proof (cases "d = 0")
  case True
  have "py_mul_float (VInt 0) dbl_0_7 = Inr (Dbl 0 0)" by code_simp
  then show ?thesis
    using True
    by (simp add: property_heavy_def and_then_def py_gt_float_def int_gt_float_def float_gt_def)
next
  case False
  with assms(1) have d0: "0 < d" by simp
  have small: "\<bar>d\<bar> < 2 ^ 53" using assms(1,2) by simp
  have f: "float_of_int d = Inr (Dbl d 0)" using small by (rule float_of_int_small)
  define N where "N = d * 0x16666666666666"
  define R where "R = round53 N"
  have N0: "0 \<le> N" using assms(1) by (simp add: N_def)
  have "d * 0x16666666666666 \<le> 2 ^ 49 * 0x16666666666666"
    using assms(2) by (intro mult_right_mono) simp_all
  also have "\<dots> < (2::int) ^ 1023" by simp
  finally have b: "d * 0x16666666666666 < 2 ^ 1023" .
  have "float_mul (Dbl d 0) (Dbl 0x16666666666666 53)
          = Dbl (round53 (d * 0x16666666666666)) (0 + 53)"
    using d0 b by (intro float_mul_pos) simp_all
  then have m: "py_mul_float (VInt d) dbl_0_7 = Inr (Dbl R 53)"
    by (simp add: py_mul_float_def f and_then_def dbl_0_7_def R_def N_def)
  have N10: "10 * N = d * 63050394783186940" by (simp add: N_def)
  have err: "\<bar>R - N\<bar> * 9007199254740992 \<le> N"
    using round53_error [OF N0] by (simp add: R_def)
  have d1: "d \<le> 562949953421312" using assms(2) by simp
  have "(p * 9007199254740992 > R) = (10 * p > 7 * d)"
    by (rule margin_0_7 [OF err N10 assms(1) d1 assms(3)])
  then show ?thesis
    by (simp add: property_heavy_def m and_then_def py_gt_float_def int_gt_float_def
        float_gt_def)
qed

lemma estate_value_factor_int:
  "estate_value_factor (VInt d) =
     Inr (if d > 2000000 then 3 else if d > 1000000 then 2 else if d > 500000 then 1 else 0)"
  by (simp add: estate_value_factor_def py_gt_def and_then_def)

text \<open>
  Away from the boundary the code follows the formula: for an estate value from 0 to
  2^49 and a property value that is not exactly 70% of it, the score is the one of the
  specification.
\<close>

lemma complexity_off_boundary:
  assumes "cd ''estate_value'' = Some (VInt d)" and "cd ''property_value'' = Some (VInt p)"
    and "0 \<le> d" and "d \<le> 2 ^ 49" and "10 * p \<noteq> 7 * d"
  shows "complexity_score cd
           = Inr (spec_complexity_score d p (cd ''urgency_level'' = Some (VStr ''HIGH'')))"
proof -
  have u: "(dict_get_none cd ''urgency_level'' = VStr ''HIGH'')
             = (cd ''urgency_level'' = Some (VStr ''HIGH''))"
    by (cases "cd ''urgency_level''") (simp_all add: dict_get_none_def dict_get_def)
  show ?thesis
    using assms(1,2)
    by (simp add: complexity_score_def dict_get_def estate_value_factor_int
        property_heavy_off_boundary [OF assms(3,4,5)] and_then_def u
        spec_complexity_score_def Let_def)
qed

subsection \<open>The tax estimate\<close>

lemma threshold_texts:
  "format_int_comma nil_rate_band = ''325,000''"
  "format_int_comma residence_band = ''175,000''"
  "format_int_comma total_threshold = ''500,000''"
  by code_simp+

lemma times_100000:
  "py_mul_float (VInt 100000) dbl_0_4 = Inr (Dbl (40000 * 2 ^ 54) 54)"
  by code_simp

lemma format_40000: "format_float_comma0 (py_max0 (Dbl (40000 * 2 ^ 54) 54)) = ''40,000''"
  by code_simp

lemma extract_tax_info_Inr:
  assumes "extract_tax_info cd crew_result = Inr t"
  shows "\<exists>x. potential_iht (dict_get cd ''estate_value'' (VInt 0)) = Inr x
     \<and> jget t ''nil_rate_band'' = Some (JStr (pound @ format_int_comma nil_rate_band))
     \<and> jget t ''residence_nil_rate_band'' = Some (JStr (pound @ format_int_comma residence_band))
     \<and> jget t ''combined_threshold'' = Some (JStr (pound @ format_int_comma total_threshold))
     \<and> jget t ''potential_iht'' = Some (JStr (pound @ format_float_comma0 x))"
proof -
  from assms obtain x where x: "potential_iht (dict_get cd ''estate_value'' (VInt 0)) = Inr x"
    and r1: "and_then (format_comma (dict_get cd ''estate_value'' (VInt 0))) (\<lambda>ev.
         and_then (format_comma (dict_get cd ''property_value'' (VInt 0))) (\<lambda>pv.
           Inr (JDict
             [(''estate_value'', JStr (pound @ ev)),
              (''property_value'', JStr (pound @ pv)),
              (''nil_rate_band'', JStr (pound @ format_int_comma nil_rate_band)),
              (''residence_nil_rate_band'', JStr (pound @ format_int_comma residence_band)),
              (''combined_threshold'', JStr (pound @ format_int_comma total_threshold)),
              (''potential_iht'', JStr (pound @ format_float_comma0 x)),
              (''iht_rate'', JStr ''40% on excess above threshold''),
              (''reduced_rate_available'', JStr ''36% if 10%+ to charity''),
              (''reliefs_available'', reliefs_available),
              (''payment_deadline'', JStr ''6 months from death''),
              (''forms_required'', forms_required),
              (''optimization_opportunities'', optimization_opportunities)]))) = Inr t"
    unfolding extract_tax_info_def Let_def by (blast dest: and_then_Inr)
  from r1 obtain ev pv where "t = JDict
             [(''estate_value'', JStr (pound @ ev)),
              (''property_value'', JStr (pound @ pv)),
              (''nil_rate_band'', JStr (pound @ format_int_comma nil_rate_band)),
              (''residence_nil_rate_band'', JStr (pound @ format_int_comma residence_band)),
              (''combined_threshold'', JStr (pound @ format_int_comma total_threshold)),
              (''potential_iht'', JStr (pound @ format_float_comma0 x)),
              (''iht_rate'', JStr ''40% on excess above threshold''),
              (''reduced_rate_available'', JStr ''36% if 10%+ to charity''),
              (''reliefs_available'', reliefs_available),
              (''payment_deadline'', JStr ''6 months from death''),
              (''forms_required'', forms_required),
              (''optimization_opportunities'', optimization_opportunities)]"
    by (auto dest!: and_then_Inr)
  then show ?thesis using x by (simp add: jget_def)
qed


lemma structure_tax_analysis:
  assumes "structure_probate_results cd crew_result now = Inr r"
  shows "\<exists>t. extract_tax_info cd crew_result = Inr t \<and> jget r ''tax_analysis'' = Some t"
  using assms unfolding structure_probate_results_def
  by (auto dest!: and_then_Inr simp: jget_def)

text \<open>
  C2. In every tax analysis that \<open>_extract_tax_info\<close> returns, and so in the
  \<open>tax_analysis\<close> of every structured result, the standard threshold is 325,000, the
  residence threshold 175,000 and the combined threshold 500,000, and the potential tax
  is \<open>max(0, (estate_value - 500000) * 0.4)\<close> as Python computes it, which is never
  negative. The estate value is an integer (or a bool) or a float; nothing else gets as
  far as a result.

  For an integer \<open>n\<close> the potential tax is the double product \<open>y\<close> of \<open>n - 500000\<close> and
  0.4, or 0 when \<open>y\<close> is not positive. Up to the threshold it is 0. Above it (for an
  excess up to 2^50) the double is within 0.1 of 40% of the excess, and the amount
  printed, which has no decimals, is 40% of the excess rounded to the nearest pound.
  For 600,000 the potential tax is exactly 40,000, printed as "40,000".

  For a float \<open>f\<close> it is the double product of the double difference \<open>f - 500000\<close> and
  0.4, or 0 when that is not positive. It is 0 whenever \<open>f > 500000\<close> is false
  (not-a-number included). For a finite \<open>f\<close> above 500,000 with a mantissa of 53 bits
  it is positive and differs from 40% of the excess by less than the excess divided by
  2^52. For 600,000.5 the amount printed is "40,000".
\<close>

theorem tax_estimate:
  assumes "extract_tax_info cd crew_result = Inr t"
  shows "nil_rate_band = 325000 \<and> residence_band = 175000 \<and> total_threshold = 500000
    \<and> jget t ''nil_rate_band'' = Some (JStr (pound @ ''325,000''))
    \<and> jget t ''residence_nil_rate_band'' = Some (JStr (pound @ ''175,000''))
    \<and> jget t ''combined_threshold'' = Some (JStr (pound @ ''500,000''))
    \<and> (\<forall>now r. structure_probate_results cd crew_result now = Inr r \<longrightarrow>
           jget r ''tax_analysis'' = Some t)
    \<and> (\<exists>x. potential_iht (dict_get cd ''estate_value'' (VInt 0)) = Inr x
         \<and> jget t ''potential_iht'' = Some (JStr (pound @ format_float_comma0 x))
         \<and> float_ge_zero x \<and> 0 \<le> float_val x
         \<and> ((\<exists>n. num_of (dict_get cd ''estate_value'' (VInt 0)) = Some n)
              \<or> (\<exists>f. dict_get cd ''estate_value'' (VInt 0) = VFloat f))
         \<and> (\<forall>n. num_of (dict_get cd ''estate_value'' (VInt 0)) = Some n \<longrightarrow>
              (\<exists>y. py_mul_float (VInt (n - 500000)) dbl_0_4 = Inr y
                 \<and> x = py_max0 y
                 \<and> float_val x = max 0 (float_val y)
                 \<and> (n \<le> 500000 \<longrightarrow> x = Dbl 0 0 \<and> format_float_comma0 x = ''0'')
                 \<and> (500000 < n \<and> n \<le> 500000 + 2 ^ 50 \<longrightarrow>
                       format_float_comma0 x = format_int_comma ((4 * (n - 500000) + 5) div 10)
                       \<and> \<bar>float_val y - 2 / 5 * of_int (n - 500000)\<bar> < 1 / 10)
                 \<and> (n = 600000 \<longrightarrow>
                       float_val x = 40000 \<and> format_float_comma0 x = ''40,000'')))
         \<and> (\<forall>f. dict_get cd ''estate_value'' (VInt 0) = VFloat f \<longrightarrow>
              x = py_max0 (float_mul (float_sub f (Dbl 500000 0)) dbl_0_4)
              \<and> (\<not> float_gt_int f 500000 \<longrightarrow> x = Dbl 0 0 \<and> format_float_comma0 x = ''0'')
              \<and> (\<forall>m k. f = Dbl m k \<and> 500000 * 2 ^ k < m \<and> m < 2 ^ 53 \<longrightarrow>
                    float_gt_int x 0
                    \<and> \<bar>float_val x - 2 / 5 * (float_val f - 500000)\<bar> * 2 ^ 52
                         < float_val f - 500000)
              \<and> (f = Dbl 1200001 1 \<longrightarrow> format_float_comma0 x = ''40,000'')))"
proof -
  let ?ev = "dict_get cd ''estate_value'' (VInt 0)"
  from extract_tax_info_Inr [OF assms] obtain x
    where x: "potential_iht ?ev = Inr x"
      and j1: "jget t ''nil_rate_band'' = Some (JStr (pound @ ''325,000''))"
      and j2: "jget t ''residence_nil_rate_band'' = Some (JStr (pound @ ''175,000''))"
      and j3: "jget t ''combined_threshold'' = Some (JStr (pound @ ''500,000''))"
      and j4: "jget t ''potential_iht'' = Some (JStr (pound @ format_float_comma0 x))"
    unfolding threshold_texts by blast
  have c: "nil_rate_band = 325000 \<and> residence_band = 175000 \<and> total_threshold = 500000"
    by (simp add: nil_rate_band_def residence_band_def total_threshold_def)
  have st: "\<forall>now r. structure_probate_results cd crew_result now = Inr r \<longrightarrow>
           jget r ''tax_analysis'' = Some t"
    using structure_tax_analysis assms by fastforce
  have kind: "(\<exists>n. num_of ?ev = Some n) \<or> (\<exists>f. ?ev = VFloat f)"
    using x by (rule potential_iht_number)
  have ints: "\<forall>n. num_of ?ev = Some n \<longrightarrow>
              (\<exists>y. py_mul_float (VInt (n - 500000)) dbl_0_4 = Inr y
                 \<and> x = py_max0 y
                 \<and> float_val x = max 0 (float_val y)
                 \<and> (n \<le> 500000 \<longrightarrow> x = Dbl 0 0 \<and> format_float_comma0 x = ''0'')
                 \<and> (500000 < n \<and> n \<le> 500000 + 2 ^ 50 \<longrightarrow>
                       format_float_comma0 x = format_int_comma ((4 * (n - 500000) + 5) div 10)
                       \<and> \<bar>float_val y - 2 / 5 * of_int (n - 500000)\<bar> < 1 / 10)
                 \<and> (n = 600000 \<longrightarrow>
                       float_val x = 40000 \<and> format_float_comma0 x = ''40,000''))"
  proof (intro allI impI)
    fix n
    assume n: "num_of ?ev = Some n"
    from x potential_iht_int [OF n] obtain y
      where y: "py_mul_float (VInt (n - 500000)) dbl_0_4 = Inr y" and xy: "x = py_max0 y"
      by (auto dest: and_then_Inr)
    have v: "float_val x = max 0 (float_val y)" unfolding xy by (rule py_max0_val)
    have low: "n \<le> 500000 \<longrightarrow> x = Dbl 0 0 \<and> format_float_comma0 x = ''0''"
    proof
      assume "n \<le> 500000"
      then have "n - 500000 \<le> 0" by simp
      from times_nonpositive [OF this y] show "x = Dbl 0 0 \<and> format_float_comma0 x = ''0''"
        by (simp add: xy format_zero)
    qed
    have mid: "500000 < n \<and> n \<le> 500000 + 2 ^ 50 \<longrightarrow>
                 format_float_comma0 x = format_int_comma ((4 * (n - 500000) + 5) div 10)
                 \<and> \<bar>float_val y - 2 / 5 * of_int (n - 500000)\<bar> < 1 / 10"
    proof
      assume "500000 < n \<and> n \<le> 500000 + 2 ^ 50"
      then have d0: "0 < n - 500000" and d1: "n - 500000 \<le> 2 ^ 50" by simp_all
      from times_in_range [OF d0 d1 y] show
        "format_float_comma0 x = format_int_comma ((4 * (n - 500000) + 5) div 10)
         \<and> \<bar>float_val y - 2 / 5 * of_int (n - 500000)\<bar> < 1 / 10"
        by (simp add: xy)
    qed
    have ex: "n = 600000 \<longrightarrow> float_val x = 40000 \<and> format_float_comma0 x = ''40,000''"
    proof
      assume "n = 600000"
      with y times_100000 have y': "y = Dbl (40000 * 2 ^ 54) 54" by simp
      have "float_val x = 40000" unfolding v by (simp add: y' float_val_def)
      moreover have "format_float_comma0 x = ''40,000''"
        unfolding xy y' by (rule format_40000)
      ultimately show "float_val x = 40000 \<and> format_float_comma0 x = ''40,000''" by simp
    qed
    from y xy v low mid ex
    show "\<exists>y. py_mul_float (VInt (n - 500000)) dbl_0_4 = Inr y
                 \<and> x = py_max0 y
                 \<and> float_val x = max 0 (float_val y)
                 \<and> (n \<le> 500000 \<longrightarrow> x = Dbl 0 0 \<and> format_float_comma0 x = ''0'')
                 \<and> (500000 < n \<and> n \<le> 500000 + 2 ^ 50 \<longrightarrow>
                       format_float_comma0 x = format_int_comma ((4 * (n - 500000) + 5) div 10)
                       \<and> \<bar>float_val y - 2 / 5 * of_int (n - 500000)\<bar> < 1 / 10)
                 \<and> (n = 600000 \<longrightarrow>
                       float_val x = 40000 \<and> format_float_comma0 x = ''40,000'')"
      by blast
  qed
  have floats: "\<forall>f. ?ev = VFloat f \<longrightarrow>
              x = py_max0 (float_mul (float_sub f (Dbl 500000 0)) dbl_0_4)
              \<and> (\<not> float_gt_int f 500000 \<longrightarrow> x = Dbl 0 0 \<and> format_float_comma0 x = ''0'')
              \<and> (\<forall>m k. f = Dbl m k \<and> 500000 * 2 ^ k < m \<and> m < 2 ^ 53 \<longrightarrow>
                    float_gt_int x 0
                    \<and> \<bar>float_val x - 2 / 5 * (float_val f - 500000)\<bar> * 2 ^ 52
                         < float_val f - 500000)
              \<and> (f = Dbl 1200001 1 \<longrightarrow> format_float_comma0 x = ''40,000'')"
  proof (intro allI impI)
    fix f
    assume f: "?ev = VFloat f"
    have xf: "x = py_max0 (float_mul (float_sub f (Dbl 500000 0)) dbl_0_4)"
      using x by (simp add: f potential_iht_float)
    have low: "\<not> float_gt_int f 500000 \<longrightarrow> x = Dbl 0 0 \<and> format_float_comma0 x = ''0''"
      using float_not_above [of f] by (simp add: xf format_zero)
    have mid: "\<forall>m k. f = Dbl m k \<and> 500000 * 2 ^ k < m \<and> m < 2 ^ 53 \<longrightarrow>
                    float_gt_int x 0
                    \<and> \<bar>float_val x - 2 / 5 * (float_val f - 500000)\<bar> * 2 ^ 52
                         < float_val f - 500000"
      using float_estimate unfolding xf by blast
    have ex: "f = Dbl 1200001 1 \<longrightarrow> format_float_comma0 x = ''40,000''"
      using float_600000_5 by (simp add: xf)
    from xf low mid ex
    show "x = py_max0 (float_mul (float_sub f (Dbl 500000 0)) dbl_0_4)
              \<and> (\<not> float_gt_int f 500000 \<longrightarrow> x = Dbl 0 0 \<and> format_float_comma0 x = ''0'')
              \<and> (\<forall>m k. f = Dbl m k \<and> 500000 * 2 ^ k < m \<and> m < 2 ^ 53 \<longrightarrow>
                    float_gt_int x 0
                    \<and> \<bar>float_val x - 2 / 5 * (float_val f - 500000)\<bar> * 2 ^ 52
                         < float_val f - 500000)
              \<and> (f = Dbl 1200001 1 \<longrightarrow> format_float_comma0 x = ''40,000'')"
      by blast
  qed
  have ge: "float_ge_zero x \<and> 0 \<le> float_val x"
  proof -
    from kind show ?thesis
    proof
      assume "\<exists>n. num_of ?ev = Some n"
      then obtain n where n: "num_of ?ev = Some n" by blast
      with ints obtain y where "x = py_max0 y" by blast
      then show ?thesis using py_max0_ge_zero [of y] py_max0_val [of y] by simp
    next
      assume "\<exists>f. ?ev = VFloat f"
      then obtain f where f: "?ev = VFloat f" by blast
      with floats have "x = py_max0 (float_mul (float_sub f (Dbl 500000 0)) dbl_0_4)" by blast
      then show ?thesis
        using py_max0_ge_zero [of "float_mul (float_sub f (Dbl 500000 0)) dbl_0_4"]
          py_max0_val [of "float_mul (float_sub f (Dbl 500000 0)) dbl_0_4"] by simp
    qed
  qed
  from c j1 j2 j3 st x j4 ge kind ints floats show ?thesis by blast
qed

theorem tax_estimate_witness:
  "\<not> isl (extract_tax_info example_case ''analysis'')
   \<and> dict_get example_case ''estate_value'' (VInt 0) = VInt 600000
   \<and> jget (projr (extract_tax_info example_case ''analysis'')) ''potential_iht''
       = Some (JStr (pound @ ''40,000''))
   \<and> jget (projr (extract_tax_info example_case ''analysis'')) ''combined_threshold''
       = Some (JStr (pound @ ''500,000''))
   \<and> \<not> isl (structure_probate_results example_case ''analysis'' ''2024-05-01T10:02:00'')
   \<and> jget (projr (structure_probate_results example_case ''analysis'' ''2024-05-01T10:02:00''))
        ''tax_analysis''
       = Some (projr (extract_tax_info example_case ''analysis''))
   \<and> \<not> isl (extract_tax_info float_case ''analysis'')
   \<and> dict_get float_case ''estate_value'' (VInt 0) = VFloat (Dbl 1200001 1)
   \<and> jget (projr (extract_tax_info float_case ''analysis'')) ''estate_value''
       = Some (JStr (pound @ ''600,000.5''))
   \<and> jget (projr (extract_tax_info float_case ''analysis'')) ''potential_iht''
       = Some (JStr (pound @ ''40,000''))"
proof -
  have ok: "\<not> isl (extract_tax_info example_case ''analysis'')" by code_simp
  then have e: "extract_tax_info example_case ''analysis''
                  = Inr (projr (extract_tax_info example_case ''analysis''))" by simp
  have ev: "dict_get example_case ''estate_value'' (VInt 0) = VInt 600000"
    by (simp add: example_case_def dict_get_def)
  have sok: "\<not> isl (structure_probate_results example_case ''analysis'' ''2024-05-01T10:02:00'')"
    by code_simp
  then have s: "structure_probate_results example_case ''analysis'' ''2024-05-01T10:02:00''
      = Inr (projr (structure_probate_results example_case ''analysis'' ''2024-05-01T10:02:00''))"
    by simp
  have fok: "\<not> isl (extract_tax_info float_case ''analysis'')" by code_simp
  then have fe: "extract_tax_info float_case ''analysis''
                  = Inr (projr (extract_tax_info float_case ''analysis''))" by simp
  have fv: "dict_get float_case ''estate_value'' (VInt 0) = VFloat (Dbl 1200001 1)"
    by (simp add: float_case_def dict_get_def)
  have ft: "jget (projr (extract_tax_info float_case ''analysis'')) ''estate_value''
       = Some (JStr (pound @ ''600,000.5''))"
    by code_simp
  have a: "jget (projr (extract_tax_info example_case ''analysis'')) ''potential_iht''
       = Some (JStr (pound @ ''40,000''))
    \<and> jget (projr (extract_tax_info example_case ''analysis'')) ''combined_threshold''
       = Some (JStr (pound @ ''500,000''))
    \<and> jget (projr (structure_probate_results example_case ''analysis'' ''2024-05-01T10:02:00''))
        ''tax_analysis''
       = Some (projr (extract_tax_info example_case ''analysis''))"
    using tax_estimate [OF e] ev s by auto
  have b: "jget (projr (extract_tax_info float_case ''analysis'')) ''potential_iht''
       = Some (JStr (pound @ ''40,000''))"
    using tax_estimate [OF fe] fv by auto
  from ok ev a sok fok fv ft b show ?thesis by simp
qed

subsection \<open>The job lifecycle\<close>

lemma record_outcome_other:
  "i \<noteq> k \<Longrightarrow> record_outcome st k now outcome i = st i"
  by (simp add: record_outcome_def split: option.splits sum.splits)

lemma record_outcome_same:
  "st k = Some c \<Longrightarrow>
   \<exists>c'. record_outcome st k now outcome k = Some c'
     \<and> (status c' = ''completed'' \<or> status c' = ''error'')"
  by (cases outcome) (simp_all add: record_outcome_def)

lemma run_task_other:
  "i \<noteq> bg_case_id t \<Longrightarrow> run_task ev st t i = st i"
  by (simp add: run_task_def process_probate_background_def process_divorce_background_def
      record_outcome_other split: kind.splits)

lemma run_task_same:
  "st (bg_case_id t) = Some c \<Longrightarrow>
   \<exists>c'. run_task ev st t (bg_case_id t) = Some c'
     \<and> (status c' = ''completed'' \<or> status c' = ''error'')"
  by (cases "bg_kind t")
    (simp_all add: run_task_def process_probate_background_def process_divorce_background_def
      record_outcome_same)

lemma step_unchanged:
  assumes "\<not> runs_on i e s" and "submit_id e \<noteq> Some i"
  shows "case_results (step e s) i = case_results s i"
proof (cases e)
  case (SubmitProbate token now cd)
  then show ?thesis using assms(2) by (simp add: create_probate_case_def Let_def)
next
  case (SubmitDivorce token now cd)
  then show ?thesis using assms(2) by (simp add: create_divorce_case_def Let_def)
next
  case (RunTask k ev)
  then show ?thesis using assms(1) by (auto simp: run_task_other)
qed

lemma step_submitted:
  assumes "submit_id e = Some i"
  shows "\<exists>c. case_results (step e s) i = Some c \<and> status c = ''processing''"
    and "pending_count i (step e s) = Suc (pending_count i s)"
    and "k \<noteq> i \<Longrightarrow> pending_count k (step e s) = pending_count k s"
  using assms
  by (cases e; simp add: create_probate_case_def create_divorce_case_def Let_def
      pending_count_def; fail)+

lemma step_ran:
  assumes "runs_on i e s" and "case_results s i = Some c"
  shows "\<exists>c'. case_results (step e s) i = Some c'
            \<and> (status c' = ''completed'' \<or> status c' = ''error'')"
  using assms by (cases e) (auto simp: run_task_same)

lemma filter_remove_nth:
  assumes "k < length xs"
  shows "length (filter P (take k xs @ drop (Suc k) xs))
           = length (filter P xs) - (if P (xs ! k) then 1 else 0)"
proof -
  have "xs = take k xs @ xs ! k # drop (Suc k) xs"
    using assms by (simp add: id_take_nth_drop)
  then have "length (filter P xs)
      = length (filter P (take k xs @ xs ! k # drop (Suc k) xs))" by simp
  then show ?thesis by simp
qed

lemma step_pending_run:
  assumes "e = RunTask k ev" and "k < length (pending s)"
  shows "pending_count i (step e s)
           = pending_count i s - (if bg_case_id (pending s ! k) = i then 1 else 0)"
proof -
  have "pending (step e s) = take k (pending s) @ drop (Suc k) (pending s)"
    using assms by simp
  then show ?thesis
    unfolding pending_count_def by (simp only: filter_remove_nth [OF assms(2)])
qed

lemma runs_on_pending:
  assumes "runs_on i e s"
  shows "0 < pending_count i s"
proof (cases e)
  case (RunTask k ev)
  with assms have k: "k < length (pending s)" and i: "bg_case_id (pending s ! k) = i"
    by simp_all
  then have "\<exists>t \<in> set (pending s). bg_case_id t = i" using nth_mem by blast
  then have "filter (\<lambda>t. bg_case_id t = i) (pending s) \<noteq> []"
    by (simp add: filter_empty_conv)
  then show ?thesis unfolding pending_count_def by simp
qed (use assms in simp_all)

lemma consistent_runs_on:
  assumes "consistent s i" and "runs_on i e s"
  shows "\<exists>c. case_results s i = Some c \<and> status c = ''processing'' \<and> pending_count i s = 1"
  using assms(1) runs_on_pending [OF assms(2)]
  by (auto simp: consistent_def split: option.splits)

lemma step_pending_unchanged:
  assumes "\<not> runs_on i e s" and "submit_id e \<noteq> Some i"
  shows "pending_count i (step e s) = pending_count i s"
proof (cases e)
  case (SubmitProbate token now cd)
  then show ?thesis using assms(2)
    by (simp add: create_probate_case_def Let_def pending_count_def)
next
  case (SubmitDivorce token now cd)
  then show ?thesis using assms(2)
    by (simp add: create_divorce_case_def Let_def pending_count_def)
next
  case (RunTask k ev)
  show ?thesis
  proof (cases "k < length (pending s)")
    case True
    with assms(1) RunTask have "bg_case_id (pending s ! k) \<noteq> i" by simp
    then show ?thesis using step_pending_run [OF RunTask True, of i] by simp
  next
    case False
    then show ?thesis using RunTask by simp
  qed
qed

lemma step_consistent:
  assumes "consistent s i" and "fresh_for i e s"
  shows "consistent (step e s) i"
proof (cases "runs_on i e s")
  case True
  from consistent_runs_on [OF assms(1) True]
  obtain c where c: "case_results s i = Some c" and one: "pending_count i s = 1" by blast
  from step_ran [OF True c] obtain c'
    where c': "case_results (step e s) i = Some c'"
      and t: "status c' = ''completed'' \<or> status c' = ''error''" by blast
  from True obtain k ev where e: "e = RunTask k ev" and k: "k < length (pending s)"
    and ki: "bg_case_id (pending s ! k) = i" by (cases e) auto
  have "pending_count i (step e s) = 0"
    using step_pending_run [OF e k, of i] ki one by simp
  then show ?thesis using c' t by (simp add: consistent_def)
next
  case False
  show ?thesis
  proof (cases "submit_id e = Some i")
    case True
    with assms(2) have none: "case_results s i = None" by (simp add: fresh_for_def)
    with assms(1) have "pending_count i s = 0" by (simp add: consistent_def)
    then show ?thesis
      using step_submitted(1) [OF True, of s] step_submitted(2) [OF True, of s]
      by (auto simp: consistent_def)
  next
    case sub: False
    show ?thesis
      using assms(1)
      unfolding consistent_def step_unchanged [OF False sub]
        step_pending_unchanged [OF False sub] .
  qed
qed

lemma exec_Cons: "exec (e # es) s = exec es (step e s)"
  by (simp add: exec_def)

lemma exec_append: "exec (es1 @ es2) s = exec es2 (exec es1 s)"
  by (simp add: exec_def)

lemma fresh_run_for_append:
  "fresh_run_for i (es1 @ es2) s
     = (fresh_run_for i es1 s \<and> fresh_run_for i es2 (exec es1 s))"
  by (induction es1 arbitrary: s) (simp_all add: exec_def)

lemma exec_consistent:
  "consistent s i \<Longrightarrow> fresh_run_for i es s \<Longrightarrow> consistent (exec es s) i"
proof (induction es arbitrary: s)
  case Nil
  then show ?case by (simp add: exec_def)
next
  case (Cons e es)
  from Cons.prems have f: "fresh_for i e s" and fr: "fresh_run_for i es (step e s)"
    by simp_all
  have "consistent (step e s) i" using step_consistent [OF Cons.prems(1) f] .
  from Cons.IH [OF this fr] show ?case by (simp add: exec_Cons)
qed

lemma terminal_stays:
  assumes "consistent s i" and "fresh_run_for i es s"
    and "case_results s i = Some j0" and "status j0 \<noteq> ''processing''"
  shows "case_results (exec es s) i = Some j0 \<and> executor_writes i es s = 0"
  using assms
proof (induction es arbitrary: s)
  case Nil
  then show ?case by (simp add: exec_def)
next
  case (Cons e es)
  from Cons.prems(2) have f: "fresh_for i e s" and fr: "fresh_run_for i es (step e s)"
    by simp_all
  have nr: "\<not> runs_on i e s"
    using consistent_runs_on [OF Cons.prems(1), of e] Cons.prems(3,4) by auto
  have ns: "submit_id e \<noteq> Some i"
    using f Cons.prems(3) by (auto simp: fresh_for_def)
  have st: "case_results (step e s) i = Some j0"
    using step_unchanged [OF nr ns] Cons.prems(3) by simp
  have c: "consistent (step e s) i"
    using step_consistent [OF Cons.prems(1) f] .
  from Cons.IH [OF c fr st Cons.prems(4)] nr show ?case by (simp add: exec_Cons)
qed

lemma lifecycle_from:
  assumes "consistent s i" and "fresh_run_for i es s"
    and "\<forall>j0. case_results s i = Some j0 \<longrightarrow> status j0 = ''processing''"
    and "case_results (exec es s) i = Some j"
  shows "(status j = ''processing'' \<and> executor_writes i es s = 0)
       \<or> ((status j = ''completed'' \<or> status j = ''error'') \<and> executor_writes i es s = 1)"
  using assms
proof (induction es arbitrary: s)
  case Nil
  then show ?case by (simp add: exec_def)
next
  case (Cons e es)
  from Cons.prems(2) have f: "fresh_for i e s" and fr: "fresh_run_for i es (step e s)"
    by simp_all
  have c: "consistent (step e s) i"
    using step_consistent [OF Cons.prems(1) f] .
  from Cons.prems(4) have fin: "case_results (exec es (step e s)) i = Some j"
    by (simp add: exec_Cons)
  show ?case
  proof (cases "runs_on i e s")
    case True
    from consistent_runs_on [OF Cons.prems(1) True]
    obtain c0 where c0: "case_results s i = Some c0" by blast
    from step_ran [OF True c0] obtain c'
      where c': "case_results (step e s) i = Some c'"
        and t: "status c' = ''completed'' \<or> status c' = ''error''" by blast
    from t have np: "status c' \<noteq> ''processing''" by auto
    from terminal_stays [OF c fr c' np] fin
    have "j = c'" and "executor_writes i es (step e s) = 0" by simp_all
    with t True show ?thesis by simp
  next
    case False
    have pre: "\<forall>j0. case_results (step e s) i = Some j0 \<longrightarrow> status j0 = ''processing''"
    proof (cases "submit_id e = Some i")
      case True
      from step_submitted(1) [OF True, of s] show ?thesis by auto
    next
      case sub: False
      show ?thesis using step_unchanged [OF False sub] Cons.prems(3) by simp
    qed
    from Cons.IH [OF c fr pre fin] False show ?thesis by simp
  qed
qed

lemma init_consistent: "consistent init_sys i"
  by (simp add: consistent_def init_sys_def pending_count_def)

text \<open>
  C4, amended. Take a case id \<open>i\<close> and any run from the empty service in which \<open>i\<close> is
  not generated again while it has a record (other ids may collide as they like). Then
  the status of the record of \<open>i\<close> is one of processing, completed and error (so one of
  the four of the specification); the record is created with status processing; while
  it is processing the executor has not run for it, and once it is completed or in
  error the executor has run for it exactly once; and from the moment the record is
  terminal it never changes again, so a poll never sees a terminal status go back to
  processing.
\<close>

theorem job_lifecycle:
  assumes "fresh_run_for i es init_sys" and "case_results (exec es init_sys) i = Some j"
  shows "status j \<in> {''processing'', ''completed'', ''completed_with_fallback'', ''error''}
    \<and> ((status j = ''processing'' \<and> executor_writes i es init_sys = 0)
        \<or> ((status j = ''completed'' \<or> status j = ''error'')
            \<and> executor_writes i es init_sys = 1))
    \<and> (\<forall>es1 es2 j1. es = es1 @ es2 \<and> case_results (exec es1 init_sys) i = Some j1
           \<and> status j1 \<noteq> ''processing'' \<longrightarrow> j = j1)
    \<and> (\<forall>e s. submit_id e = Some i \<longrightarrow> status_of (step e s) i = Some ''processing'')"
proof -
  have c0: "consistent init_sys i" by (rule init_consistent)
  have pre: "\<forall>j0. case_results init_sys i = Some j0 \<longrightarrow> status j0 = ''processing''"
    by (simp add: init_sys_def)
  note life = lifecycle_from [OF c0 assms(1) pre assms(2)]
  then have a: "status j \<in> {''processing'', ''completed'', ''completed_with_fallback'', ''error''}"
    by auto
  have mono: "\<forall>es1 es2 j1. es = es1 @ es2 \<and> case_results (exec es1 init_sys) i = Some j1
           \<and> status j1 \<noteq> ''processing'' \<longrightarrow> j = j1"
  proof (intro allI impI)
    fix es1 es2 j1
    assume h: "es = es1 @ es2 \<and> case_results (exec es1 init_sys) i = Some j1
           \<and> status j1 \<noteq> ''processing''"
    then have f1: "fresh_run_for i es1 init_sys"
      and f2: "fresh_run_for i es2 (exec es1 init_sys)"
      using assms(1) by (simp_all add: fresh_run_for_append)
    have c1: "consistent (exec es1 init_sys) i"
      using exec_consistent [OF c0 f1] .
    from h have j1: "case_results (exec es1 init_sys) i = Some j1"
      and t: "status j1 \<noteq> ''processing''" by simp_all
    from terminal_stays [OF c1 f2 j1 t] h assms(2) show "j = j1"
      by (simp add: exec_append)
  qed
  have created: "\<forall>e s. submit_id e = Some i \<longrightarrow> status_of (step e s) i = Some ''processing''"
    using step_submitted(1) by (fastforce simp: status_of_def)
  from a life mono created show ?thesis by blast
qed

text \<open>
  C4, as stated, fails: the observed status can go back from a terminal state to
  processing, and the executor then writes the record a second time. A divorce case is
  submitted as \<open>DIV_0000000A\<close> and processed: a poll shows \<open>completed\<close>. A later
  submission draws the same eight hex digits, and a poll of \<open>DIV_0000000A\<close> shows
  \<open>processing\<close>; when its task has run, the executor has written the record twice.
\<close>

theorem job_lifecycle_counterexample:
  "status_of (exec run_once init_sys) ''DIV_0000000A'' = Some ''completed''
   \<and> status_of (exec run_collision init_sys) ''DIV_0000000A'' = Some ''processing''
   \<and> run_collision = run_once @ [SubmitDivorce ''0000000A'' ''2024-05-01T10:05:00'' Map.empty]
   \<and> status_of (exec (run_collision @ [RunTask 0 failing_env]) init_sys) ''DIV_0000000A''
       = Some ''error''
   \<and> executor_writes ''DIV_0000000A'' (run_collision @ [RunTask 0 failing_env]) init_sys = 2"
proof -
  have "status_of (exec run_once init_sys) ''DIV_0000000A'' = Some ''completed''"
    by code_simp
  moreover have "status_of (exec run_collision init_sys) ''DIV_0000000A'' = Some ''processing''"
    by code_simp
  moreover have "status_of (exec (run_collision @ [RunTask 0 failing_env]) init_sys)
                   ''DIV_0000000A'' = Some ''error''"
    by code_simp
  moreover have
    "executor_writes ''DIV_0000000A'' (run_collision @ [RunTask 0 failing_env]) init_sys = 2"
    by code_simp
  ultimately show ?thesis by (simp add: run_collision_def)
qed

theorem job_lifecycle_witness:
  "fresh_run_for ''DIV_0000000A'' run_two init_sys
   \<and> case_results (exec run_two init_sys) ''DIV_0000000A'' \<noteq> None
   \<and> status_of (exec run_two init_sys) ''DIV_0000000A'' = Some ''completed''
   \<and> executor_writes ''DIV_0000000A'' run_two init_sys = 1
   \<and> status_of (exec run_two init_sys) ''PROB_0000000B'' = Some ''error''
   \<and> pending_count ''PROB_0000000B'' (exec run_two init_sys) = 1"
proof -
  have f: "fresh_run_for ''DIV_0000000A'' run_two init_sys" by code_simp
  have st: "status_of (exec run_two init_sys) ''DIV_0000000A'' = Some ''completed''"
    by code_simp
  have other: "status_of (exec run_two init_sys) ''PROB_0000000B'' = Some ''error''
                \<and> pending_count ''PROB_0000000B'' (exec run_two init_sys) = 1"
    by code_simp
  from st obtain j where j: "case_results (exec run_two init_sys) ''DIV_0000000A'' = Some j"
    and sj: "status j = ''completed''"
    by (auto simp: status_of_def)
  from job_lifecycle [OF f j] sj
  have "executor_writes ''DIV_0000000A'' run_two init_sys = 1" by auto
  with f st j other show ?thesis by simp
qed

end
